theory Spec2Isabelle
  imports Complex_Main
begin

unbundle bit_operations_syntax

section \<open>JavaScript string primitives used by the operators\<close>

text \<open>
  Strings are lists of code units; the model covers code units below 256.
  Numbers that the operators compute with (coordinates, scale factors) are exact
  rationals: the source divides and interpolates, it never rounds.
\<close>

definition backslash :: char where
  "backslash = CHR 0x5C"

definition newline :: char where
  "newline = CHR 0x0A"

text \<open>White space and line terminators, as \<^verbatim>\<open>String.prototype.trim\<close> and the regular
  expression class \<^verbatim>\<open>\s\<close> see them.\<close>

definition is_js_space :: "char \<Rightarrow> bool" where
  "is_js_space c = (c \<in> set [CHR 0x09, CHR 0x0A, CHR 0x0B, CHR 0x0C, CHR 0x0D, CHR 0x20, CHR 0xA0])"

definition trim :: "string \<Rightarrow> string" where
  "trim s = rev (dropWhile is_js_space (rev (dropWhile is_js_space s)))"

definition startsWith :: "string \<Rightarrow> string \<Rightarrow> bool" where
  "startsWith s p = (take (length p) s = p)"

definition endsWith :: "string \<Rightarrow> string \<Rightarrow> bool" where
  "endsWith s p = (length p \<le> length s \<and> drop (length s - length p) s = p)"

text \<open>\<^verbatim>\<open>s.replace(/p$/, '')\<close> for a literal pattern \<open>p\<close>: the pattern is anchored at the
  end of the input, so at most the final occurrence is removed.\<close>

definition replace_at_end :: "string \<Rightarrow> string \<Rightarrow> string" where
  "replace_at_end s p = (if endsWith s p then take (length s - length p) s else s)"

definition toLowerCase_char :: "char \<Rightarrow> char" where
  "toLowerCase_char c =
     (let n = (of_char c :: nat)
      in if (65 \<le> n \<and> n \<le> 90) \<or> (192 \<le> n \<and> n \<le> 222 \<and> n \<noteq> 215)
         then char_of (n + 32) else c)"

definition toLowerCase :: "string \<Rightarrow> string" where
  "toLowerCase s = map toLowerCase_char s"

text \<open>A string between double quotes, as the log messages show it.\<close>

definition quoted :: "string \<Rightarrow> string" where
  "quoted s = [CHR 0x22] @ s @ [CHR 0x22]"

text \<open>\<^verbatim>\<open>s.includes(p)\<close>\<close>

fun str_includes :: "string \<Rightarrow> string \<Rightarrow> bool" where
  "str_includes [] p = (p = [])"
| "str_includes (c # cs) p = (startsWith (c # cs) p \<or> str_includes cs p)"

text \<open>A JavaScript value used as a condition: an absent or empty string is falsy.\<close>

definition truthy :: "string option \<Rightarrow> bool" where
  "truthy v = (case v of None \<Rightarrow> False | Some s \<Rightarrow> s \<noteq> [])"

text \<open>\<^verbatim>\<open>v || ''\<close>\<close>

definition or_empty :: "string option \<Rightarrow> string" where
  "or_empty v = (case v of None \<Rightarrow> [] | Some s \<Rightarrow> s)"

section \<open>The remote instrumentation channel\<close>

datatype mouse_event_type = mouseMoved | mousePressed | mouseReleased

datatype key_event_type = rawKeyDown | keyUp

text \<open>
  The protocol commands the embedded-surface operator sends. The arguments are the
  parameters the source passes, in the order it writes them:
  \<^item> mouse event (\<^verbatim>\<open>Input.dispatchMouseEvent\<close>): type, x, y, button, clickCount;
  \<^item> wheel event (\<^verbatim>\<open>Input.dispatchMouseEvent\<close> of type \<^verbatim>\<open>mouseWheel\<close>): x, y, deltaX,
    deltaY;
  \<^item> key event: type, key, code, windowsVirtualKeyCode, modifiers, commands
    (a parameter the source leaves out, or sets to \<^verbatim>\<open>undefined\<close>, is \<open>None\<close>).
\<close>

datatype cdp_call =
    Emulation_setDeviceMetricsOverride nat nat nat bool
  | Runtime_evaluate string
  | Page_captureScreenshot
  | Page_getLayoutMetrics
  | Page_navigate string
  | Input_dispatchMouseEvent mouse_event_type rat rat string nat
  | Input_dispatchMouseEvent_wheel rat rat int int
  | Input_insertText string
  | Input_dispatchKeyEvent key_event_type "string option" "string option" "nat option"
      "nat option" "string list option"

datatype log_level = Info | Warn | Err

text \<open>Everything the operator does to the outside world, in the order it does it.\<close>

datatype effect =
    SendCommand cdp_call
  | Delay nat
  | Log log_level string
  | GetAllWebContents
  | DebuggerIsAttached nat
  | DebuggerDetach nat
  | DebuggerAttach nat
  | RegisterListeners nat

datatype error = Error string

record webContents =
  wc_id :: nat
  wc_type :: string

text \<open>
  The host environment of the embedded-surface operator. None of it is code of the
  operator; each field is what the host answers when the operator asks.
  \<^item> \<open>isMac\<close>: \<^verbatim>\<open>os.platform() === 'darwin'\<close>;
  \<^item> \<open>parseBoxToScreenCoords\<close>: the SDK's box parser (box string, screen width, screen
    height), giving the x and y of the point or \<^verbatim>\<open>null\<close>;
  \<^item> \<open>URL_protocol\<close>: \<^verbatim>\<open>new URL(s).protocol\<close>, \<open>None\<close> when the constructor throws;
  \<^item> \<open>allWebContents k\<close>: the result of the \<open>k\<close>-th call of
    \<^verbatim>\<open>webContents.getAllWebContents()\<close>, counted from 0;
  \<^item> \<open>isDestroyed\<close>: \<^verbatim>\<open>wc.isDestroyed()\<close>, by id;
  \<^item> \<open>attach_error\<close>, \<open>detach_error\<close>: the message \<^verbatim>\<open>debugger.attach\<close> and
    \<^verbatim>\<open>debugger.detach\<close> throw for a surface, \<open>None\<close> when they succeed;
  \<^item> \<open>sendCommand_error k\<close>: the message the \<open>k\<close>-th \<^verbatim>\<open>debugger.sendCommand\<close> rejects
    with, \<open>None\<close> when it resolves;
  \<^item> \<open>devicePixelRatio\<close>: the value of \<^verbatim>\<open>window.devicePixelRatio\<close> when it is a number;
  \<^item> \<open>clientWidth\<close>, \<open>clientHeight\<close>: \<^verbatim>\<open>cssLayoutViewport?.clientWidth\<close> and
    \<^verbatim>\<open>clientHeight\<close> of the layout metrics;
  \<^item> \<open>screenshot_data\<close>: the image the capture command returns.
\<close>

record env =
  isMac :: bool
  parseBoxToScreenCoords :: "string \<Rightarrow> rat \<Rightarrow> rat \<Rightarrow> rat option \<times> rat option"
  URL_protocol :: "string \<Rightarrow> string option"
  allWebContents :: "nat \<Rightarrow> webContents list"
  isDestroyed :: "nat \<Rightarrow> bool"
  attach_error :: "nat \<Rightarrow> string option"
  detach_error :: "nat \<Rightarrow> string option"
  sendCommand_error :: "nat \<Rightarrow> string option"
  devicePixelRatio :: "rat option"
  clientWidth :: "rat option"
  clientHeight :: "rat option"
  screenshot_data :: string

text \<open>
  The operator's fields (\<open>wc\<close>, \<open>debuggerAttached\<close>, \<open>deviceScaleFactor\<close>), the host
  state it changes (\<open>attached\<close>: the surfaces a debugger is attached to), the counters
  that index the environment's answers, and the effects performed so far.
\<close>

record opstate =
  wc :: "webContents option"
  debuggerAttached :: bool
  deviceScaleFactor :: "rat option"
  attached :: "nat set"
  queries :: nat
  commands :: nat
  trace :: "effect list"

definition emit :: "effect \<Rightarrow> opstate \<Rightarrow> opstate" where
  "emit e s = s\<lparr>trace := trace s @ [e]\<rparr>"

text \<open>\<^verbatim>\<open>cdp(method, params)\<close>: throws before sending when there is no surface or the
  debugger flag is unset; otherwise sends the command, which the host resolves or rejects.\<close>

definition cdp :: "env \<Rightarrow> cdp_call \<Rightarrow> opstate \<Rightarrow> (error + unit) \<times> opstate" where
  "cdp e c s =
     (if wc s = None \<or> \<not> debuggerAttached s
      then (Inl (Error ''[EmbeddedBrowserOperator] Debugger not connected''), s)
      else let s' = (emit (SendCommand c) s)\<lparr>commands := commands s + 1\<rparr>
           in case sendCommand_error e (commands s) of
                Some m \<Rightarrow> (Inl (Error m), s')
              | None \<Rightarrow> (Inr (), s'))"

text \<open>A handler whose control flow does not depend on the host's answers is the list of
  its awaited effects; \<open>run_steps\<close> performs them in order and stops at the first
  command that throws.\<close>

definition perform :: "env \<Rightarrow> effect \<Rightarrow> opstate \<Rightarrow> (error + unit) \<times> opstate" where
  "perform e x s = (case x of SendCommand c \<Rightarrow> cdp e c s | _ \<Rightarrow> (Inr (), emit x s))"

fun run_steps :: "env \<Rightarrow> effect list \<Rightarrow> opstate \<Rightarrow> (error + unit) \<times> opstate" where
  "run_steps e [] s = (Inr (), s)"
| "run_steps e (x # rest) s =
     (case perform e x s of
        (Inl err, s') \<Rightarrow> (Inl err, s')
      | (Inr _, s') \<Rightarrow> run_steps e rest s')"

section \<open>Navigate\<close>

text \<open>\<^verbatim>\<open>isValidNavigationUrl\<close>: the URL parses and its protocol is in the allow-list.\<close>

definition isValidNavigationUrl :: "env \<Rightarrow> string \<Rightarrow> bool" where
  "isValidNavigationUrl e url =
     (case URL_protocol e url of
        None \<Rightarrow> False
      | Some p \<Rightarrow> p \<in> set [''http:'', ''https:''])"

text \<open>\<^verbatim>\<open>/^https?:\/\//i.test(url)\<close>\<close>

definition has_http_prefix :: "string \<Rightarrow> bool" where
  "has_http_prefix url =
     (toLowerCase (take 7 url) = ''http://'' \<or> toLowerCase (take 8 url) = ''https://'')"

definition navigation_url :: "string \<Rightarrow> string" where
  "navigation_url rawUrl = (if \<not> has_http_prefix rawUrl then ''https://'' @ rawUrl else rawUrl)"

definition handleNavigate :: "env \<Rightarrow> string \<Rightarrow> effect list" where
  "handleNavigate e rawUrl =
     (let url = navigation_url rawUrl
      in if \<not> isValidNavigationUrl e url
         then [Log Warn (''[EmbeddedBrowserOperator] Blocked navigation to unsafe URL: '' @ url)]
         else [Log Info (''[EmbeddedBrowserOperator] Navigating to: '' @ url),
               SendCommand (Page_navigate url),
               Delay 2000])"

section \<open>Key definitions\<close>

text \<open>A \<^verbatim>\<open>KeyDef\<close>. A field is \<open>None\<close> where the JavaScript value is \<^verbatim>\<open>undefined\<close>;
  an undefined \<^verbatim>\<open>isModifier\<close> is \<open>False\<close>, as both of its uses test it as a condition.\<close>

record KeyDef =
  key :: "string option"
  code :: "string option"
  keyCode :: "nat option"
  isModifier :: bool
  modifierBit :: "nat option"

definition mk_key :: "string \<Rightarrow> string \<Rightarrow> nat \<Rightarrow> KeyDef" where
  "mk_key k c n =
     \<lparr>key = Some k, code = Some c, keyCode = Some n, isModifier = False, modifierBit = None\<rparr>"

definition mk_modifier :: "string \<Rightarrow> string \<Rightarrow> nat \<Rightarrow> nat \<Rightarrow> KeyDef" where
  "mk_modifier k c n b =
     \<lparr>key = Some k, code = Some c, keyCode = Some n, isModifier = True, modifierBit = Some b\<rparr>"

text \<open>The entries of \<^verbatim>\<open>KEY_DEFS\<close>, in the order of the source.\<close>

definition KEY_DEFS_table :: "bool \<Rightarrow> (string \<times> KeyDef) list" where
  "KEY_DEFS_table mac =
     [(''shift'', mk_modifier ''Shift'' ''ShiftLeft'' 16 8),
      (''alt'', mk_modifier ''Alt'' ''AltLeft'' 18 1),
      (''control'', if mac then mk_modifier ''Meta'' ''MetaLeft'' 91 4 else mk_modifier ''Control'' ''ControlLeft'' 17 2),
      (''ctrl'', if mac then mk_modifier ''Meta'' ''MetaLeft'' 91 4 else mk_modifier ''Control'' ''ControlLeft'' 17 2),
      (''cmd'', mk_modifier ''Meta'' ''MetaLeft'' 91 4),
      (''command'', mk_modifier ''Meta'' ''MetaLeft'' 91 4),
      (''meta'', mk_modifier ''Meta'' ''MetaLeft'' 91 4),
      (''enter'', mk_key ''Enter'' ''Enter'' 13),
      (''return'', mk_key ''Enter'' ''Enter'' 13),
      (''tab'', mk_key ''Tab'' ''Tab'' 9),
      (''escape'', mk_key ''Escape'' ''Escape'' 27),
      (''esc'', mk_key ''Escape'' ''Escape'' 27),
      (''backspace'', mk_key ''Backspace'' ''Backspace'' 8),
      (''delete'', mk_key ''Delete'' ''Delete'' 46),
      (''space'', mk_key '' '' ''Space'' 32),
      (''insert'', mk_key ''Insert'' ''Insert'' 45),
      (''home'', mk_key ''Home'' ''Home'' 36),
      (''end'', mk_key ''End'' ''End'' 35),
      (''pageup'', mk_key ''PageUp'' ''PageUp'' 33),
      (''pagedown'', mk_key ''PageDown'' ''PageDown'' 34),
      (''capslock'', mk_key ''CapsLock'' ''CapsLock'' 20),
      (''up'', mk_key ''ArrowUp'' ''ArrowUp'' 38),
      (''down'', mk_key ''ArrowDown'' ''ArrowDown'' 40),
      (''left'', mk_key ''ArrowLeft'' ''ArrowLeft'' 37),
      (''right'', mk_key ''ArrowRight'' ''ArrowRight'' 39),
      (''arrowup'', mk_key ''ArrowUp'' ''ArrowUp'' 38),
      (''arrowdown'', mk_key ''ArrowDown'' ''ArrowDown'' 40),
      (''arrowleft'', mk_key ''ArrowLeft'' ''ArrowLeft'' 37),
      (''arrowright'', mk_key ''ArrowRight'' ''ArrowRight'' 39),
      (''f1'', mk_key ''F1'' ''F1'' 112),
      (''f2'', mk_key ''F2'' ''F2'' 113),
      (''f3'', mk_key ''F3'' ''F3'' 114),
      (''f4'', mk_key ''F4'' ''F4'' 115),
      (''f5'', mk_key ''F5'' ''F5'' 116),
      (''f6'', mk_key ''F6'' ''F6'' 117),
      (''f7'', mk_key ''F7'' ''F7'' 118),
      (''f8'', mk_key ''F8'' ''F8'' 119),
      (''f9'', mk_key ''F9'' ''F9'' 120),
      (''f10'', mk_key ''F10'' ''F10'' 121),
      (''f11'', mk_key ''F11'' ''F11'' 122),
      (''f12'', mk_key ''F12'' ''F12'' 123),
      (''a'', mk_key ''a'' ''KeyA'' 65),
      (''b'', mk_key ''b'' ''KeyB'' 66),
      (''c'', mk_key ''c'' ''KeyC'' 67),
      (''d'', mk_key ''d'' ''KeyD'' 68),
      (''e'', mk_key ''e'' ''KeyE'' 69),
      (''f'', mk_key ''f'' ''KeyF'' 70),
      (''g'', mk_key ''g'' ''KeyG'' 71),
      (''h'', mk_key ''h'' ''KeyH'' 72),
      (''i'', mk_key ''i'' ''KeyI'' 73),
      (''j'', mk_key ''j'' ''KeyJ'' 74),
      (''k'', mk_key ''k'' ''KeyK'' 75),
      (''l'', mk_key ''l'' ''KeyL'' 76),
      (''m'', mk_key ''m'' ''KeyM'' 77),
      (''n'', mk_key ''n'' ''KeyN'' 78),
      (''o'', mk_key ''o'' ''KeyO'' 79),
      (''p'', mk_key ''p'' ''KeyP'' 80),
      (''q'', mk_key ''q'' ''KeyQ'' 81),
      (''r'', mk_key ''r'' ''KeyR'' 82),
      (''s'', mk_key ''s'' ''KeyS'' 83),
      (''t'', mk_key ''t'' ''KeyT'' 84),
      (''u'', mk_key ''u'' ''KeyU'' 85),
      (''v'', mk_key ''v'' ''KeyV'' 86),
      (''w'', mk_key ''w'' ''KeyW'' 87),
      (''x'', mk_key ''x'' ''KeyX'' 88),
      (''y'', mk_key ''y'' ''KeyY'' 89),
      (''z'', mk_key ''z'' ''KeyZ'' 90),
      (''0'', mk_key ''0'' ''Digit0'' 48),
      (''1'', mk_key ''1'' ''Digit1'' 49),
      (''2'', mk_key ''2'' ''Digit2'' 50),
      (''3'', mk_key ''3'' ''Digit3'' 51),
      (''4'', mk_key ''4'' ''Digit4'' 52),
      (''5'', mk_key ''5'' ''Digit5'' 53),
      (''6'', mk_key ''6'' ''Digit6'' 54),
      (''7'', mk_key ''7'' ''Digit7'' 55),
      (''8'', mk_key ''8'' ''Digit8'' 56),
      (''9'', mk_key ''9'' ''Digit9'' 57),
      ('','', mk_key '','' ''Comma'' 188),
      (''comma'', mk_key '','' ''Comma'' 188),
      (''.'', mk_key ''.'' ''Period'' 190),
      (''period'', mk_key ''.'' ''Period'' 190),
      (''/'', mk_key ''/'' ''Slash'' 191),
      (''slash'', mk_key ''/'' ''Slash'' 191),
      ([backslash], mk_key [backslash] ''Backslash'' 220),
      (''backslash'', mk_key [backslash] ''Backslash'' 220),
      (''-'', mk_key ''-'' ''Minus'' 189),
      (''minus'', mk_key ''-'' ''Minus'' 189),
      (''='', mk_key ''='' ''Equal'' 187),
      (''equal'', mk_key ''='' ''Equal'' 187),
      (''['', mk_key ''['' ''BracketLeft'' 219),
      ('']'', mk_key '']'' ''BracketRight'' 221),
      ('';'', mk_key '';'' ''Semicolon'' 186),
      (''semicolon'', mk_key '';'' ''Semicolon'' 186),
      ([CHR 0x27], mk_key [CHR 0x27] ''Quote'' 222),
      (''quote'', mk_key [CHR 0x27] ''Quote'' 222),
      ([CHR 0x60], mk_key [CHR 0x60] ''Backquote'' 192),
      (''backquote'', mk_key [CHR 0x60] ''Backquote'' 192),
      (''win'', mk_modifier ''Meta'' ''MetaLeft'' 91 4)]"

text \<open>
  \<^verbatim>\<open>KEY_DEFS[name]\<close>. The table is a plain object, so the two all-lower-case names it
  inherits from its prototype (\<^verbatim>\<open>constructor\<close>, \<^verbatim>\<open>__proto__\<close>) look up to an object
  that is not a key definition: it passes the \<^verbatim>\<open>if (!def)\<close> test and every field read from
  it is \<^verbatim>\<open>undefined\<close>.
\<close>

definition inherited_member :: KeyDef where
  "inherited_member =
     \<lparr>key = None, code = None, keyCode = None, isModifier = False, modifierBit = None\<rparr>"

definition KEY_DEFS :: "bool \<Rightarrow> string \<Rightarrow> KeyDef option" where
  "KEY_DEFS mac name =
     (case map_of (KEY_DEFS_table mac) name of
        Some d \<Rightarrow> Some d
      | None \<Rightarrow> if name \<in> set [''constructor'', ''__proto__''] then Some inherited_member else None)"

definition MAC_SHORTCUT_COMMANDS :: "string \<Rightarrow> string option" where
  "MAC_SHORTCUT_COMMANDS =
     map_of
       [(''Meta+a'', ''selectAll''),
        (''Meta+c'', ''copy''),
        (''Meta+x'', ''cut''),
        (''Meta+v'', ''paste''),
        (''Meta+z'', ''undo''),
        (''Meta+y'', ''redo''),
        (''Meta+Shift+z'', ''redo'')]"

section \<open>Splitting a key string\<close>

text \<open>\<^verbatim>\<open>\w\<close> and \<^verbatim>\<open>\b\<close> of a regular expression without the unicode flag.\<close>

definition is_word_char :: "char \<Rightarrow> bool" where
  "is_word_char c =
     (let n = (of_char c :: nat)
      in (48 \<le> n \<and> n \<le> 57) \<or> (65 \<le> n \<and> n \<le> 90) \<or> (97 \<le> n \<and> n \<le> 122) \<or> n = 95)"

definition word_boundary :: "char option \<Rightarrow> char option \<Rightarrow> bool" where
  "word_boundary a b =
     ((case a of None \<Rightarrow> False | Some c \<Rightarrow> is_word_char c)
      \<noteq> (case b of None \<Rightarrow> False | Some c \<Rightarrow> is_word_char c))"

text \<open>Matching a lower-case ASCII word at the head of a string under the \<^verbatim>\<open>i\<close> flag;
  the result is the rest of the string.\<close>

fun match_ci :: "string \<Rightarrow> string \<Rightarrow> string option" where
  "match_ci [] s = Some s"
| "match_ci (p # ps) [] = None"
| "match_ci (p # ps) (c # cs) = (if toLowerCase_char c = p then match_ci ps cs else None)"

definition head_opt :: "string \<Rightarrow> char option" where
  "head_opt s = (case s of [] \<Rightarrow> None | c # _ \<Rightarrow> Some c)"

text \<open>
  \<^verbatim>\<open>/\bw1\s+w2\b/i\<close> (\<open>min_ws = 1\<close>) or \<^verbatim>\<open>/\bw1\s*w2\b/i\<close> (\<open>min_ws = 0\<close>) matched at the
  head of \<open>s\<close>, where \<open>prev\<close> is the character before \<open>s\<close>. Both words are made of word
  characters, so the leading \<^verbatim>\<open>\b\<close> asks for a non-word character before and the trailing
  one for a non-word character after. The white space is taken greedily; giving some
  back cannot help, as the second word does not start with white space.
\<close>

definition match_phrase :: "string \<Rightarrow> nat \<Rightarrow> string \<Rightarrow> char option \<Rightarrow> string \<Rightarrow> string option" where
  "match_phrase w1 min_ws w2 prev s =
     (if \<not> word_boundary prev (head_opt s) then None
      else case match_ci w1 s of
             None \<Rightarrow> None
           | Some r1 \<Rightarrow>
               (let r2 = dropWhile is_js_space r1
                in if length r1 - length r2 < min_ws then None
                   else case match_ci w2 r2 of
                          None \<Rightarrow> None
                        | Some r3 \<Rightarrow>
                            if word_boundary (Some (last w2)) (head_opt r3) then Some r3 else None))"

text \<open>\<^verbatim>\<open>s.replace(/.../gi, r)\<close> for such a pattern: \<open>skip\<close> counts the characters of the
  current match that are still to be passed over.\<close>

fun replace_phrase ::
  "string \<Rightarrow> nat \<Rightarrow> string \<Rightarrow> string \<Rightarrow> nat \<Rightarrow> char option \<Rightarrow> string \<Rightarrow> string" where
  "replace_phrase w1 min_ws w2 r skip prev [] = []"
| "replace_phrase w1 min_ws w2 r skip prev (c # cs) =
     (if 0 < skip then replace_phrase w1 min_ws w2 r (skip - 1) (Some c) cs
      else case match_phrase w1 min_ws w2 prev (c # cs) of
             Some rest \<Rightarrow>
               r @ replace_phrase w1 min_ws w2 r (length cs - length rest) (Some c) cs
           | None \<Rightarrow> c # replace_phrase w1 min_ws w2 r 0 (Some c) cs)"

definition normalize_keys :: "string \<Rightarrow> string" where
  "normalize_keys keyStr =
     (let s1 = replace_phrase ''page'' 1 ''down'' ''pagedown'' 0 None keyStr;
          s2 = replace_phrase ''page'' 1 ''up'' ''pageup'' 0 None s1;
          s3 = replace_phrase ''caps'' 0 ''lock'' ''capslock'' 0 None s2;
          s4 = replace_phrase ''scroll'' 0 ''lock'' ''scrolllock'' 0 None s3;
          s5 = replace_phrase ''num'' 0 ''lock'' ''numlock'' 0 None s4;
          s6 = replace_phrase ''print'' 0 ''screen'' ''printscreen'' 0 None s5
      in replace_phrase ''context'' 0 ''menu'' ''contextmenu'' 0 None s6)"

text \<open>\<^verbatim>\<open>s.split(/[\s+]+/).filter(Boolean)\<close>: the maximal runs of characters that are
  neither white space nor \<^verbatim>\<open>+\<close>.\<close>

definition is_separator :: "char \<Rightarrow> bool" where
  "is_separator c = (is_js_space c \<or> c = CHR ''+'')"

fun split_keys :: "string \<Rightarrow> string \<Rightarrow> string list" where
  "split_keys cur [] = (if cur = [] then [] else [cur])"
| "split_keys cur (c # cs) =
     (if is_separator c
      then (if cur = [] then split_keys [] cs else cur # split_keys [] cs)
      else split_keys (cur @ [c]) cs)"

text \<open>\<^verbatim>\<open>xs.join(sep)\<close>\<close>

fun join :: "string \<Rightarrow> string list \<Rightarrow> string" where
  "join sep [] = []"
| "join sep [x] = x"
| "join sep (x # y # ys) = x @ sep @ join sep (y # ys)"

section \<open>Composed input actions\<close>

text \<open>The \<^verbatim>\<open>action_inputs\<close> of a parsed prediction: the fields the operators read.\<close>

record action_inputs =
  start_box :: "string option"
  end_box :: "string option"
  content :: "string option"
  inputs_key :: "string option"
  inputs_hotkey :: "string option"
  direction :: "string option"

record ExecuteParams =
  action_type :: string
  inputs :: action_inputs
  screenWidth :: rat
  screenHeight :: rat

subsection \<open>Mouse\<close>

definition mouseMove :: "rat \<Rightarrow> rat \<Rightarrow> effect list" where
  "mouseMove x y = [SendCommand (Input_dispatchMouseEvent mouseMoved x y ''none'' 0)]"

definition mouseClick :: "rat \<Rightarrow> rat \<Rightarrow> string \<Rightarrow> nat \<Rightarrow> effect list" where
  "mouseClick x y button clickCount =
     mouseMove x y @
     [Delay 100,
      SendCommand (Input_dispatchMouseEvent mousePressed x y button clickCount),
      Delay 50,
      SendCommand (Input_dispatchMouseEvent mouseReleased x y button clickCount),
      Delay 800]"

subsection \<open>Keyboard\<close>

text \<open>A key event for a key definition, with the \<^verbatim>\<open>modifiers\<close> and \<^verbatim>\<open>commands\<close>
  parameters given or left out.\<close>

definition key_event ::
  "key_event_type \<Rightarrow> KeyDef \<Rightarrow> nat option \<Rightarrow> string list option \<Rightarrow> cdp_call" where
  "key_event t d modifiers cmds =
     Input_dispatchKeyEvent t (key d) (code d) (keyCode d) modifiers cmds"

definition keyTap :: "KeyDef \<Rightarrow> effect list" where
  "keyTap d =
     [SendCommand (key_event rawKeyDown d None None),
      Delay 50,
      SendCommand (key_event keyUp d None None)]"

text \<open>\<^verbatim>\<open>handleType\<close>. The content is trimmed first; the two tests for a trailing newline
  marker and the two replacements then work on the trimmed string.\<close>

definition handleType :: "bool \<Rightarrow> action_inputs \<Rightarrow> effect list" where
  "handleType mac inp =
     (let content' = map_option trim (content inp)
      in if \<not> truthy content' then []
         else
           let c = or_empty content';
               stripContent = replace_at_end (replace_at_end c [backslash, CHR ''n'']) [newline]
           in [SendCommand (Input_insertText stripContent)] @
              (if endsWith c [newline] \<or> endsWith c [backslash, CHR ''n'']
               then [Delay 50] @
                    (case KEY_DEFS mac ''enter'' of Some d \<Rightarrow> keyTap d | None \<Rightarrow> []) @
                    [Delay 2000]
               else []))"

text \<open>The first loop of \<^verbatim>\<open>handleHotkey\<close>: a warning for every key without a definition,
  and the definitions of the others, in the order of the keys.\<close>

definition unsupported_key_warnings :: "bool \<Rightarrow> string list \<Rightarrow> effect list" where
  "unsupported_key_warnings mac keys =
     concat (map (\<lambda>k. case KEY_DEFS mac (toLowerCase k) of
                         None \<Rightarrow> [Log Warn (''[EmbeddedBrowserOperator] Unsupported key: '' @ quoted k @ '', skipping'')]
                       | Some d \<Rightarrow> []) keys)"

definition resolve_keys :: "bool \<Rightarrow> string list \<Rightarrow> KeyDef list" where
  "resolve_keys mac keys = List.map_filter (\<lambda>k. KEY_DEFS mac (toLowerCase k)) keys"

text \<open>\<^verbatim>\<open>modifiers.reduce((acc, m) => acc | (m.modifierBit || 0), 0)\<close>\<close>

definition modifier_bits :: "KeyDef list \<Rightarrow> nat" where
  "modifier_bits modifiers =
     foldl (\<lambda>acc m. acc OR (case modifierBit m of None \<Rightarrow> 0 | Some b \<Rightarrow> b)) 0 modifiers"

text \<open>\<^verbatim>\<open>isMac ? MAC_SHORTCUT_COMMANDS[defs.map((d) => d.key).join('+')] : undefined\<close>\<close>

definition mac_command :: "bool \<Rightarrow> KeyDef list \<Rightarrow> string option" where
  "mac_command mac defs =
     (if mac then MAC_SHORTCUT_COMMANDS (join ''+'' (map (\<lambda>d. or_empty (key d)) defs)) else None)"

definition press_release :: "nat \<Rightarrow> string option \<Rightarrow> KeyDef \<Rightarrow> effect list" where
  "press_release modifierBits macCommand k =
     [SendCommand (key_event rawKeyDown k (Some modifierBits) (map_option (\<lambda>c. [c]) macCommand)),
      Delay 50,
      SendCommand (key_event keyUp k (Some modifierBits) None)]"

definition multi_key_shortcut :: "bool \<Rightarrow> KeyDef list \<Rightarrow> effect list" where
  "multi_key_shortcut mac defs =
     (let modifiers = filter isModifier defs;
          nonModifiers = filter (\<lambda>d. \<not> isModifier d) defs;
          modifierBits = modifier_bits modifiers;
          macCommand = mac_command mac defs
      in map (\<lambda>m. SendCommand (key_event rawKeyDown m (Some modifierBits) None)) modifiers @
         concat (map (press_release modifierBits macCommand) nonModifiers) @
         map (\<lambda>m. SendCommand (key_event keyUp m (Some 0) None)) (rev modifiers))"

definition handleHotkey :: "bool \<Rightarrow> action_inputs \<Rightarrow> effect list" where
  "handleHotkey mac inp =
     (let keyStr = (if truthy (inputs_key inp) then inputs_key inp else inputs_hotkey inp)
      in if \<not> truthy keyStr then []
         else
           let keys = split_keys [] (normalize_keys (or_empty keyStr));
               defs = resolve_keys mac keys
           in unsupported_key_warnings mac keys @
              (if length defs = 0
               then [Log Warn (''[EmbeddedBrowserOperator] No valid keys found in hotkey: ''
                               @ quoted (or_empty keyStr))]
               else (if length defs = 1 then keyTap (hd defs) else multi_key_shortcut mac defs)
                    @ [Delay 500]))"

text \<open>\<^verbatim>\<open>handleKeyAction\<close>: one key-down (\<open>down = True\<close>) or key-up per named key.\<close>

definition handleKeyAction :: "bool \<Rightarrow> action_inputs \<Rightarrow> bool \<Rightarrow> effect list" where
  "handleKeyAction mac inp down =
     (if \<not> truthy (inputs_key inp) then []
      else concat (map (\<lambda>k. case KEY_DEFS mac (toLowerCase k) of
                   None \<Rightarrow>
                     [Log Warn (''[EmbeddedBrowserOperator] Unsupported key in ''
                                @ (if down then ''down'' else ''up'') @ '': '' @ quoted k @ '', skipping'')]
                 | Some d \<Rightarrow>
                     [SendCommand (key_event (if down then rawKeyDown else keyUp) d None None),
                      Delay 50])
             (split_keys [] (or_empty (inputs_key inp)))))"

subsection \<open>Drag\<close>

definition drag_step :: "rat \<Rightarrow> rat \<Rightarrow> rat \<Rightarrow> rat \<Rightarrow> nat \<Rightarrow> effect list" where
  "drag_step sx sy ex ey i =
     mouseMove (sx + ((ex - sx) * of_nat i) / 10) (sy + ((ey - sy) * of_nat i) / 10) @ [Delay 30]"

definition handleDrag :: "env \<Rightarrow> action_inputs \<Rightarrow> rat \<Rightarrow> rat \<Rightarrow> rat \<Rightarrow> effect list" where
  "handleDrag e inp scaleFactor w h =
     (let startBoxStr = or_empty (start_box inp);
          endBoxStr = or_empty (end_box inp)
      in if startBoxStr = [] \<or> endBoxStr = [] then []
         else
           let startCoords = parseBoxToScreenCoords e startBoxStr w h;
               endCoords = parseBoxToScreenCoords e endBoxStr w h;
               sx = map_option (\<lambda>x. x / scaleFactor) (fst startCoords);
               sy = map_option (\<lambda>y. y / scaleFactor) (snd startCoords);
               ex = map_option (\<lambda>x. x / scaleFactor) (fst endCoords);
               ey = map_option (\<lambda>y. y / scaleFactor) (snd endCoords)
           in case (sx, sy, ex, ey) of
                (Some sx, Some sy, Some ex, Some ey) \<Rightarrow>
                  mouseMove sx sy @
                  [Delay 100,
                   SendCommand (Input_dispatchMouseEvent mousePressed sx sy ''left'' 1)] @
                  concat (map (drag_step sx sy ex ey) [1 ..< 11]) @
                  [Delay 100,
                   SendCommand (Input_dispatchMouseEvent mouseReleased ex ey ''left'' 1),
                   Delay 800]
              | _ \<Rightarrow> [])"

subsection \<open>Scroll\<close>

text \<open>\<^verbatim>\<open>v || d\<close> for a number: absent and zero are falsy.\<close>

definition or_default :: "rat option \<Rightarrow> rat \<Rightarrow> rat" where
  "or_default v d = (case v of None \<Rightarrow> d | Some x \<Rightarrow> if x = 0 then d else x)"

definition wheel :: "rat \<Rightarrow> rat \<Rightarrow> int \<Rightarrow> int \<Rightarrow> effect list" where
  "wheel cx cy deltaX deltaY =
     [SendCommand (Input_dispatchMouseEvent_wheel cx cy deltaX deltaY), Delay 500]"

text \<open>\<^verbatim>\<open>handleScroll\<close> asks for the layout metrics first; the wheel event is anchored at
  the centre of the viewport they report (the host's \<open>clientWidth\<close> and \<open>clientHeight\<close>).\<close>

definition handleScroll :: "env \<Rightarrow> action_inputs \<Rightarrow> effect list" where
  "handleScroll e inp =
     SendCommand Page_getLayoutMetrics #
     (let scrollAmount = 500;
          cx = or_default (clientWidth e) 800 / 2;
          cy = or_default (clientHeight e) 600 / 2;
          d = map_option toLowerCase (direction inp)
      in if d = Some ''up'' then wheel cx cy 0 (- scrollAmount)
         else if d = Some ''down'' then wheel cx cy 0 scrollAmount
         else if d = Some ''left'' then wheel cx cy (- scrollAmount) 0
         else if d = Some ''right'' then wheel cx cy scrollAmount 0
         else [Log Warn (''[EmbeddedBrowserOperator] Unsupported scroll direction: ''
                         @ (case direction inp of None \<Rightarrow> ''undefined'' | Some x \<Rightarrow> x))])"

section \<open>Session connection\<close>

definition BROWSER_VIEWPORT_WIDTH :: nat where
  "BROWSER_VIEWPORT_WIDTH = 1280"

definition BROWSER_VIEWPORT_HEIGHT :: nat where
  "BROWSER_VIEWPORT_HEIGHT = 720"

definition set_viewport :: cdp_call where
  "set_viewport =
     Emulation_setDeviceMetricsOverride BROWSER_VIEWPORT_WIDTH BROWSER_VIEWPORT_HEIGHT 1 False"

text \<open>\<^verbatim>\<open>webContents.getAllWebContents()\<close>\<close>

definition getAllWebContents :: "env \<Rightarrow> opstate \<Rightarrow> webContents list \<times> opstate" where
  "getAllWebContents e s =
     (allWebContents e (queries s), (emit GetAllWebContents s)\<lparr>queries := queries s + 1\<rparr>)"

text \<open>The two debugger calls that can throw.\<close>

definition debugger_detach :: "env \<Rightarrow> nat \<Rightarrow> opstate \<Rightarrow> (error + unit) \<times> opstate" where
  "debugger_detach e i s =
     (case detach_error e i of
        Some m \<Rightarrow> (Inl (Error m), emit (DebuggerDetach i) s)
      | None \<Rightarrow> (Inr (), (emit (DebuggerDetach i) s)\<lparr>attached := attached s - {i}\<rparr>))"

definition debugger_attach :: "env \<Rightarrow> nat \<Rightarrow> opstate \<Rightarrow> (error + unit) \<times> opstate" where
  "debugger_attach e i s =
     (case attach_error e i of
        Some m \<Rightarrow> (Inl (Error m), emit (DebuggerAttach i) s)
      | None \<Rightarrow> (Inr (), (emit (DebuggerAttach i) s)\<lparr>attached := insert i (attached s)\<rparr>))"

text \<open>\<^verbatim>\<open>try { if (wc.debugger.isAttached()) wc.debugger.detach(); ... } catch { }\<close>:
  the log entry of \<^verbatim>\<open>connect\<close> follows a detach that did not throw.\<close>

definition detach_stale :: "env \<Rightarrow> nat \<Rightarrow> effect list \<Rightarrow> opstate \<Rightarrow> opstate" where
  "detach_stale e i after s =
     (let s1 = emit (DebuggerIsAttached i) s
      in if i \<in> attached s
         then (case debugger_detach e i s1 of
                 (Inl _, s2) \<Rightarrow> s2
               | (Inr _, s2) \<Rightarrow> s2\<lparr>trace := trace s2 @ after\<rparr>)
         else s1)"

definition maxRetries :: nat where
  "maxRetries = 10"

definition is_webview :: "webContents \<Rightarrow> bool" where
  "is_webview w = (wc_type w = ''webview'')"

text \<open>The search loop of \<^verbatim>\<open>connect\<close>, from attempt \<open>attempt\<close> on.\<close>

function find_webview :: "env \<Rightarrow> nat \<Rightarrow> opstate \<Rightarrow> webContents option \<times> opstate" where
  "find_webview e attempt s =
     (if attempt \<le> maxRetries
      then (case getAllWebContents e s of
              (allWC, s1) \<Rightarrow>
                (case find is_webview allWC of
                   Some w \<Rightarrow>
                     (Some w, emit (Log Info ''[EmbeddedBrowserOperator] Attempt'') s1)
                 | None \<Rightarrow>
                     if attempt < maxRetries
                     then find_webview e (attempt + 1)
                            (emit (Delay 500)
                              (emit (Log Info ''[EmbeddedBrowserOperator] Webview not found yet, retrying...'')
                                (emit (Log Info ''[EmbeddedBrowserOperator] Attempt'') s1)))
                     else find_webview e (attempt + 1)
                            (emit (Log Info ''[EmbeddedBrowserOperator] Attempt'') s1)))
      else (None, s))"
  by pat_completeness auto
termination
  by (relation "measure (\<lambda>(e, attempt, s). maxRetries + 1 - attempt)") auto

text \<open>What \<^verbatim>\<open>connect\<close> does once the debugger flag is set: it registers the two
  listeners, fixes the viewport and records the scale factor.\<close>

definition finish_connect :: "env \<Rightarrow> nat \<Rightarrow> opstate \<Rightarrow> (error + unit) \<times> opstate" where
  "finish_connect e i s =
     (case cdp e set_viewport (emit (RegisterListeners i) s) of
        (Inl err, s1) \<Rightarrow> (Inl err, s1)
      | (Inr _, s1) \<Rightarrow>
          (Inr (), emit (Log Info ''[EmbeddedBrowserOperator] Fixed viewport set'')
                     (s1\<lparr>deviceScaleFactor := Some 1\<rparr>)))"

definition connect :: "env \<Rightarrow> opstate \<Rightarrow> (error + unit) \<times> opstate" where
  "connect e s =
     (case find_webview e 1
             (emit (Log Info ''[EmbeddedBrowserOperator] Finding webview webContents...'') s) of
        (None, s1) \<Rightarrow>
          (Inl (Error ''[EmbeddedBrowserOperator] No webview found after retries. Make sure the browser panel is loaded.''),
           s1)
      | (Some w, s1) \<Rightarrow>
          (let s2 = detach_stale e (wc_id w)
                      [Log Info ''[EmbeddedBrowserOperator] Detached existing debugger before re-attaching'']
                      (s1\<lparr>wc := Some w\<rparr>)
           in case debugger_attach e (wc_id w) s2 of
                (Inr _, s3) \<Rightarrow>
                  finish_connect e (wc_id w)
                    (emit (Log Info ''[EmbeddedBrowserOperator] Debugger attached to webview'')
                      (s3\<lparr>debuggerAttached := True\<rparr>))
              | (Inl (Error m), s3) \<Rightarrow>
                  if str_includes m ''Already attached''
                  then finish_connect e (wc_id w)
                         (emit (Log Info ''[EmbeddedBrowserOperator] Debugger was already attached'')
                           (s3\<lparr>debuggerAttached := True\<rparr>))
                  else (Inl (Error m), s3)))"

text \<open>The listeners \<^verbatim>\<open>connect\<close> registers: both clear the debugger flag.\<close>

definition on_detach :: "opstate \<Rightarrow> opstate" where
  "on_detach s =
     (emit (Log Warn ''[EmbeddedBrowserOperator] Debugger detached'') s)\<lparr>debuggerAttached := False\<rparr>"

definition on_destroyed :: "opstate \<Rightarrow> opstate" where
  "on_destroyed s =
     (emit (Log Warn ''[EmbeddedBrowserOperator] WebContents destroyed event'') s)
       \<lparr>debuggerAttached := False\<rparr>"

text \<open>\<^verbatim>\<open>this.wc && !this.wc.isDestroyed()\<close>\<close>

definition wc_alive :: "env \<Rightarrow> opstate \<Rightarrow> bool" where
  "wc_alive e s = (case wc s of None \<Rightarrow> False | Some w \<Rightarrow> \<not> isDestroyed e (wc_id w))"

text \<open>The first block of \<^verbatim>\<open>ensureAttached\<close>: when the surface is gone, look for a live
  one and bind it.\<close>

definition reconnect_warning :: effect where
  "reconnect_warning =
     Log Warn ''[EmbeddedBrowserOperator] WebContents destroyed, attempting to reconnect...''"

definition rebind :: "env \<Rightarrow> opstate \<Rightarrow> (error + unit) \<times> opstate" where
  "rebind e s =
     (if \<not> wc_alive e s
      then (case getAllWebContents e (emit reconnect_warning s) of
              (allWC, s1) \<Rightarrow>
                (case find (\<lambda>w. is_webview w \<and> \<not> isDestroyed e (wc_id w)) allWC of
                   None \<Rightarrow>
                     (Inl (Error ''[EmbeddedBrowserOperator] WebContents destroyed and no webview available''),
                      s1)
                 | Some w \<Rightarrow>
                     (Inr (), emit (Log Info ''[EmbeddedBrowserOperator] Found new webview'')
                                (s1\<lparr>wc := Some w, debuggerAttached := False\<rparr>))))
      else (Inr (), s))"

text \<open>The second block: when the debugger flag is unset, detach a stale debugger, attach,
  set the flag and fix the viewport again. Whatever throws from the attach on is replaced
  by one error.\<close>

definition reattach :: "env \<Rightarrow> opstate \<Rightarrow> (error + unit) \<times> opstate" where
  "reattach e s =
     (if \<not> debuggerAttached s
      then (case wc s of
              None \<Rightarrow> (Inl (Error ''[EmbeddedBrowserOperator] Cannot re-attach debugger''), s)
            | Some w \<Rightarrow>
                (case debugger_attach e (wc_id w) (detach_stale e (wc_id w) [] s) of
                   (Inl _, s1) \<Rightarrow>
                     (Inl (Error ''[EmbeddedBrowserOperator] Cannot re-attach debugger''), s1)
                 | (Inr _, s1) \<Rightarrow>
                     (case cdp e set_viewport
                             (emit (Log Info ''[EmbeddedBrowserOperator] Re-attached debugger'')
                               (s1\<lparr>debuggerAttached := True\<rparr>)) of
                        (Inl _, s2) \<Rightarrow>
                          (Inl (Error ''[EmbeddedBrowserOperator] Cannot re-attach debugger''), s2)
                      | (Inr _, s2) \<Rightarrow> (Inr (), s2\<lparr>deviceScaleFactor := Some 1\<rparr>))))
      else (Inr (), s))"

definition ensureAttached :: "env \<Rightarrow> opstate \<Rightarrow> (error + unit) \<times> opstate" where
  "ensureAttached e s =
     (if wc_alive e s \<and> debuggerAttached s then (Inr (), s)
      else case rebind e s of
             (Inl err, s1) \<Rightarrow> (Inl err, s1)
           | (Inr _, s1) \<Rightarrow> reattach e s1)"

text \<open>\<^verbatim>\<open>getScaleFactor\<close> never throws: a failed query falls through to the factor 1.
  A cached factor is used when it is truthy, that is, present and not zero.\<close>

definition query_scale_factor :: "env \<Rightarrow> opstate \<Rightarrow> rat \<times> opstate" where
  "query_scale_factor e s =
     (case cdp e (Runtime_evaluate ''window.devicePixelRatio'') s of
        (Inl _, s1) \<Rightarrow> (1, s1\<lparr>deviceScaleFactor := Some 1\<rparr>)
      | (Inr _, s1) \<Rightarrow>
          (case devicePixelRatio e of
             Some ratio \<Rightarrow>
               if 0 < ratio then (ratio, s1\<lparr>deviceScaleFactor := Some ratio\<rparr>)
               else (1, s1\<lparr>deviceScaleFactor := Some 1\<rparr>)
           | None \<Rightarrow> (1, s1\<lparr>deviceScaleFactor := Some 1\<rparr>)))"

definition getScaleFactor :: "env \<Rightarrow> opstate \<Rightarrow> rat \<times> opstate" where
  "getScaleFactor e s =
     (case deviceScaleFactor s of
        Some f \<Rightarrow> if f \<noteq> 0 then (f, s) else query_scale_factor e s
      | None \<Rightarrow> query_scale_factor e s)"

section \<open>The embedded-surface operator\<close>

record ScreenshotOutput =
  base64 :: string
  scaleFactor :: rat

definition screenshot :: "env \<Rightarrow> opstate \<Rightarrow> (error + ScreenshotOutput) \<times> opstate" where
  "screenshot e s =
     (case ensureAttached e s of
        (Inl err, s1) \<Rightarrow> (Inl err, s1)
      | (Inr _, s1) \<Rightarrow>
          (case getScaleFactor e s1 of
             (sf, s2) \<Rightarrow>
               (case cdp e Page_captureScreenshot
                       (emit (Log Info ''[EmbeddedBrowserOperator] Taking screenshot...'') s2) of
                  (Inl err, s3) \<Rightarrow> (Inl err, s3)
                | (Inr _, s3) \<Rightarrow>
                    (Inr \<lparr>base64 = screenshot_data e, scaleFactor = sf\<rparr>,
                     emit (Log Info ''[EmbeddedBrowserOperator] Screenshot taken'') s3))))"

text \<open>The \<^verbatim>\<open>switch\<close> of \<^verbatim>\<open>execute\<close>, in the order of its cases: the effects the
  action awaits.\<close>

definition action_steps ::
  "env \<Rightarrow> ExecuteParams \<Rightarrow> rat option \<Rightarrow> rat option \<Rightarrow> rat \<Rightarrow> effect list" where
  "action_steps e p startX startY sf =
     (let t = action_type p; inp = inputs p
      in if t \<in> set [''click'', ''left_click'', ''left_single'']
         then (case (startX, startY) of
                 (Some x, Some y) \<Rightarrow> mouseClick x y ''left'' 1
               | _ \<Rightarrow> [])
         else if t \<in> set [''double_click'', ''left_double'']
         then (case (startX, startY) of
                 (Some x, Some y) \<Rightarrow> mouseClick x y ''left'' 2
               | _ \<Rightarrow> [])
         else if t \<in> set [''right_click'', ''right_single'']
         then (case (startX, startY) of
                 (Some x, Some y) \<Rightarrow> mouseClick x y ''right'' 1
               | _ \<Rightarrow> [])
         else if t = ''type'' then handleType (isMac e) inp @ [Delay 1000]
         else if t = ''hotkey'' then handleHotkey (isMac e) inp
         else if t = ''press'' then handleKeyAction (isMac e) inp True
         else if t = ''release'' then handleKeyAction (isMac e) inp False @ [Delay 500]
         else if t = ''scroll'' then handleScroll e inp
         else if t = ''drag'' then handleDrag e inp sf (screenWidth p) (screenHeight p)
         else if t = ''navigate''
         then (if truthy (content inp) then handleNavigate e (or_empty (content inp)) else [])
         else if t = ''navigate_back''
         then [SendCommand (Runtime_evaluate ''history.back()''), Delay 1000]
         else if t = ''wait'' then [Delay 5000]
         else if t \<in> set [''finished'', ''call_user'', ''user_stop''] then []
         else [Log Warn (''[EmbeddedBrowserOperator] Unsupported action: '' @ t)])"

text \<open>The start point \<^verbatim>\<open>execute\<close> computes from \<^verbatim>\<open>start_box\<close>: the parsed coordinates
  divided by the scale factor, \<^verbatim>\<open>null\<close> where the parser gives \<^verbatim>\<open>null\<close>.\<close>

definition start_point :: "env \<Rightarrow> ExecuteParams \<Rightarrow> rat \<Rightarrow> rat option \<times> rat option" where
  "start_point e p sf =
     (let startBoxStr = or_empty (start_box (inputs p));
          coords = parseBoxToScreenCoords e startBoxStr (screenWidth p) (screenHeight p)
      in (map_option (\<lambda>x. x / sf) (fst coords), map_option (\<lambda>y. y / sf) (snd coords)))"

definition log_execute :: "ExecuteParams \<Rightarrow> effect" where
  "log_execute p = Log Info (''[EmbeddedBrowserOperator] Execute: '' @ action_type p)"

definition log_completed :: "ExecuteParams \<Rightarrow> effect" where
  "log_completed p =
     Log Info (''[EmbeddedBrowserOperator] Action '' @ action_type p @ '' completed'')"

definition log_failed :: "ExecuteParams \<Rightarrow> effect" where
  "log_failed p = Log Err (''[EmbeddedBrowserOperator] Failed to execute '' @ action_type p)"

text \<open>\<^verbatim>\<open>execute\<close> returns the computed start point.\<close>

definition execute ::
  "env \<Rightarrow> ExecuteParams \<Rightarrow> opstate \<Rightarrow> (error + rat option \<times> rat option) \<times> opstate" where
  "execute e p s =
     (case ensureAttached e s of
        (Inl err, s1) \<Rightarrow> (Inl err, s1)
      | (Inr _, s1) \<Rightarrow>
          (case getScaleFactor e s1 of
             (sf, s2) \<Rightarrow>
               (case run_steps e
                       (action_steps e p (fst (start_point e p sf)) (snd (start_point e p sf)) sf)
                       (emit (log_execute p) s2) of
                  (Inl err, s3) \<Rightarrow> (Inl err, emit (log_failed p) s3)
                | (Inr _, s3) \<Rightarrow> (Inr (start_point e p sf), emit (log_completed p) s3))))"

section \<open>Observing a run\<close>

text \<open>The operator is connected when it holds a surface and its debugger flag is set:
  the condition under which \<^verbatim>\<open>cdp\<close> sends.\<close>

definition connected :: "opstate \<Rightarrow> bool" where
  "connected s = (wc s \<noteq> None \<and> debuggerAttached s)"

text \<open>The effects performed between two states of one run.\<close>

definition performed :: "opstate \<Rightarrow> opstate \<Rightarrow> effect list" where
  "performed s s' = drop (length (trace s)) (trace s')"

text \<open>The protocol commands among a list of effects, in order.\<close>

definition sent :: "effect list \<Rightarrow> cdp_call list" where
  "sent es = List.map_filter (\<lambda>x. case x of SendCommand c \<Rightarrow> Some c | _ \<Rightarrow> None) es"

definition is_navigation :: "cdp_call \<Rightarrow> bool" where
  "is_navigation c = (case c of Page_navigate u \<Rightarrow> True | _ \<Rightarrow> False)"


text \<open>The scale factor one call of \<^verbatim>\<open>execute\<close> works with, and the effects its action
  awaits.\<close>

definition execute_scale_factor :: "env \<Rightarrow> opstate \<Rightarrow> rat" where
  "execute_scale_factor e s = fst (getScaleFactor e (snd (ensureAttached e s)))"

definition execute_steps :: "env \<Rightarrow> ExecuteParams \<Rightarrow> opstate \<Rightarrow> effect list" where
  "execute_steps e p s =
     action_steps e p (fst (start_point e p (execute_scale_factor e s)))
       (snd (start_point e p (execute_scale_factor e s))) (execute_scale_factor e s)"

definition is_key_event :: "cdp_call \<Rightarrow> bool" where
  "is_key_event c = (case c of Input_dispatchKeyEvent t k c v m cs \<Rightarrow> True | _ \<Rightarrow> False)"

text \<open>The key events one call of \<^verbatim>\<open>execute\<close> dispatches.\<close>

definition key_events :: "env \<Rightarrow> ExecuteParams \<Rightarrow> opstate \<Rightarrow> cdp_call list" where
  "key_events e p s = filter is_key_event (sent (performed s (snd (execute e p s))))"

definition is_warning :: "effect \<Rightarrow> bool" where
  "is_warning x = (case x of Log Warn m \<Rightarrow> True | _ \<Rightarrow> False)"




text \<open>The pointer events (mouse and wheel) one call of \<^verbatim>\<open>execute\<close> dispatches.\<close>

definition is_mouse_event :: "cdp_call \<Rightarrow> bool" where
  "is_mouse_event c =
     (case c of
        Input_dispatchMouseEvent t x y b n \<Rightarrow> True
      | Input_dispatchMouseEvent_wheel x y dx dy \<Rightarrow> True
      | _ \<Rightarrow> False)"

definition mouse_events :: "env \<Rightarrow> ExecuteParams \<Rightarrow> opstate \<Rightarrow> cdp_call list" where
  "mouse_events e p s = filter is_mouse_event (sent (performed s (snd (execute e p s))))"

text \<open>The page-navigation commands one call of \<^verbatim>\<open>execute\<close> sends.\<close>

definition navigations :: "env \<Rightarrow> ExecuteParams \<Rightarrow> opstate \<Rightarrow> cdp_call list" where
  "navigations e p s = filter is_navigation (sent (performed s (snd (execute e p s))))"

section \<open>A concrete host\<close>

text \<open>
  A host on which nothing fails: the surfaces are a window and a web view, the box parser
  knows two boxes, the URL parser knows one URL and rejects a port that is not a number,
  and no command is rejected.
\<close>

definition example_env :: env where
  "example_env =
     \<lparr>isMac = False,
      parseBoxToScreenCoords =
        (\<lambda>b w h. if b = ''[100,200,100,200]'' then (Some 100, Some 200)
                 else if b = ''[300,400,300,400]'' then (Some 300, Some 400)
                 else (None, None)),
      URL_protocol = (\<lambda>u. if u = ''https://example.com'' then Some ''https:'' else None),
      allWebContents =
        (\<lambda>k. [\<lparr>wc_id = 1, wc_type = ''window''\<rparr>, \<lparr>wc_id = 2, wc_type = ''webview''\<rparr>]),
      isDestroyed = (\<lambda>i. False),
      attach_error = (\<lambda>i. None),
      detach_error = (\<lambda>i. None),
      sendCommand_error = (\<lambda>k. None),
      devicePixelRatio = Some 2,
      clientWidth = Some 1280,
      clientHeight = Some 720,
      screenshot_data = ''/9j/4AAQ''\<rparr>"

text \<open>A new operator, and the operator after \<^verbatim>\<open>connect\<close> on that host.\<close>

definition new_operator :: opstate where
  "new_operator =
     \<lparr>wc = None, debuggerAttached = False, deviceScaleFactor = None, attached = {},
      queries = 0, commands = 0, trace = []\<rparr>"

definition connected_operator :: opstate where
  "connected_operator =
     \<lparr>wc = Some \<lparr>wc_id = 2, wc_type = ''webview''\<rparr>, debuggerAttached = True,
      deviceScaleFactor = Some 1, attached = {2}, queries = 1, commands = 1, trace = []\<rparr>"

definition no_inputs :: action_inputs where
  "no_inputs =
     \<lparr>start_box = None, end_box = None, content = None, inputs_key = None,
      inputs_hotkey = None, direction = None\<rparr>"

definition action :: "string \<Rightarrow> action_inputs \<Rightarrow> ExecuteParams" where
  "action t inp = \<lparr>action_type = t, inputs = inp, screenWidth = 1280, screenHeight = 720\<rparr>"

text \<open>The connected operator before it has asked for the scale factor.\<close>

definition unscaled_operator :: opstate where
  "unscaled_operator = connected_operator\<lparr>deviceScaleFactor := None\<rparr>"

text \<open>The debugger-attach calls among a list of effects.\<close>

definition is_attach :: "effect \<Rightarrow> bool" where
  "is_attach x = (case x of DebuggerAttach i \<Rightarrow> True | _ \<Rightarrow> False)"

definition attach_calls :: "effect list \<Rightarrow> effect list" where
  "attach_calls es = filter is_attach es"

text \<open>A host on which attaching the debugger throws, and an operator whose debugger has
  been detached while its surface is still alive.\<close>

definition failing_attach_env :: env where
  "failing_attach_env = example_env\<lparr>attach_error := (\<lambda>i. Some ''Target closed'')\<rparr>"

definition detached_operator :: opstate where
  "detached_operator = connected_operator\<lparr>debuggerAttached := False, attached := {}\<rparr>"

section \<open>Running the agent\<close>

datatype Operator = LocalComputer | LocalBrowser | RemoteComputer | RemoteBrowser | OtherOperator

text \<open>Modelled from the spec: the declaration of \<^verbatim>\<open>StatusEnum\<close> is in the shared package;
  these are the status values the spec gives for the loop state.\<close>

datatype StatusEnum = INIT | RUNNING | CALL_USER | END | ERROR

datatype attachment_type = ImageFile | TextFile

record ProcessedFile =
  file_type :: attachment_type
  fileName :: string
  file_content :: string
  mimeType :: string

text \<open>The fields of the application state that \<^verbatim>\<open>runAgent\<close> reads or writes.\<close>

record AppState =
  instructions :: "string option"
  status :: StatusEnum
  errorMsg :: "string option"
  messages :: "string list"
  sessionHistoryMessages :: "string list"
  attachments :: "ProcessedFile list option"

text \<open>The arguments of \<^verbatim>\<open>guiAgent.run\<close>: the instructions, the session history and the
  image attachments (\<^verbatim>\<open>undefined\<close> when there is none).\<close>

record run_args =
  run_instructions :: string
  run_history :: "string list"
  run_images :: "string list option"

datatype run_effect =
    Logger log_level string
  | CreateRemoteOperator
  | QueryProxy
  | NewGUIAgent
  | SetAgent
  | SendInstruction string
  | ShowWidgetWindow
  | ShowScreenWaterFlow
  | HideMainWindow
  | HideWidgetWindow
  | CloseScreenMarker
  | HideScreenWaterFlow
  | ShowMainWindow
  | AgentRun run_args

text \<open>
  What \<^verbatim>\<open>runAgent\<close> finds around it:
  \<^item> \<open>settings_operator\<close>: \<^verbatim>\<open>settings.operator\<close>;
  \<^item> \<open>host\<close>: the host of the embedded-surface operator;
  \<^item> \<open>remote_operator_error\<close>: the message the creation of a remote operator rejects with;
  \<^item> \<open>proxy_error\<close>: the message the queries to the proxy reject with;
  \<^item> \<open>agent_run\<close>: the agent's run, from its arguments and the application state at its
    start to what it rejects with (\<open>None\<close> when it resolves) and the application
    state at its end, as left by the \<^verbatim>\<open>onData\<close> and \<^verbatim>\<open>onError\<close> callbacks and by any other
    handler that ran in the meantime.
\<close>

text \<open>
  What a promise rejects with, as far as the \<^verbatim>\<open>catch\<close> handler of \<^verbatim>\<open>runAgent\<close> looks at it:
  \<^verbatim>\<open>null\<close> or \<^verbatim>\<open>undefined\<close>, whose properties cannot be read; or any other value, with what
  its \<^verbatim>\<open>message\<close> property reads as (\<open>None\<close> for \<^verbatim>\<open>undefined\<close>).
\<close>

datatype rejection = Nullish | Reason "string option"

record run_env =
  settings_operator :: Operator
  host :: env
  remote_operator_error :: "string option"
  proxy_error :: "string option"
  agent_run :: "run_args \<Rightarrow> AppState \<Rightarrow> rejection option \<times> AppState"

text \<open>The application state, the effects of \<^verbatim>\<open>runAgent\<close> so far, and the state of the
  embedded surface's host with the operator created for this run.\<close>

record run_state =
  app :: AppState
  effects :: "run_effect list"
  browser :: opstate

definition run_emit :: "run_effect \<Rightarrow> run_state \<Rightarrow> run_state" where
  "run_emit x st = st\<lparr>effects := effects st @ [x]\<rparr>"

text \<open>\<^verbatim>\<open>new EmbeddedBrowserOperator()\<close>: no surface, flag unset, no scale factor.\<close>

definition fresh_operator :: "opstate \<Rightarrow> opstate" where
  "fresh_operator s = s\<lparr>wc := None, debuggerAttached := False, deviceScaleFactor := None\<rparr>"

definition connection_failure_message :: string where
  "connection_failure_message =
     ''Failed to connect to embedded browser. Please ensure the browser panel is loaded and try again.''"

datatype operatorType = computer_type | browser_type

text \<open>
  The \<^verbatim>\<open>switch\<close> on \<^verbatim>\<open>settings.operator\<close>. The result is \<open>Inl\<close> when \<^verbatim>\<open>runAgent\<close> throws,
  \<open>Inr None\<close> when it returns early after a failed connection, and \<open>Inr (Some t)\<close> when it
  goes on with an operator of type \<open>t\<close>.
\<close>

definition select_operator ::
  "run_env \<Rightarrow> run_state \<Rightarrow> (error + operatorType option) \<times> run_state" where
  "select_operator re st =
     (case settings_operator re of
        LocalComputer \<Rightarrow> (Inr (Some computer_type), st)
      | LocalBrowser \<Rightarrow>
          (case connect (host re) (fresh_operator (browser st)) of
             (Inl err, b) \<Rightarrow>
               (Inr None,
                (run_emit (Logger Err ''[EmbeddedBrowserOperator connect error]'') st)
                  \<lparr>browser := b,
                   app := (app st)\<lparr>status := ERROR,
                                    errorMsg := Some connection_failure_message\<rparr>\<rparr>)
           | (Inr _, b) \<Rightarrow> (Inr (Some browser_type), st\<lparr>browser := b\<rparr>))
      | RemoteComputer \<Rightarrow>
          (case remote_operator_error re of
             Some m \<Rightarrow> (Inl (Error m), run_emit CreateRemoteOperator st)
           | None \<Rightarrow> (Inr (Some computer_type), run_emit CreateRemoteOperator st))
      | RemoteBrowser \<Rightarrow>
          (case remote_operator_error re of
             Some m \<Rightarrow> (Inl (Error m), run_emit CreateRemoteOperator st)
           | None \<Rightarrow> (Inr (Some browser_type), run_emit CreateRemoteOperator st))
      | OtherOperator \<Rightarrow> (Inr (Some computer_type), st))"

text \<open>The instructions with the text attachments appended.\<close>

definition MAX_FILE_CONTEXT_CHARS :: nat where
  "MAX_FILE_CONTEXT_CHARS = 50000"

definition augmentedInstructions :: "string \<Rightarrow> ProcessedFile list \<Rightarrow> string" where
  "augmentedInstructions instr atts =
     (let textFiles = filter (\<lambda>a. file_type a = TextFile) atts
      in if 0 < length textFiles
         then
           let fileContext = join [newline, newline] (map file_content textFiles);
               fileContext' =
                 (if MAX_FILE_CONTEXT_CHARS < length fileContext
                  then take MAX_FILE_CONTEXT_CHARS fileContext @ [newline, newline]
                       @ ''[Content truncated due to length...]''
                  else fileContext)
           in instr @ [newline, newline] @ ''## Attached Files'' @ [newline] @ fileContext'
         else instr)"

definition beforeAgentRun :: "Operator \<Rightarrow> run_effect list" where
  "beforeAgentRun operator =
     (case operator of
        LocalComputer \<Rightarrow> [ShowWidgetWindow, ShowScreenWaterFlow, HideMainWindow]
      | _ \<Rightarrow> [])"

definition afterAgentRun :: "Operator \<Rightarrow> run_effect list" where
  "afterAgentRun operator =
     (case operator of
        LocalComputer \<Rightarrow> [HideWidgetWindow, CloseScreenMarker, HideScreenWaterFlow, ShowMainWindow]
      | _ \<Rightarrow> [])"

text \<open>The end of \<^verbatim>\<open>runAgent\<close>, after the awaited run: the attachments are cleared.\<close>

definition finish_run :: "run_env \<Rightarrow> run_state \<Rightarrow> (error + unit) \<times> run_state" where
  "finish_run re st =
     (let st1 = (run_emit (Logger Info ''[runAgent Totoal cost]'') st)
                  \<lparr>app := (app st)\<lparr>attachments := Some []\<rparr>\<rparr>
      in (Inr (), st1\<lparr>effects := effects st1 @ afterAgentRun (settings_operator re)\<rparr>))"

text \<open>What reading \<^verbatim>\<open>e.message\<close> throws when \<^verbatim>\<open>e\<close> is \<^verbatim>\<open>null\<close> or \<^verbatim>\<open>undefined\<close>.\<close>

definition type_error :: error where
  "type_error = Error ''TypeError: Cannot read properties of undefined''"

text \<open>\<^verbatim>\<open>runAgent\<close> from the construction of the agent on: the agent is built and registered,
  the attachments are folded into the arguments, and the agent runs. When the run rejects,
  the \<^verbatim>\<open>catch\<close> handler logs the rejection and reads its \<^verbatim>\<open>message\<close> for the error status:
  the handler throws there when the rejection is \<^verbatim>\<open>null\<close> or \<^verbatim>\<open>undefined\<close>, and \<^verbatim>\<open>runAgent\<close>
  throws with it. Otherwise the attachments are cleared.\<close>

definition run_with_operator :: "run_env \<Rightarrow> run_state \<Rightarrow> (error + unit) \<times> run_state" where
  "run_with_operator re st =
     (let instr = or_empty (instructions (app st));
          st1 = st\<lparr>effects := effects st @ [NewGUIAgent, SetAgent, SendInstruction instr]\<rparr>;
          atts = (case attachments (app st1) of None \<Rightarrow> [] | Some a \<Rightarrow> a);
          imageFiles = filter (\<lambda>a. file_type a = ImageFile) atts;
          imageBase64List = map file_content imageFiles;
          args = \<lparr>run_instructions = augmentedInstructions instr atts,
                  run_history = sessionHistoryMessages (app st1),
                  run_images = (if 0 < length imageBase64List then Some imageBase64List else None)\<rparr>;
          st2 = st1\<lparr>effects := effects st1 @
                  [Logger Info ''[runAgent] attachments count'',
                   Logger Info ''[runAgent] augmentedInstructions length'',
                   Logger Info ''[runAgent] image attachments''] @
                  beforeAgentRun (settings_operator re) @ [AgentRun args]\<rparr>
      in case agent_run re args (app st2) of
           (None, a) \<Rightarrow> finish_run re (st2\<lparr>app := a\<rparr>)
         | (Some Nullish, a) \<Rightarrow>
             (Inl type_error, (run_emit (Logger Err ''[runAgentLoop error]'') st2)\<lparr>app := a\<rparr>)
         | (Some (Reason m), a) \<Rightarrow>
             finish_run re
               ((run_emit (Logger Err ''[runAgentLoop error]'') st2)
                  \<lparr>app := a\<lparr>status := ERROR, errorMsg := m\<rparr>\<rparr>))"

definition is_remote :: "Operator \<Rightarrow> bool" where
  "is_remote operator = (operator = RemoteComputer \<or> operator = RemoteBrowser)"

definition runAgent :: "run_env \<Rightarrow> run_state \<Rightarrow> (error + unit) \<times> run_state" where
  "runAgent re st =
     (let st0 = run_emit (Logger Info ''runAgent'') st
      in if \<not> truthy (instructions (app st0))
         then (Inl (Error ''instructions is required''), st0)
         else
           case select_operator re (run_emit (Logger Info ''settings.operator'') st0) of
             (Inl err, st1) \<Rightarrow> (Inl err, st1)
           | (Inr None, st1) \<Rightarrow> (Inr (), st1)
           | (Inr (Some operatorType), st1) \<Rightarrow>
               if is_remote (settings_operator re)
               then (case proxy_error re of
                       Some m \<Rightarrow> (Inl (Error m), run_emit QueryProxy st1)
                     | None \<Rightarrow> run_with_operator re (run_emit QueryProxy st1))
               else run_with_operator re st1)"

text \<open>The effects of one call of \<^verbatim>\<open>runAgent\<close>.\<close>

definition run_performed :: "run_state \<Rightarrow> run_state \<Rightarrow> run_effect list" where
  "run_performed st st' = drop (length (effects st)) (effects st')"



definition example_app :: AppState where
  "example_app =
     \<lparr>instructions = Some ''open the page'', status = INIT, errorMsg = None, messages = [],
      sessionHistoryMessages = [],
      attachments = Some [\<lparr>file_type = TextFile, fileName = ''notes.csv'',
                           file_content = ''a,b'', mimeType = ''text/csv''\<rparr>]\<rparr>"

definition example_run_state :: run_state where
  "example_run_state = \<lparr>app = example_app, effects = [], browser = new_operator\<rparr>"


definition resolving_run_env :: run_env where
  "resolving_run_env =
     \<lparr>settings_operator = LocalComputer, host = example_env, remote_operator_error = None,
      proxy_error = None, agent_run = (\<lambda>args a. (None, a\<lparr>status := END\<rparr>))\<rparr>"

definition rejecting_run_env :: run_env where
  "rejecting_run_env =
     \<lparr>settings_operator = LocalComputer, host = example_env, remote_operator_error = None,
      proxy_error = None,
      agent_run = (\<lambda>args a. (Some (Reason (Some ''model unavailable'')), a))\<rparr>"

text \<open>A run on the local computer whose agent rejects with \<^verbatim>\<open>undefined\<close>.\<close>

definition nullish_rejecting_run_env :: run_env where
  "nullish_rejecting_run_env =
     \<lparr>settings_operator = LocalComputer, host = example_env, remote_operator_error = None,
      proxy_error = None, agent_run = (\<lambda>args a. (Some Nullish, a))\<rparr>"

text \<open>What one attempt of the search loop of \<^verbatim>\<open>connect\<close> performs when it finds no web
  view: the last attempt does not wait.\<close>

definition search_round :: "nat \<Rightarrow> effect list" where
  "search_round attempt =
     (if attempt < maxRetries
      then [GetAllWebContents, Log Info ''[EmbeddedBrowserOperator] Attempt'',
            Log Info ''[EmbeddedBrowserOperator] Webview not found yet, retrying...'', Delay 500]
      else [GetAllWebContents, Log Info ''[EmbeddedBrowserOperator] Attempt''])"


section \<open>The local-desktop operator\<close>

text \<open>
  \<^verbatim>\<open>NutJSElectronOperator\<close> drives the desktop of the machine the application runs on. What it
  calls is outside the operator: the overlay windows, the timer and the logger, which are
  recorded as events; and the screen capture, the image functions, the operator it extends,
  the clipboard and the keyboard, which are recorded and may throw. Whether a call throws is
  decided by the host, from the events so far and the call.
\<close>

datatype Key = Key_LeftControl | Key_V | Key_Enter

record Size =
  width :: rat
  height :: rat

record NativeImage =
  getSize :: Size
  pixels :: string

record DesktopCapturerSource =
  display_id :: string
  thumbnail :: NativeImage

datatype desktop_effect =
    HideOverlaysForExecution
  | RestoreOverlaysAfterExecution
  | Sleep nat
  | LoggerCall log_level string
  | GetSources int int
  | SuperScreenshot
  | Resize Size
  | ToJPEG nat
  | SuperExecute ExecuteParams
  | ClipboardReadText
  | ClipboardWriteText string
  | PressKey "Key list"
  | ReleaseKey "Key list"

text \<open>The value an \<^verbatim>\<open>execute\<close> resolves to; \<open>None\<close> is \<^verbatim>\<open>undefined\<close>.\<close>

type_synonym ExecuteOutput = "string option"

text \<open>
  The host of the operator: the platform, what \<^verbatim>\<open>getScreenSize\<close> reports of the primary
  display (its identifier in decimal notation, as \<^verbatim>\<open>toString\<close> gives it), the sources the
  screen capture returns, the image functions, what the extended operator's \<^verbatim>\<open>screenshot\<close>
  and \<^verbatim>\<open>execute\<close> resolve to, and the calls that throw.
\<close>

record desktop_env =
  isWindows :: bool
  physicalSize :: Size
  logicalSize :: Size
  screen_scaleFactor :: rat
  primaryDisplayId :: string
  sources :: "DesktopCapturerSource list"
  resize :: "NativeImage \<Rightarrow> Size \<Rightarrow> NativeImage"
  toJPEG :: "NativeImage \<Rightarrow> nat \<Rightarrow> string"
  super_screenshot :: ScreenshotOutput
  super_execute :: "ExecuteParams \<Rightarrow> ExecuteOutput"
  throws :: "desktop_effect list \<Rightarrow> desktop_effect \<Rightarrow> error option"

text \<open>The text held by the system clipboard, and the events so far.\<close>

record desktop_state =
  clipboard :: string
  events :: "desktop_effect list"

definition record_event :: "desktop_effect \<Rightarrow> desktop_state \<Rightarrow> desktop_state" where
  "record_event x s = s\<lparr>events := events s @ [x]\<rparr>"

text \<open>Hiding and restoring the overlays, the timer and the logger complete.\<close>

definition can_throw :: "desktop_effect \<Rightarrow> bool" where
  "can_throw x =
     (case x of
        HideOverlaysForExecution \<Rightarrow> False
      | RestoreOverlaysAfterExecution \<Rightarrow> False
      | Sleep ms \<Rightarrow> False
      | LoggerCall l m \<Rightarrow> False
      | _ \<Rightarrow> True)"

text \<open>One call: it is recorded; it throws when the host says so; and a completed
  \<^verbatim>\<open>clipboard.writeText\<close> replaces the text of the clipboard.\<close>

definition host_perform ::
  "desktop_env \<Rightarrow> desktop_effect \<Rightarrow> desktop_state \<Rightarrow> (error + unit) \<times> desktop_state" where
  "host_perform e x s =
     (case (if can_throw x then throws e (events s) x else None) of
        Some err \<Rightarrow> (Inl err, record_event x s)
      | None \<Rightarrow>
          (Inr (),
           (case x of
              ClipboardWriteText t \<Rightarrow> (record_event x s)\<lparr>clipboard := t\<rparr>
            | _ \<Rightarrow> record_event x s)))"

text \<open>A sequence of awaited calls: the first one that throws ends it.\<close>

fun host_run ::
  "desktop_env \<Rightarrow> desktop_effect list \<Rightarrow> desktop_state \<Rightarrow> (error + unit) \<times> desktop_state" where
  "host_run e [] s = (Inr (), s)"
| "host_run e (x # xs) s =
     (case host_perform e x s of
        (Inl err, s1) \<Rightarrow> (Inl err, s1)
      | (Inr u, s1) \<Rightarrow> host_run e xs s1)"

subsection \<open>Screenshot\<close>

text \<open>\<^verbatim>\<open>Math.round\<close>\<close>

definition js_round :: "rat \<Rightarrow> int" where
  "js_round x = \<lfloor>x + 1 / 2\<rfloor>"

text \<open>\<^verbatim>\<open>sources.find((source) => source.display_id === primaryDisplayId.toString()) || sources[0]\<close>\<close>

definition primarySource :: "desktop_env \<Rightarrow> DesktopCapturerSource option" where
  "primarySource e =
     (case find (\<lambda>source. display_id source = primaryDisplayId e) (sources e) of
        Some source \<Rightarrow> Some source
      | None \<Rightarrow> (case sources e of [] \<Rightarrow> None | source # rest \<Rightarrow> Some source))"

definition needs_resize :: "desktop_env \<Rightarrow> NativeImage \<Rightarrow> bool" where
  "needs_resize e img =
     (width (getSize img) \<noteq> width (physicalSize e)
      \<or> height (getSize img) \<noteq> height (physicalSize e))"

text \<open>The calls inside the \<^verbatim>\<open>try\<close> block of \<^verbatim>\<open>screenshot\<close>, and the value it returns when
  none of them throws.\<close>

definition capture_steps :: "desktop_env \<Rightarrow> desktop_effect list" where
  "capture_steps e =
     GetSources (js_round (width (physicalSize e))) (js_round (height (physicalSize e))) #
     (case primarySource e of
        None \<Rightarrow>
          [LoggerCall Err ''[screenshot] Primary display source not found'', SuperScreenshot]
      | Some source \<Rightarrow>
          [LoggerCall Info ''[screenshot] captured size:''] @
          (if needs_resize e (thumbnail source) then [Resize (physicalSize e)] else []) @
          [ToJPEG 75])"

definition capture_result :: "desktop_env \<Rightarrow> ScreenshotOutput" where
  "capture_result e =
     (case primarySource e of
        None \<Rightarrow> super_screenshot e
      | Some source \<Rightarrow>
          (let img = thumbnail source;
               finalImage = (if needs_resize e img
                             then resize e img (physicalSize e) else img)
           in \<lparr>base64 = toJPEG e finalImage 75, scaleFactor = screen_scaleFactor e\<rparr>))"

text \<open>\<^verbatim>\<open>NutJSElectronOperator.screenshot\<close>: the overlays are hidden before the \<^verbatim>\<open>try\<close> block
  and restored in its \<^verbatim>\<open>finally\<close> block.\<close>

definition screenshot_NutJS ::
  "desktop_env \<Rightarrow> desktop_state \<Rightarrow> (error + ScreenshotOutput) \<times> desktop_state" where
  "screenshot_NutJS e s =
     (let s1 = record_event (LoggerCall Info ''[screenshot] [primaryDisplay]'') s;
          s2 = record_event HideOverlaysForExecution s1;
          s3 = record_event (Sleep (if isWindows e then 200 else 50)) s2
      in case host_run e (capture_steps e) s3 of
           (Inl err, s4) \<Rightarrow> (Inl err, record_event RestoreOverlaysAfterExecution s4)
         | (Inr u, s4) \<Rightarrow> (Inr (capture_result e), record_event RestoreOverlaysAfterExecution s4))"

subsection \<open>Execute\<close>

definition needsOverlayHide :: "string \<Rightarrow> bool" where
  "needsOverlayHide t =
     (t \<notin> set [''finished'', ''call_user'', ''error_env'', ''user_stop'', ''wait''])"

definition stripContent :: "string \<Rightarrow> string" where
  "stripContent c = replace_at_end (replace_at_end c [backslash, CHR ''n'']) [newline]"

text \<open>The paste, from the writing of the typed content on.\<close>

definition paste_steps :: "string \<Rightarrow> string \<Rightarrow> desktop_effect list" where
  "paste_steps c originalClipboard =
     [ClipboardWriteText (stripContent c),
      PressKey [Key_LeftControl, Key_V],
      Sleep 50,
      ReleaseKey [Key_LeftControl, Key_V],
      Sleep 50,
      ClipboardWriteText originalClipboard]"

definition enter_steps :: "string \<Rightarrow> desktop_effect list" where
  "enter_steps c =
     (if endsWith c [newline] \<or> endsWith c [backslash, CHR ''n'']
      then [PressKey [Key_Enter], ReleaseKey [Key_Enter]] else [])"

text \<open>The branch of \<^verbatim>\<open>execute\<close> for a \<^verbatim>\<open>type\<close> action on Windows: the content is pasted
  from the clipboard. \<open>after_paste\<close> is what follows the paste in the branch.\<close>

definition type_by_paste ::
  "desktop_env \<Rightarrow> (string \<Rightarrow> desktop_effect list) \<Rightarrow> ExecuteParams \<Rightarrow> desktop_state
     \<Rightarrow> (error + ExecuteOutput) \<times> desktop_state" where
  "type_by_paste e after_paste p s =
     (let c = trim (or_empty (content (inputs p)));
          s1 = record_event (LoggerCall Info ''[device] type'') s
      in case host_perform e ClipboardReadText s1 of
           (Inl err, s2) \<Rightarrow> (Inl err, s2)
         | (Inr u, s2) \<Rightarrow>
             (case host_run e (paste_steps c (clipboard s2) @ after_paste c) s2 of
                (Inl err, s3) \<Rightarrow> (Inl err, s3)
              | (Inr u, s3) \<Rightarrow> (Inr None, s3)))"

definition call_super_execute ::
  "desktop_env \<Rightarrow> ExecuteParams \<Rightarrow> desktop_state \<Rightarrow> (error + ExecuteOutput) \<times> desktop_state" where
  "call_super_execute e p s =
     (case host_perform e (SuperExecute p) s of
        (Inl err, s1) \<Rightarrow> (Inl err, s1)
      | (Inr u, s1) \<Rightarrow> (Inr (super_execute e p), s1))"

definition pastes :: "desktop_env \<Rightarrow> ExecuteParams \<Rightarrow> bool" where
  "pastes e p = (action_type p = ''type'' \<and> isWindows e \<and> truthy (content (inputs p)))"

text \<open>\<^verbatim>\<open>NutJSElectronOperator.execute\<close>: for the action types that need it, the overlays are
  hidden before the \<^verbatim>\<open>try\<close> block and restored in its \<^verbatim>\<open>finally\<close> block.\<close>

definition execute_NutJS ::
  "desktop_env \<Rightarrow> ExecuteParams \<Rightarrow> desktop_state \<Rightarrow> (error + ExecuteOutput) \<times> desktop_state" where
  "execute_NutJS e p s =
     (let s1 = (if needsOverlayHide (action_type p)
                then record_event (Sleep (if isWindows e then 200 else 50))
                       (record_event HideOverlaysForExecution s)
                else s)
      in case (if pastes e p then type_by_paste e enter_steps p s1
               else call_super_execute e p s1) of
           (r, s2) \<Rightarrow>
             (r, if needsOverlayHide (action_type p)
                 then record_event RestoreOverlaysAfterExecution (record_event (Sleep 100) s2)
                 else s2))"

text \<open>The earlier \<^verbatim>\<open>execute\<close>, of \<^verbatim>\<open>part_008\<close>: it waits 50 ms on every platform after hiding
  the overlays, and presses no key after the paste.\<close>

definition execute_NutJS_part_008 ::
  "desktop_env \<Rightarrow> ExecuteParams \<Rightarrow> desktop_state \<Rightarrow> (error + ExecuteOutput) \<times> desktop_state" where
  "execute_NutJS_part_008 e p s =
     (let s1 = (if needsOverlayHide (action_type p)
                then record_event (Sleep 50) (record_event HideOverlaysForExecution s)
                else s)
      in case (if pastes e p then type_by_paste e (\<lambda>c. []) p s1
               else call_super_execute e p s1) of
           (r, s2) \<Rightarrow>
             (r, if needsOverlayHide (action_type p)
                 then record_event RestoreOverlaysAfterExecution (record_event (Sleep 100) s2)
                 else s2))"

subsection \<open>Observing the local-desktop operator\<close>

definition desktop_performed :: "desktop_state \<Rightarrow> desktop_state \<Rightarrow> desktop_effect list" where
  "desktop_performed s s' = drop (length (events s)) (events s')"

definition is_overlay_event :: "desktop_effect \<Rightarrow> bool" where
  "is_overlay_event x = (x = HideOverlaysForExecution \<or> x = RestoreOverlaysAfterExecution)"

definition overlay_events :: "desktop_state \<Rightarrow> desktop_state \<Rightarrow> desktop_effect list" where
  "overlay_events s s' = filter is_overlay_event (desktop_performed s s')"

definition is_clipboard_call :: "desktop_effect \<Rightarrow> bool" where
  "is_clipboard_call x =
     (case x of ClipboardReadText \<Rightarrow> True | ClipboardWriteText t \<Rightarrow> True | _ \<Rightarrow> False)"

definition is_paste_key :: "desktop_effect \<Rightarrow> bool" where
  "is_paste_key x =
     (x = PressKey [Key_LeftControl, Key_V] \<or> x = ReleaseKey [Key_LeftControl, Key_V])"

definition clipboard_and_paste :: "desktop_state \<Rightarrow> desktop_state \<Rightarrow> desktop_effect list" where
  "clipboard_and_paste s s' =
     filter (\<lambda>x. is_clipboard_call x \<or> is_paste_key x) (desktop_performed s s')"

text \<open>The paste goes through on a host when the clipboard and the two paste keystrokes never
  throw there.\<close>

definition paste_goes_through :: "desktop_env \<Rightarrow> bool" where
  "paste_goes_through e =
     (\<forall>h x. is_clipboard_call x \<or> is_paste_key x \<longrightarrow> throws e h x = None)"

subsection \<open>Concrete desktops\<close>

definition example_image :: NativeImage where
  "example_image = \<lparr>getSize = \<lparr>width = 1920, height = 1080\<rparr>, pixels = ''frame''\<rparr>"

definition example_desktop :: desktop_env where
  "example_desktop =
     \<lparr>isWindows = True,
      physicalSize = \<lparr>width = 1920, height = 1080\<rparr>,
      logicalSize = \<lparr>width = 1536, height = 864\<rparr>,
      screen_scaleFactor = 5 / 4,
      primaryDisplayId = ''1'',
      sources = [\<lparr>display_id = ''1'', thumbnail = example_image\<rparr>],
      resize = (\<lambda>img sz. img\<lparr>getSize := sz\<rparr>),
      toJPEG = (\<lambda>img quality. pixels img),
      super_screenshot = \<lparr>base64 = ''fallback'', scaleFactor = 1\<rparr>,
      super_execute = (\<lambda>p. None),
      throws = (\<lambda>h x. None)\<rparr>"

text \<open>A desktop whose screen capture returns no source; one whose screen capture throws;
  one where the operator's own \<^verbatim>\<open>execute\<close> throws; one where pressing Enter throws; and one
  where pressing the paste keys throws.\<close>

definition no_source_desktop :: desktop_env where
  "no_source_desktop = example_desktop\<lparr>sources := []\<rparr>"

definition capture_error :: error where
  "capture_error = Error ''Failed to get sources''"

definition failing_capture_desktop :: desktop_env where
  "failing_capture_desktop =
     example_desktop\<lparr>throws := (\<lambda>h x. if x = GetSources 1920 1080 then Some capture_error else None)\<rparr>"

definition action_error :: error where
  "action_error = Error ''action failed''"

definition failing_action_desktop :: desktop_env where
  "failing_action_desktop =
     example_desktop\<lparr>throws := (\<lambda>h x. case x of SuperExecute p \<Rightarrow> Some action_error | _ \<Rightarrow> None)\<rparr>"

definition failing_enter_desktop :: desktop_env where
  "failing_enter_desktop =
     example_desktop\<lparr>throws := (\<lambda>h x. if x = PressKey [Key_Enter] then Some action_error else None)\<rparr>"

definition failing_paste_desktop :: desktop_env where
  "failing_paste_desktop =
     example_desktop\<lparr>throws :=
       (\<lambda>h x. if x = PressKey [Key_LeftControl, Key_V] then Some action_error else None)\<rparr>"

definition desktop_start :: desktop_state where
  "desktop_start = \<lparr>clipboard = ''kept'', events = []\<rparr>"


section \<open>Properties of the effect interpreter\<close>

lemma sent_append: "sent (xs @ ys) = sent xs @ sent ys"
  by (simp add: sent_def map_filter_def)

lemma sent_Nil: "sent [] = []"
  by (simp add: sent_def map_filter_def)

lemma sent_Cons:
  "sent (x # xs) = (case x of SendCommand c \<Rightarrow> c # sent xs | _ \<Rightarrow> sent xs)"
  by (simp add: sent_def map_filter_def split: effect.splits)

lemma performed_append: "trace s' = trace s @ xs \<Longrightarrow> performed s s' = xs"
  by (simp add: performed_def)

lemma perform_fields:
  "wc (snd (perform e x s)) = wc s"
  "debuggerAttached (snd (perform e x s)) = debuggerAttached s"
  "deviceScaleFactor (snd (perform e x s)) = deviceScaleFactor s"
  "attached (snd (perform e x s)) = attached s"
  "queries (snd (perform e x s)) = queries s"
  by (simp_all add: perform_def cdp_def emit_def Let_def split: effect.splits option.splits)

lemma perform_trace:
  "trace (snd (perform e x s)) = trace s \<or> trace (snd (perform e x s)) = trace s @ [x]"
  by (simp add: perform_def cdp_def emit_def Let_def split: effect.splits option.splits)

lemma perform_Inr_trace:
  "fst (perform e x s) = Inr u \<Longrightarrow> trace (snd (perform e x s)) = trace s @ [x]"
  by (simp add: perform_def cdp_def emit_def Let_def split: effect.splits option.splits if_splits)

lemma perform_ok:
  "connected s \<Longrightarrow> \<forall>k. sendCommand_error e k = None \<Longrightarrow> fst (perform e x s) = Inr ()"
  by (auto simp add: perform_def cdp_def connected_def Let_def split: effect.splits)

lemma run_steps_fields:
  "wc (snd (run_steps e steps s)) = wc s \<and>
   debuggerAttached (snd (run_steps e steps s)) = debuggerAttached s \<and>
   deviceScaleFactor (snd (run_steps e steps s)) = deviceScaleFactor s \<and>
   attached (snd (run_steps e steps s)) = attached s \<and>
   queries (snd (run_steps e steps s)) = queries s"
proof (induction steps arbitrary: s)
  case Nil
  show ?case by simp
next
  case (Cons x rest)
  obtain r s' where p: "perform e x s = (r, s')" by (cases "perform e x s")
  have f: "wc s' = wc s" "debuggerAttached s' = debuggerAttached s"
     "deviceScaleFactor s' = deviceScaleFactor s" "attached s' = attached s" "queries s' = queries s"
    using perform_fields[of e x s] p by simp_all
  show ?case
  proof (cases r)
    case (Inl err)
    with p f show ?thesis by simp
  next
    case (Inr u)
    with p f Cons.IH[of s'] show ?thesis by simp
  qed
qed

text \<open>Whatever fails, the effects a handler performs are an initial part of its list.\<close>

lemma run_steps_prefix:
  "\<exists>n. trace (snd (run_steps e steps s)) = trace s @ take n steps"
proof (induction steps arbitrary: s)
  case Nil
  show ?case by simp
next
  case (Cons x rest)
  obtain r s' where p: "perform e x s = (r, s')" by (cases "perform e x s")
  show ?case
  proof (cases r)
    case (Inl err)
    have "trace s' = trace s @ take 0 (x # rest) \<or> trace s' = trace s @ take 1 (x # rest)"
      using perform_trace[of e x s] p by simp
    moreover have "snd (run_steps e (x # rest) s) = s'" using p Inl by simp
    ultimately show ?thesis by metis
  next
    case (Inr u)
    have ts: "trace s' = trace s @ [x]"
      using perform_Inr_trace[of e x s u] p Inr by simp
    obtain n where "trace (snd (run_steps e rest s')) = trace s' @ take n rest"
      using Cons.IH[of s'] by blast
    with p Inr ts have "trace (snd (run_steps e (x # rest) s)) = trace s @ take (Suc n) (x # rest)"
      by simp
    then show ?thesis by blast
  qed
qed

text \<open>When the operator is connected and the host rejects no command, a handler performs
  all of its list.\<close>

lemma run_steps_ok:
  assumes "connected s" and "\<forall>k. sendCommand_error e k = None"
  shows "fst (run_steps e steps s) = Inr () \<and> trace (snd (run_steps e steps s)) = trace s @ steps"
  using assms(1)
proof (induction steps arbitrary: s)
  case Nil
  show ?case by simp
next
  case (Cons x rest)
  obtain r s' where p: "perform e x s = (r, s')" by (cases "perform e x s")
  have r: "r = Inr ()" using perform_ok[OF Cons.prems assms(2), of x] p by simp
  have ts: "trace s' = trace s @ [x]"
    using perform_Inr_trace[of e x s "()"] p r by simp
  have "connected s'"
    using perform_fields[of e x s] p Cons.prems by (simp add: connected_def)
  from Cons.IH[OF this] p r ts show ?case by simp
qed

lemma performed_trans:
  assumes "trace s1 = trace s @ performed s s1" "trace s2 = trace s1 @ performed s1 s2"
  shows "performed s s2 = performed s s1 @ performed s1 s2" "trace s2 = trace s @ performed s s2"
proof -
  have t: "trace s2 = trace s @ (performed s s1 @ performed s1 s2)" using assms by simp
  then show "performed s s2 = performed s s1 @ performed s1 s2"
    by (metis performed_append)
  with t show "trace s2 = trace s @ performed s s2" by simp
qed

lemma run_steps_performed:
  "\<exists>n. performed s (snd (run_steps e steps s)) = take n steps \<and>
       trace (snd (run_steps e steps s)) = trace s @ take n steps"
  using run_steps_prefix[of e steps s] by (metis performed_append)

lemma perform_no_command:
  "sent [x] = [] \<Longrightarrow> perform e x s = (Inr (), emit x s)"
  by (simp add: perform_def sent_Cons sent_Nil split: effect.splits)

lemma run_steps_no_commands:
  assumes "sent steps = []"
  shows "fst (run_steps e steps s) = Inr () \<and> trace (snd (run_steps e steps s)) = trace s @ steps"
  using assms
proof (induction steps arbitrary: s)
  case Nil
  show ?case by simp
next
  case (Cons x rest)
  from Cons.prems have x: "sent [x] = []" and r: "sent rest = []"
    by (auto simp: sent_Cons sent_Nil split: effect.splits)
  from Cons.IH[OF r, of "emit x s"] perform_no_command[OF x, of e s]
  show ?case by (simp add: emit_def)
qed

section \<open>Properties of the session connection\<close>

lemma getScaleFactor_cases:
  assumes "getScaleFactor e s = (sf, s2)"
  shows "sf \<noteq> 0 \<and> wc s2 = wc s \<and> debuggerAttached s2 = debuggerAttached s \<and>
         (trace s2 = trace s \<or>
          trace s2 = trace s @ [SendCommand (Runtime_evaluate ''window.devicePixelRatio'')])"
  using assms
  by (auto simp: getScaleFactor_def query_scale_factor_def cdp_def emit_def Let_def
           split: option.splits if_splits prod.splits sum.splits)

lemma getScaleFactor_trace:
  assumes "getScaleFactor e s = (sf, s2)"
  shows "trace s2 = trace s @ performed s s2 \<and>
         set (sent (performed s s2)) \<subseteq> {Runtime_evaluate ''window.devicePixelRatio''} \<and>
         (\<forall>x \<in> set (performed s s2). \<not> is_warning x)"
  using getScaleFactor_cases[OF assms]
  by (auto simp: performed_def sent_def map_filter_def is_warning_def)

text \<open>A check that returns leaves the operator connected.\<close>

lemma ensureAttached_connected:
  assumes "ensureAttached e s = (Inr u, s1)"
  shows "connected s1"
  using assms
  by (auto simp: ensureAttached_def rebind_def reattach_def wc_alive_def connected_def
        getAllWebContents_def debugger_attach_def cdp_def emit_def Let_def detach_stale_def
        debugger_detach_def
        split: if_splits option.splits sum.splits prod.splits)

text \<open>The only command the check ever sends is the one that fixes the viewport.\<close>

lemma ensureAttached_trace:
  assumes "ensureAttached e s = (r, s1)"
  shows "trace s1 = trace s @ performed s s1 \<and> set (sent (performed s s1)) \<subseteq> {set_viewport}"
  using assms
  by (auto simp: ensureAttached_def rebind_def reattach_def wc_alive_def performed_def sent_def
        map_filter_def getAllWebContents_def debugger_attach_def cdp_def emit_def Let_def
        detach_stale_def debugger_detach_def reconnect_warning_def
        split: if_splits option.splits sum.splits prod.splits)

section \<open>The shape of one call of execute\<close>

text \<open>When the attachment check throws, \<^verbatim>\<open>execute\<close> throws the same error and has sent
  nothing but, at most, the viewport command of the check. When it returns, the effects
  of \<^verbatim>\<open>execute\<close> are those of the check, of the scale-factor query, a log entry, an initial
  part of the action's effects and a closing log entry; the action's effects are performed
  in full when the host rejects no command or the action sends none.\<close>

lemma execute_detached:
  assumes "ensureAttached e s = (Inl err, s1)"
  shows "execute e p s = (Inl err, s1)"
    and "set (sent (performed s (snd (execute e p s)))) \<subseteq> {set_viewport}"
  using assms ensureAttached_trace[OF assms] by (simp_all add: execute_def)

lemma execute_attached:
  assumes ea: "ensureAttached e s = (Inr u, s1)" and gs: "getScaleFactor e s1 = (sf, s2)"
  shows "\<exists>n. performed s (snd (execute e p s)) =
           performed s s1 @ performed s1 s2 @ [log_execute p] @
           take n (action_steps e p (fst (start_point e p sf)) (snd (start_point e p sf)) sf) @
           [if isl (fst (execute e p s)) then log_failed p else log_completed p]
         \<and> ((\<forall>k. sendCommand_error e k = None) \<or>
            sent (action_steps e p (fst (start_point e p sf)) (snd (start_point e p sf)) sf) = [] \<longrightarrow>
              n = length (action_steps e p (fst (start_point e p sf)) (snd (start_point e p sf)) sf)
              \<and> execute e p s = (Inr (start_point e p sf), snd (execute e p s)))"
proof -
  define steps where "steps = action_steps e p (fst (start_point e p sf)) (snd (start_point e p sf)) sf"
  define s2' where "s2' = emit (log_execute p) s2"
  obtain r3 s3 where rs: "run_steps e steps s2' = (r3, s3)" by (cases "run_steps e steps s2'")
  note t1 = ensureAttached_trace[OF ea]
  note t2 = getScaleFactor_trace[OF gs]
  have t2': "trace s2' = trace s2 @ [log_execute p]" by (simp add: s2'_def emit_def)
  obtain n where n: "trace s3 = trace s2' @ take n steps"
    using run_steps_prefix[of e steps s2'] rs by auto
  have con: "connected s2'"
    using ensureAttached_connected[OF ea] getScaleFactor_cases[OF gs]
    by (simp add: connected_def s2'_def emit_def)
  have ex: "execute e p s = (case r3 of Inl err \<Rightarrow> (Inl err, emit (log_failed p) s3)
                              | Inr _ \<Rightarrow> (Inr (start_point e p sf), emit (log_completed p) s3))"
    using ea gs rs by (simp add: execute_def steps_def s2'_def split: sum.splits)
  have tr: "trace (snd (execute e p s)) = trace s @ (performed s s1 @ performed s1 s2 @ [log_execute p] @
           take n steps @ [if isl (fst (execute e p s)) then log_failed p else log_completed p])"
    using t1 t2 t2' n by (simp add: ex emit_def split: sum.splits)
  have p1: "performed s (snd (execute e p s)) =
           performed s s1 @ performed s1 s2 @ [log_execute p] @
           take n steps @ [if isl (fst (execute e p s)) then log_failed p else log_completed p]"
    using performed_append[OF tr] .
  show ?thesis
  proof (cases "(\<forall>k. sendCommand_error e k = None) \<or> sent steps = []")
    case False
    with p1 show ?thesis unfolding steps_def by blast
  next
    case True
    have "fst (run_steps e steps s2') = Inr () \<and> trace (snd (run_steps e steps s2')) = trace s2' @ steps"
      using True run_steps_ok[OF con, of e steps] run_steps_no_commands[of steps e s2'] by blast
    with rs have ok: "r3 = Inr ()" "trace s3 = trace s2' @ steps" by simp_all
    have tr': "trace (snd (execute e p s)) = trace s @ (performed s s1 @ performed s1 s2 @ [log_execute p] @
           take (length steps) steps @ [if isl (fst (execute e p s)) then log_failed p else log_completed p])"
      using t1 t2 t2' ok by (simp add: ex emit_def split: sum.splits)
    have "execute e p s = (Inr (start_point e p sf), snd (execute e p s))" using ex ok by simp
    with performed_append[OF tr'] show ?thesis unfolding steps_def by blast
  qed
qed

section \<open>Navigate: only allowed schemes are navigated to\<close>

lemma handleNavigate_take:
  "filter is_navigation (sent (take n (handleNavigate e c))) = [] \<or>
   (isValidNavigationUrl e (navigation_url c) \<and>
    filter is_navigation (sent (take n (handleNavigate e c))) = [Page_navigate (navigation_url c)])"
  by (simp add: handleNavigate_def Let_def take_Cons' sent_Cons sent_Nil is_navigation_def)

lemma isValidNavigationUrl_iff:
  "isValidNavigationUrl e u = (URL_protocol e u = Some ''http:'' \<or> URL_protocol e u = Some ''https:'')"
  by (auto simp: isValidNavigationUrl_def split: option.splits)

lemma no_navigation:
  "set cs \<subseteq> {c} \<Longrightarrow> \<not> is_navigation c \<Longrightarrow> filter is_navigation cs = []"
  by (induction cs) auto

lemma not_navigation: "\<not> is_navigation set_viewport" "\<not> is_navigation (Runtime_evaluate x)"
  by (simp_all add: is_navigation_def set_viewport_def)

lemma navigate_steps:
  assumes "action_type p = ''navigate''" and "content (inputs p) = Some c"
  shows "action_steps e p x y sf = (if c \<noteq> [] then handleNavigate e c else [])"
  using assms by (simp add: action_steps_def Let_def truthy_def or_empty_def)

lemma navigations_shape:
  assumes nav: "action_type p = ''navigate''" and c: "content (inputs p) = Some c"
  shows "\<exists>n. navigations e p s = filter is_navigation (sent (take n (handleNavigate e c)))
        \<and> (c \<noteq> [] \<and> fst (ensureAttached e s) = Inr () \<and> 
            ((\<forall>k. sendCommand_error e k = None) \<or> sent (handleNavigate e c) = [])
             \<longrightarrow> n = length (handleNavigate e c) \<and> set (handleNavigate e c) \<subseteq> set (performed s (snd (execute e p s))))"
proof -
  obtain r1 s1 where ea: "ensureAttached e s = (r1, s1)" by (cases "ensureAttached e s")
  show ?thesis
  proof (cases r1)
    case (Inl err)
    from execute_detached(2)[OF ea[unfolded Inl], of p]
    have "navigations e p s = filter is_navigation (sent (take 0 (handleNavigate e c)))"
      using no_navigation not_navigation(1) by (simp add: navigations_def sent_Nil)
    moreover have "fst (ensureAttached e s) \<noteq> Inr ()" using ea Inl by simp
    ultimately show ?thesis by blast
  next
    case (Inr u)
    obtain sf s2 where gs: "getScaleFactor e s1 = (sf, s2)" by (cases "getScaleFactor e s1")
    have n1: "filter is_navigation (sent (performed s s1)) = []"
      using ensureAttached_trace[OF ea] no_navigation not_navigation(1) by blast
    have n2: "filter is_navigation (sent (performed s1 s2)) = []"
      using getScaleFactor_trace[OF gs] no_navigation not_navigation(2) by blast
    define steps where "steps = action_steps e p (fst (start_point e p sf)) (snd (start_point e p sf)) sf"
    have st: "steps = (if c \<noteq> [] then handleNavigate e c else [])"
      unfolding steps_def using navigate_steps[OF nav c] .
    from execute_attached[OF ea[unfolded Inr] gs, of p, folded steps_def]
    obtain n where X: "performed s (snd (execute e p s)) =
           performed s s1 @ performed s1 s2 @ [log_execute p] @ take n steps @
           [if isl (fst (execute e p s)) then log_failed p else log_completed p]"
       and ok: "(\<forall>k. sendCommand_error e k = None) \<or> sent steps = [] \<longrightarrow> n = length steps"
      by blast
    have nv: "navigations e p s = filter is_navigation (sent (take n steps))"
      using n1 n2 by (simp add: navigations_def X sent_append sent_Cons sent_Nil
                                log_execute_def log_failed_def log_completed_def)
    show ?thesis
    proof (cases "c = []")
      case True
      with nv st have "navigations e p s = filter is_navigation (sent (take 0 (handleNavigate e c)))"
        by (simp add: sent_Nil)
      with True show ?thesis by blast
    next
      case False
      with nv st ok X show ?thesis by auto
    qed
  qed
qed

text \<open>
  Claim C1. For a \<^verbatim>\<open>navigate\<close> action with content \<open>c\<close>, \<^verbatim>\<open>execute\<close> sends at most one
  page-navigation command, and only to \<open>navigation_url c\<close>, which is \<open>c\<close> with
  \<^verbatim>\<open>https://\<close> put in front unless \<open>c\<close> starts with \<^verbatim>\<open>http://\<close> or \<^verbatim>\<open>https://\<close> (in any
  letter case). A command is sent only if that URL parses with protocol \<^verbatim>\<open>http:\<close> or
  \<^verbatim>\<open>https:\<close>; it is sent whenever it does, the content is not empty, the attachment check
  succeeds and the host rejects no command. A URL that fails the test is logged as a
  warning and not navigated to. For the content \<^verbatim>\<open>javascript:alert(1)\<close> the URL tested is
  \<^verbatim>\<open>https://javascript:alert(1)\<close>, which the URL parser rejects (its port is not a number),
  so no page-navigation command is sent.
\<close>

theorem navigate_only_allowed_schemes:
  assumes nav: "action_type p = ''navigate''" and c: "content (inputs p) = Some c"
  shows "(navigations e p s = [] \<or> navigations e p s = [Page_navigate (navigation_url c)])
       \<and> (navigations e p s \<noteq> [] \<longrightarrow>
            URL_protocol e (navigation_url c) = Some ''http:'' \<or>
            URL_protocol e (navigation_url c) = Some ''https:'')
       \<and> ((URL_protocol e (navigation_url c) = Some ''http:'' \<or>
            URL_protocol e (navigation_url c) = Some ''https:'') \<and>
           c \<noteq> [] \<and> fst (ensureAttached e s) = Inr () \<and> (\<forall>k. sendCommand_error e k = None)
           \<longrightarrow> navigations e p s = [Page_navigate (navigation_url c)])
       \<and> (\<not> has_http_prefix c \<longrightarrow> navigation_url c = ''https://'' @ c)
       \<and> (has_http_prefix c \<longrightarrow> navigation_url c = c)
       \<and> (\<not> (URL_protocol e (navigation_url c) = Some ''http:'' \<or>
               URL_protocol e (navigation_url c) = Some ''https:'') \<and>
           c \<noteq> [] \<and> fst (ensureAttached e s) = Inr ()
           \<longrightarrow> Log Warn (''[EmbeddedBrowserOperator] Blocked navigation to unsafe URL: ''
                          @ navigation_url c) \<in> set (performed s (snd (execute e p s))))
       \<and> (c = ''javascript:alert(1)'' \<and> URL_protocol e ''https://javascript:alert(1)'' = None
           \<longrightarrow> navigations e p s = [])"
proof -
  let ?valid = "URL_protocol e (navigation_url c) = Some ''http:'' \<or>
                URL_protocol e (navigation_url c) = Some ''https:''"
  from navigations_shape[OF nav c, of e s] obtain n where
    n: "navigations e p s = filter is_navigation (sent (take n (handleNavigate e c)))"
    and full: "c \<noteq> [] \<and> fst (ensureAttached e s) = Inr () \<and>
            ((\<forall>k. sendCommand_error e k = None) \<or> sent (handleNavigate e c) = [])
             \<longrightarrow> n = length (handleNavigate e c) \<and> set (handleNavigate e c) \<subseteq> set (performed s (snd (execute e p s)))"
    by blast
  have a: "navigations e p s = [] \<or> (?valid \<and> navigations e p s = [Page_navigate (navigation_url c)])"
    using handleNavigate_take[of n e c] n by (simp add: isValidNavigationUrl_iff)
  have b: "?valid \<and> c \<noteq> [] \<and> fst (ensureAttached e s) = Inr () \<and> (\<forall>k. sendCommand_error e k = None)
           \<longrightarrow> navigations e p s = [Page_navigate (navigation_url c)]"
    using full n by (auto simp: handleNavigate_def Let_def isValidNavigationUrl_iff sent_Cons sent_Nil is_navigation_def)
  have w: "\<not> ?valid \<and> c \<noteq> [] \<and> fst (ensureAttached e s) = Inr ()
           \<longrightarrow> Log Warn (''[EmbeddedBrowserOperator] Blocked navigation to unsafe URL: ''
                          @ navigation_url c) \<in> set (performed s (snd (execute e p s)))"
    using full by (auto simp: handleNavigate_def Let_def isValidNavigationUrl_iff sent_Cons sent_Nil)
  have j: "navigation_url ''javascript:alert(1)'' = ''https://javascript:alert(1)''"
    by (simp add: navigation_url_def has_http_prefix_def toLowerCase_def toLowerCase_char_def)
  have d: "c = ''javascript:alert(1)'' \<and> URL_protocol e ''https://javascript:alert(1)'' = None
           \<longrightarrow> navigations e p s = []"
    using a j by auto
  have p1: "\<not> has_http_prefix c \<longrightarrow> navigation_url c = ''https://'' @ c"
    by (simp add: navigation_url_def)
  have p2: "has_http_prefix c \<longrightarrow> navigation_url c = c"
    by (simp add: navigation_url_def)
  from a have a1: "navigations e p s = [] \<or> navigations e p s = [Page_navigate (navigation_url c)]"
    and a2: "navigations e p s \<noteq> [] \<longrightarrow> ?valid" by auto
  from a1 a2 b p1 p2 w d show ?thesis by (intro conjI)
qed

theorem navigate_only_allowed_schemes_witness:
  "action_type (action ''navigate'' (no_inputs\<lparr>content := Some ''javascript:alert(1)''\<rparr>)) = ''navigate''
   \<and> content (inputs (action ''navigate'' (no_inputs\<lparr>content := Some ''javascript:alert(1)''\<rparr>)))
       = Some ''javascript:alert(1)''
   \<and> URL_protocol example_env ''https://javascript:alert(1)'' = None
   \<and> navigations example_env (action ''navigate'' (no_inputs\<lparr>content := Some ''javascript:alert(1)''\<rparr>))
        connected_operator = []
   \<and> Log Warn ''[EmbeddedBrowserOperator] Blocked navigation to unsafe URL: https://javascript:alert(1)''
        \<in> set (performed connected_operator
                 (snd (execute example_env
                         (action ''navigate'' (no_inputs\<lparr>content := Some ''javascript:alert(1)''\<rparr>))
                         connected_operator)))
   \<and> fst (ensureAttached example_env connected_operator) = Inr ()
   \<and> (\<forall>k. sendCommand_error example_env k = None)
   \<and> URL_protocol example_env (navigation_url ''example.com'') = Some ''https:''
   \<and> navigations example_env (action ''navigate'' (no_inputs\<lparr>content := Some ''example.com''\<rparr>))
        connected_operator = [Page_navigate ''https://example.com'']"
proof -
  have h1: "action_type (action ''navigate'' (no_inputs\<lparr>content := Some ''javascript:alert(1)''\<rparr>))
              = ''navigate''"
    and h2: "content (inputs (action ''navigate'' (no_inputs\<lparr>content := Some ''javascript:alert(1)''\<rparr>)))
              = Some ''javascript:alert(1)''"
    and h3: "action_type (action ''navigate'' (no_inputs\<lparr>content := Some ''example.com''\<rparr>))
              = ''navigate''"
    and h4: "content (inputs (action ''navigate'' (no_inputs\<lparr>content := Some ''example.com''\<rparr>)))
              = Some ''example.com''"
    by (simp_all add: action_def no_inputs_def)
  have u1: "navigation_url ''javascript:alert(1)'' = ''https://javascript:alert(1)''"
    and u2: "navigation_url ''example.com'' = ''https://example.com''"
    by (simp_all add: navigation_url_def has_http_prefix_def toLowerCase_def toLowerCase_char_def)
  have e1: "URL_protocol example_env ''https://javascript:alert(1)'' = None"
    and e2: "URL_protocol example_env ''https://example.com'' = Some ''https:''"
    and e3: "\<forall>k. sendCommand_error example_env k = None"
    by (simp_all add: example_env_def)
  have e4: "fst (ensureAttached example_env connected_operator) = Inr ()"
    by (simp add: ensureAttached_def wc_alive_def connected_operator_def example_env_def)
  from navigate_only_allowed_schemes[OF h1 h2, of example_env connected_operator]
       navigate_only_allowed_schemes[OF h3 h4, of example_env connected_operator]
       h1 h2 u1 u2 e1 e2 e3 e4
  show ?thesis by simp
qed

text \<open>What one call of \<^verbatim>\<open>execute\<close> sends, seen through a filter that lets neither the
  viewport command nor the scale-factor query pass: the check and the query contribute
  nothing, and what remains comes from an initial part of the action's effects.\<close>

lemma filter_sent_none:
  "set cs \<subseteq> {c} \<Longrightarrow> \<not> P c \<Longrightarrow> filter P cs = []"
  by (induction cs) auto

lemma execute_filter:
  assumes P1: "\<not> P set_viewport" and P2: "\<not> P (Runtime_evaluate ''window.devicePixelRatio'')"
  shows "\<exists>n. filter P (sent (performed s (snd (execute e p s)))) =
              filter P (sent (take n (execute_steps e p s)))
        \<and> (fst (ensureAttached e s) = Inr () \<and>
            ((\<forall>k. sendCommand_error e k = None) \<or> sent (execute_steps e p s) = [])
            \<longrightarrow> n = length (execute_steps e p s) \<and>
                fst (execute e p s) = Inr (start_point e p (execute_scale_factor e s)))"
proof -
  obtain r1 s1 where ea: "ensureAttached e s = (r1, s1)" by (cases "ensureAttached e s")
  show ?thesis
  proof (cases r1)
    case (Inl err)
    have "filter P (sent (performed s (snd (execute e p s)))) = []"
      using execute_detached(2)[OF ea[unfolded Inl], of p] P1
      by (intro filter_sent_none[where P=P and c=set_viewport]) simp_all
    then have "filter P (sent (performed s (snd (execute e p s)))) = filter P (sent (take 0 (execute_steps e p s)))"
      by (simp add: sent_Nil)
    moreover have "fst (ensureAttached e s) \<noteq> Inr ()" using ea Inl by simp
    ultimately show ?thesis by blast
  next
    case (Inr u)
    obtain sf s2 where gs: "getScaleFactor e s1 = (sf, s2)" by (cases "getScaleFactor e s1")
    have sf: "execute_scale_factor e s = sf" using ea gs by (simp add: execute_scale_factor_def)
    have n1: "filter P (sent (performed s s1)) = []"
      using ensureAttached_trace[OF ea] P1
      by (intro filter_sent_none[where P=P and c=set_viewport]) simp_all
    have n2: "filter P (sent (performed s1 s2)) = []"
      using getScaleFactor_trace[OF gs] P2
      by (intro filter_sent_none[where P=P and c="Runtime_evaluate ''window.devicePixelRatio''"]) simp_all
    from execute_attached[OF ea[unfolded Inr] gs, of p]
    obtain n where X: "performed s (snd (execute e p s)) =
           performed s s1 @ performed s1 s2 @ [log_execute p] @ take n (execute_steps e p s) @
           [if isl (fst (execute e p s)) then log_failed p else log_completed p]"
       and ok: "(\<forall>k. sendCommand_error e k = None) \<or> sent (execute_steps e p s) = [] \<longrightarrow>
                n = length (execute_steps e p s) \<and> execute e p s = (Inr (start_point e p sf), snd (execute e p s))"
      unfolding execute_steps_def sf by blast
    have "filter P (sent (performed s (snd (execute e p s)))) = filter P (sent (take n (execute_steps e p s)))"
      using n1 n2 by (simp add: X sent_append sent_Cons sent_Nil
                                log_execute_def log_failed_def log_completed_def)
    moreover have "(\<forall>k. sendCommand_error e k = None) \<or> sent (execute_steps e p s) = [] \<longrightarrow>
                n = length (execute_steps e p s) \<and> fst (execute e p s) = Inr (start_point e p (execute_scale_factor e s))"
      using ok sf by (metis fst_conv)
    ultimately show ?thesis by blast
  qed
qed

section \<open>Type: a literal trailing newline is trimmed away\<close>

lemma trim_no_trailing_space: "trim s \<noteq> [] \<Longrightarrow> \<not> is_js_space (last (trim s))"
proof -
  assume a: "trim s \<noteq> []"
  define t where "t = dropWhile is_js_space (rev (dropWhile is_js_space s))"
  have ts: "trim s = rev t" by (simp add: trim_def t_def)
  with a have "t \<noteq> []" by simp
  then have "\<not> is_js_space (hd t)" unfolding t_def by (metis hd_dropWhile)
  then show ?thesis using ts \<open>t \<noteq> []\<close> by (simp add: last_rev)
qed

text \<open>The trimmed content never ends with a line feed, so the first of the two tests for a
  trailing newline marker in \<^verbatim>\<open>handleType\<close> never holds.\<close>

lemma trim_never_ends_with_newline: "\<not> endsWith (trim s) [newline]"
proof
  assume e: "endsWith (trim s) [newline]"
  then have ne: "trim s \<noteq> []" by (auto simp: endsWith_def)
  from e have "drop (length (trim s) - 1) (trim s) = [newline]" by (simp add: endsWith_def)
  then have "last (trim s) = newline" using ne
    by (metis last_drop last.simps diff_less length_greater_0_conv zero_less_one)
  moreover have "is_js_space newline" by (simp add: is_js_space_def newline_def)
  ultimately show False using trim_no_trailing_space[OF ne] by simp
qed

text \<open>The escaped marker works: the text before it is inserted and Enter is tapped once.\<close>

lemma type_escaped_newline:
  "execute example_env
     (action ''type'' (no_inputs\<lparr>content := Some (''abc'' @ [backslash, CHR ''n''])\<rparr>))
     connected_operator
   = (Inr (None, None),
      connected_operator\<lparr>commands := 4, trace :=
        [Log Info ''[EmbeddedBrowserOperator] Execute: type'',
         SendCommand (Input_insertText ''abc''),
         Delay 50,
         SendCommand (Input_dispatchKeyEvent rawKeyDown (Some ''Enter'') (Some ''Enter'') (Some 13)
                        None None),
         Delay 50,
         SendCommand (Input_dispatchKeyEvent keyUp (Some ''Enter'') (Some ''Enter'') (Some 13)
                        None None),
         Delay 2000,
         Delay 1000,
         Log Info ''[EmbeddedBrowserOperator] Action type completed'']\<rparr>)"
  by (simp add: execute_def ensureAttached_def wc_alive_def connected_operator_def example_env_def
        getScaleFactor_def start_point_def action_def no_inputs_def or_empty_def action_steps_def
        handleType_def trim_def is_js_space_def newline_def truthy_def replace_at_end_def endsWith_def
        backslash_def perform_def cdp_def emit_def log_execute_def log_completed_def Let_def
        KEY_DEFS_def KEY_DEFS_table_def mk_key_def mk_modifier_def keyTap_def key_event_def)

text \<open>
  Claim C2. A type action whose content ends with a literal line feed should insert the
  text before it and then tap Enter once. The operator trims the content before it looks
  for the marker, which removes the line feed: for the content \<^verbatim>\<open>abc\<close> followed by a line
  feed, \<^verbatim>\<open>execute\<close> inserts \<^verbatim>\<open>abc\<close> and dispatches no key event at all.
\<close>

theorem type_literal_newline_sends_no_enter:
  "execute example_env (action ''type'' (no_inputs\<lparr>content := Some (''abc'' @ [newline])\<rparr>))
     connected_operator
   = (Inr (None, None),
      connected_operator\<lparr>commands := 2, trace :=
        [Log Info ''[EmbeddedBrowserOperator] Execute: type'',
         SendCommand (Input_insertText ''abc''),
         Delay 1000,
         Log Info ''[EmbeddedBrowserOperator] Action type completed'']\<rparr>)"
  by (simp add: execute_def ensureAttached_def wc_alive_def connected_operator_def example_env_def
        getScaleFactor_def start_point_def action_def no_inputs_def or_empty_def action_steps_def
        handleType_def trim_def is_js_space_def newline_def truthy_def replace_at_end_def endsWith_def
        backslash_def perform_def cdp_def emit_def log_execute_def log_completed_def Let_def)

section \<open>Hotkey: modifiers down, keys tapped, modifiers up in reverse\<close>

lemma is_key_event_simps:
  "\<not> is_key_event set_viewport" "\<not> is_key_event (Runtime_evaluate x)"
  "is_key_event (key_event t d m c)"
  by (simp_all add: is_key_event_def set_viewport_def key_event_def)

lemma sent_map_SendCommand: "sent (map (\<lambda>m. SendCommand (f m)) xs) = map f xs"
  by (induction xs) (simp_all add: sent_Cons sent_Nil)

lemma sent_press_release:
  "sent (concat (map (press_release b c) ks)) =
   concat (map (\<lambda>k. [key_event rawKeyDown k (Some b) (map_option (\<lambda>c. [c]) c),
                      key_event keyUp k (Some b) None]) ks)"
  by (induction ks) (simp_all add: sent_Cons sent_Nil sent_append press_release_def)

lemma sent_multi_key_shortcut:
  "sent (multi_key_shortcut mac defs) =
     map (\<lambda>m. key_event rawKeyDown m (Some (modifier_bits (filter isModifier defs))) None)
         (filter isModifier defs) @
     concat (map (\<lambda>k. [key_event rawKeyDown k (Some (modifier_bits (filter isModifier defs)))
                          (map_option (\<lambda>c. [c]) (mac_command mac defs)),
                        key_event keyUp k (Some (modifier_bits (filter isModifier defs))) None])
                 (filter (\<lambda>d. \<not> isModifier d) defs)) @
     map (\<lambda>m. key_event keyUp m (Some 0) None) (rev (filter isModifier defs))"
  by (simp add: multi_key_shortcut_def Let_def sent_append sent_map_SendCommand sent_press_release)

lemma all_key_events_multi:
  "filter is_key_event (sent (multi_key_shortcut mac defs)) = sent (multi_key_shortcut mac defs)"
  by (rule filter_True) (auto simp: sent_multi_key_shortcut is_key_event_simps)

lemma length_pairs: "length (concat (map (\<lambda>k. [f k, g k]) ks)) = 2 * length ks"
  by (induction ks) simp_all

lemma normalize_keys_Nil: "normalize_keys [] = []"
  by (simp add: normalize_keys_def)

lemma resolve_all:
  assumes "\<forall>k \<in> set keys. KEY_DEFS mac (toLowerCase k) \<noteq> None"
  shows "length (resolve_keys mac keys) = length keys" "unsupported_key_warnings mac keys = []"
  using assms
  by (induction keys) (auto simp: resolve_keys_def map_filter_def unsupported_key_warnings_def)

lemma hotkey_multi_steps:
  assumes key: "inputs_key inp = Some keyStr"
      and all: "\<forall>k \<in> set (split_keys [] (normalize_keys keyStr)). KEY_DEFS mac (toLowerCase k) \<noteq> None"
      and multi: "2 \<le> length (split_keys [] (normalize_keys keyStr))"
  shows "handleHotkey mac inp =
           multi_key_shortcut mac (resolve_keys mac (split_keys [] (normalize_keys keyStr))) @ [Delay 500]"
proof -
  have ne: "keyStr \<noteq> []" using multi normalize_keys_Nil by auto
  note r = resolve_all[OF all]
  from r(1) multi have l: "resolve_keys mac (split_keys [] (normalize_keys keyStr)) \<noteq> []"
    "length (resolve_keys mac (split_keys [] (normalize_keys keyStr))) \<noteq> Suc 0"
    by auto
  show ?thesis using key ne r(2) l
    by (simp add: handleHotkey_def truthy_def or_empty_def Let_def)
qed

lemma keys_ctrl_shift_z:
  "split_keys [] (normalize_keys ''ctrl+shift+z'') = [''ctrl'', ''shift'', ''z'']"
  by code_simp

lemma defs_ctrl_shift_z:
  "resolve_keys False [''ctrl'', ''shift'', ''z''] =
     [mk_modifier ''Control'' ''ControlLeft'' 17 2, mk_modifier ''Shift'' ''ShiftLeft'' 16 8,
      mk_key ''z'' ''KeyZ'' 90]"
  by code_simp

lemma all_ctrl_shift_z:
  "\<forall>k \<in> set [''ctrl'', ''shift'', ''z'']. KEY_DEFS False (toLowerCase k) \<noteq> None"
  by code_simp

lemma lookups_ctrl_shift_z:
  "map (\<lambda>k. KEY_DEFS False (toLowerCase k)) [''ctrl'', ''shift'', ''z''] =
     [Some (mk_modifier ''Control'' ''ControlLeft'' 17 2),
      Some (mk_modifier ''Shift'' ''ShiftLeft'' 16 8),
      Some (mk_key ''z'' ''KeyZ'' 90)]"
  by code_simp

lemma bits_ctrl_shift:
  "modifier_bits [mk_modifier ''Control'' ''ControlLeft'' 17 2,
                  mk_modifier ''Shift'' ''ShiftLeft'' 16 8] = 10"
  by code_simp

text \<open>
  Claim C3. For a hotkey whose key string splits into at least two keys, all of which
  \<^verbatim>\<open>KEY_DEFS\<close> resolves, and with the operator attached and no command rejected, the key
  events \<^verbatim>\<open>execute\<close> dispatches are: a key-down for each modifier in the listed order
  (each carrying the combined modifier bits), then a key-down and a key-up for each
  non-modifier key in turn, then a key-up for each modifier in the reverse of the listed
  order. Their number is twice the number of non-modifier keys plus twice the number of
  modifiers. The witness is the key string \<^verbatim>\<open>ctrl+shift+z\<close>.
\<close>

theorem hotkey_press_release_order:
  assumes hot: "action_type p = ''hotkey''"
      and key: "inputs_key (inputs p) = Some keyStr"
      and all: "\<forall>k \<in> set (split_keys [] (normalize_keys keyStr)).
                  KEY_DEFS (isMac e) (toLowerCase k) \<noteq> None"
      and multi: "2 \<le> length (split_keys [] (normalize_keys keyStr))"
      and defs: "defs = resolve_keys (isMac e) (split_keys [] (normalize_keys keyStr))"
      and att: "fst (ensureAttached e s) = Inr ()"
      and rel: "\<forall>k. sendCommand_error e k = None"
  shows "key_events e p s =
           map (\<lambda>m. key_event rawKeyDown m (Some (modifier_bits (filter isModifier defs))) None)
               (filter isModifier defs) @
           concat (map (\<lambda>k. [key_event rawKeyDown k (Some (modifier_bits (filter isModifier defs)))
                                (map_option (\<lambda>c. [c]) (mac_command (isMac e) defs)),
                              key_event keyUp k (Some (modifier_bits (filter isModifier defs))) None])
                       (filter (\<lambda>d. \<not> isModifier d) defs)) @
           map (\<lambda>m. key_event keyUp m (Some 0) None) (rev (filter isModifier defs))
         \<and> length (key_events e p s) =
             2 * length (filter (\<lambda>d. \<not> isModifier d) defs) + 2 * length (filter isModifier defs)"
proof -
  have steps: "execute_steps e p s = multi_key_shortcut (isMac e) defs @ [Delay 500]"
    using hot hotkey_multi_steps[OF key all multi] defs
    by (simp add: execute_steps_def action_steps_def Let_def)
  from execute_filter[OF is_key_event_simps(1) is_key_event_simps(2), of s e p]
  obtain n where n: "filter is_key_event (sent (performed s (snd (execute e p s)))) =
              filter is_key_event (sent (take n (execute_steps e p s)))"
     and full: "fst (ensureAttached e s) = Inr () \<and>
            ((\<forall>k. sendCommand_error e k = None) \<or> sent (execute_steps e p s) = [])
            \<longrightarrow> n = length (execute_steps e p s)"
    by blast
  from full att rel have "n = length (execute_steps e p s)" by blast
  with n have "key_events e p s = filter is_key_event (sent (execute_steps e p s))"
    by (simp add: key_events_def)
  then have ke: "key_events e p s = sent (multi_key_shortcut (isMac e) defs)"
    by (simp add: steps sent_append sent_Cons sent_Nil all_key_events_multi)
  show ?thesis
    unfolding ke sent_multi_key_shortcut by (simp add: length_pairs)
qed

theorem hotkey_press_release_order_witness:
  "action_type (action ''hotkey'' (no_inputs\<lparr>inputs_key := Some ''ctrl+shift+z''\<rparr>)) = ''hotkey''
   \<and> inputs_key (inputs (action ''hotkey'' (no_inputs\<lparr>inputs_key := Some ''ctrl+shift+z''\<rparr>)))
       = Some ''ctrl+shift+z''
   \<and> split_keys [] (normalize_keys ''ctrl+shift+z'') = [''ctrl'', ''shift'', ''z'']
   \<and> map (\<lambda>k. KEY_DEFS (isMac example_env) (toLowerCase k))
         (split_keys [] (normalize_keys ''ctrl+shift+z'')) =
       [Some (mk_modifier ''Control'' ''ControlLeft'' 17 2),
        Some (mk_modifier ''Shift'' ''ShiftLeft'' 16 8),
        Some (mk_key ''z'' ''KeyZ'' 90)]
   \<and> 2 \<le> length (split_keys [] (normalize_keys ''ctrl+shift+z''))
   \<and> fst (ensureAttached example_env connected_operator) = Inr ()
   \<and> (\<forall>k. sendCommand_error example_env k = None)
   \<and> key_events example_env (action ''hotkey'' (no_inputs\<lparr>inputs_key := Some ''ctrl+shift+z''\<rparr>))
        connected_operator =
       [Input_dispatchKeyEvent rawKeyDown (Some ''Control'') (Some ''ControlLeft'') (Some 17) (Some 10) None,
        Input_dispatchKeyEvent rawKeyDown (Some ''Shift'') (Some ''ShiftLeft'') (Some 16) (Some 10) None,
        Input_dispatchKeyEvent rawKeyDown (Some ''z'') (Some ''KeyZ'') (Some 90) (Some 10) None,
        Input_dispatchKeyEvent keyUp (Some ''z'') (Some ''KeyZ'') (Some 90) (Some 10) None,
        Input_dispatchKeyEvent keyUp (Some ''Shift'') (Some ''ShiftLeft'') (Some 16) (Some 0) None,
        Input_dispatchKeyEvent keyUp (Some ''Control'') (Some ''ControlLeft'') (Some 17) (Some 0) None]
   \<and> length (key_events example_env
                (action ''hotkey'' (no_inputs\<lparr>inputs_key := Some ''ctrl+shift+z''\<rparr>))
                connected_operator) = 2 * 1 + 2 * 2"
proof -
  let ?p = "action ''hotkey'' (no_inputs\<lparr>inputs_key := Some ''ctrl+shift+z''\<rparr>)"
  let ?defs = "[mk_modifier ''Control'' ''ControlLeft'' 17 2, mk_modifier ''Shift'' ''ShiftLeft'' 16 8,
                mk_key ''z'' ''KeyZ'' 90]"
  have m: "isMac example_env = False" by (simp add: example_env_def)
  have h1: "action_type ?p = ''hotkey''" and h2: "inputs_key (inputs ?p) = Some ''ctrl+shift+z''"
    by (simp_all add: action_def no_inputs_def)
  have h3: "\<forall>k \<in> set (split_keys [] (normalize_keys ''ctrl+shift+z'')).
              KEY_DEFS (isMac example_env) (toLowerCase k) \<noteq> None"
    unfolding keys_ctrl_shift_z m by (rule all_ctrl_shift_z)
  have h4: "2 \<le> length (split_keys [] (normalize_keys ''ctrl+shift+z''))"
    unfolding keys_ctrl_shift_z by simp
  have h5: "?defs = resolve_keys (isMac example_env) (split_keys [] (normalize_keys ''ctrl+shift+z''))"
    unfolding keys_ctrl_shift_z m defs_ctrl_shift_z ..
  have h6: "fst (ensureAttached example_env connected_operator) = Inr ()"
    by (simp add: ensureAttached_def wc_alive_def connected_operator_def example_env_def)
  have h7: "\<forall>k. sendCommand_error example_env k = None"
    by (simp add: example_env_def)
  have f: "filter isModifier ?defs = [mk_modifier ''Control'' ''ControlLeft'' 17 2,
                                      mk_modifier ''Shift'' ''ShiftLeft'' 16 8]"
    "filter (\<lambda>d. \<not> isModifier d) ?defs = [mk_key ''z'' ''KeyZ'' 90]"
    by (simp_all add: mk_modifier_def mk_key_def)
  from hotkey_press_release_order[OF h1 h2 h3 h4 h5 h6 h7]
  have "key_events example_env ?p connected_operator =
       [Input_dispatchKeyEvent rawKeyDown (Some ''Control'') (Some ''ControlLeft'') (Some 17) (Some 10) None,
        Input_dispatchKeyEvent rawKeyDown (Some ''Shift'') (Some ''ShiftLeft'') (Some 16) (Some 10) None,
        Input_dispatchKeyEvent rawKeyDown (Some ''z'') (Some ''KeyZ'') (Some 90) (Some 10) None,
        Input_dispatchKeyEvent keyUp (Some ''z'') (Some ''KeyZ'') (Some 90) (Some 10) None,
        Input_dispatchKeyEvent keyUp (Some ''Shift'') (Some ''ShiftLeft'') (Some 16) (Some 0) None,
        Input_dispatchKeyEvent keyUp (Some ''Control'') (Some ''ControlLeft'') (Some 17) (Some 0) None]"
    unfolding f bits_ctrl_shift
    by (simp add: key_event_def mk_modifier_def mk_key_def mac_command_def m)
  moreover have "map (\<lambda>k. KEY_DEFS (isMac example_env) (toLowerCase k))
         (split_keys [] (normalize_keys ''ctrl+shift+z'')) =
       [Some (mk_modifier ''Control'' ''ControlLeft'' 17 2),
        Some (mk_modifier ''Shift'' ''ShiftLeft'' 16 8),
        Some (mk_key ''z'' ''KeyZ'' 90)]"
    unfolding keys_ctrl_shift_z m by (rule lookups_ctrl_shift_z)
  ultimately show ?thesis using h1 h2 h4 h6 h7 keys_ctrl_shift_z by simp
qed

section \<open>The effects of each action\<close>

lemma action_steps_click:
  "action_type p \<in> set [''click'', ''left_click'', ''left_single''] \<Longrightarrow>
   action_steps e p x y sf =
     (case (x, y) of (Some a, Some b) \<Rightarrow> mouseClick a b ''left'' 1 | _ \<Rightarrow> [])"
  by (auto simp: action_steps_def Let_def)

lemma action_steps_double_click:
  "action_type p \<in> set [''double_click'', ''left_double''] \<Longrightarrow>
   action_steps e p x y sf =
     (case (x, y) of (Some a, Some b) \<Rightarrow> mouseClick a b ''left'' 2 | _ \<Rightarrow> [])"
  by (auto simp: action_steps_def Let_def)

lemma action_steps_right_click:
  "action_type p \<in> set [''right_click'', ''right_single''] \<Longrightarrow>
   action_steps e p x y sf =
     (case (x, y) of (Some a, Some b) \<Rightarrow> mouseClick a b ''right'' 1 | _ \<Rightarrow> [])"
  by (auto simp: action_steps_def Let_def)

lemma action_steps_others:
  "action_type p = ''type'' \<Longrightarrow>
     action_steps e p x y sf = handleType (isMac e) (inputs p) @ [Delay 1000]"
  "action_type p = ''hotkey'' \<Longrightarrow> action_steps e p x y sf = handleHotkey (isMac e) (inputs p)"
  "action_type p = ''press'' \<Longrightarrow>
     action_steps e p x y sf = handleKeyAction (isMac e) (inputs p) True"
  "action_type p = ''release'' \<Longrightarrow>
     action_steps e p x y sf = handleKeyAction (isMac e) (inputs p) False @ [Delay 500]"
  "action_type p = ''scroll'' \<Longrightarrow> action_steps e p x y sf = handleScroll e (inputs p)"
  "action_type p = ''drag'' \<Longrightarrow>
     action_steps e p x y sf = handleDrag e (inputs p) sf (screenWidth p) (screenHeight p)"
  "action_type p = ''navigate'' \<Longrightarrow>
     action_steps e p x y sf =
       (if truthy (content (inputs p)) then handleNavigate e (or_empty (content (inputs p))) else [])"
  by (simp_all add: action_steps_def Let_def)






section \<open>Actions with a missing input\<close>







section \<open>Pointer events and the scale factor\<close>

lemma is_mouse_event_simps:
  "\<not> is_mouse_event set_viewport" "\<not> is_mouse_event (Runtime_evaluate x)"
  by (simp_all add: is_mouse_event_def set_viewport_def)

lemma execute_scale_factor_nonzero: "execute_scale_factor e s \<noteq> 0"
proof -
  obtain sf s2 where gs: "getScaleFactor e (snd (ensureAttached e s)) = (sf, s2)"
    by (cases "getScaleFactor e (snd (ensureAttached e s))")
  from getScaleFactor_cases[OF gs] gs show ?thesis by (simp add: execute_scale_factor_def)
qed

lemma mouse_events_full:
  assumes "fst (ensureAttached e s) = Inr ()" and "\<forall>k. sendCommand_error e k = None"
  shows "mouse_events e p s = filter is_mouse_event (sent (execute_steps e p s))"
    and "fst (execute e p s) = Inr (start_point e p (execute_scale_factor e s))"
proof -
  from execute_filter[OF is_mouse_event_simps(1) is_mouse_event_simps(2), of s e p]
  obtain n where n: "mouse_events e p s = filter is_mouse_event (sent (take n (execute_steps e p s)))"
     and full: "fst (ensureAttached e s) = Inr () \<and>
            ((\<forall>k. sendCommand_error e k = None) \<or> sent (execute_steps e p s) = [])
            \<longrightarrow> n = length (execute_steps e p s) \<and>
                fst (execute e p s) = Inr (start_point e p (execute_scale_factor e s))"
    unfolding mouse_events_def by blast
  from full assms have "n = length (execute_steps e p s)"
    and r: "fst (execute e p s) = Inr (start_point e p (execute_scale_factor e s))" by blast+
  with n show "mouse_events e p s = filter is_mouse_event (sent (execute_steps e p s))" by simp
  from r show "fst (execute e p s) = Inr (start_point e p (execute_scale_factor e s))" .
qed

lemma mouse_events_mouseClick:
  "filter is_mouse_event (sent (mouseClick x y b n)) =
     [Input_dispatchMouseEvent mouseMoved x y ''none'' 0,
      Input_dispatchMouseEvent mousePressed x y b n,
      Input_dispatchMouseEvent mouseReleased x y b n]"
  by (simp add: mouseClick_def mouseMove_def sent_Cons sent_Nil is_mouse_event_def)

lemma mouse_events_drag_steps:
  "filter is_mouse_event (sent (concat (map (drag_step sx sy ex ey) is))) =
     map (\<lambda>i. Input_dispatchMouseEvent mouseMoved (sx + ((ex - sx) * of_nat i) / 10)
                  (sy + ((ey - sy) * of_nat i) / 10) ''none'' 0) is"
  by (induction "is")
     (simp_all add: drag_step_def mouseMove_def sent_Cons sent_Nil sent_append is_mouse_event_def)

lemma start_point_parsed:
  assumes "parseBoxToScreenCoords e (or_empty (start_box (inputs p))) (screenWidth p) (screenHeight p) = (x, y)"
  shows "start_point e p sf = (map_option (\<lambda>x. x / sf) x, map_option (\<lambda>y. y / sf) y)"
  using assms by (simp add: start_point_def Let_def)

lemma handleDrag_parsed:
  assumes "start_box inp = Some b1" "b1 \<noteq> []" "end_box inp = Some b2" "b2 \<noteq> []"
      and "parseBoxToScreenCoords e b1 w h = (Some x1, Some y1)"
      and "parseBoxToScreenCoords e b2 w h = (Some x2, Some y2)"
  shows "filter is_mouse_event (sent (handleDrag e inp sf w h)) =
     [Input_dispatchMouseEvent mouseMoved (x1 / sf) (y1 / sf) ''none'' 0,
      Input_dispatchMouseEvent mousePressed (x1 / sf) (y1 / sf) ''left'' 1] @
     map (\<lambda>i. Input_dispatchMouseEvent mouseMoved
                 (x1 / sf + ((x2 / sf - x1 / sf) * of_nat i) / 10)
                 (y1 / sf + ((y2 / sf - y1 / sf) * of_nat i) / 10) ''none'' 0) [1 ..< 11] @
     [Input_dispatchMouseEvent mouseReleased (x2 / sf) (y2 / sf) ''left'' 1]"
  using assms
  by (simp add: handleDrag_def Let_def or_empty_def mouseMove_def sent_Cons sent_Nil sent_append
        mouse_events_drag_steps is_mouse_event_def del: upt.simps)


lemma screenshot_scale_factor:
  assumes "fst (screenshot e s) = Inr out"
  shows "scaleFactor out = execute_scale_factor e s"
proof -
  obtain r1 s1 where ea: "ensureAttached e s = (r1, s1)" by (cases "ensureAttached e s")
  obtain sf s2 where gs: "getScaleFactor e s1 = (sf, s2)" by (cases "getScaleFactor e s1")
  from assms ea gs show ?thesis
    by (auto simp: screenshot_def execute_scale_factor_def split: sum.splits prod.splits)
qed

lemma unscaled_facts:
  "fst (ensureAttached example_env unscaled_operator) = Inr ()"
  "execute_scale_factor example_env unscaled_operator = 2"
  by (simp_all add: execute_scale_factor_def ensureAttached_def wc_alive_def unscaled_operator_def
        connected_operator_def example_env_def getScaleFactor_def query_scale_factor_def cdp_def
        emit_def Let_def)

text \<open>
  Claim C5, as the code has it. Let the operator be attached, let no command be rejected,
  let \<open>sf\<close> be the scale factor \<^verbatim>\<open>execute\<close> works with (never zero, and the one
  \<^verbatim>\<open>screenshot\<close> reports from the same state), and let the start box parse to the point
  \<open>(x, y)\<close>. Then \<^verbatim>\<open>execute\<close> returns the point \<open>(x / sf, y / sf)\<close>; a click, double click
  or right click moves, presses and releases the pointer at exactly that point; and a drag
  whose end box parses to \<open>(x2, y2)\<close> moves to and presses at \<open>(x / sf, y / sf)\<close>, moves
  through the ten interpolated points and releases at \<open>(x2 / sf, y2 / sf)\<close>.
\<close>

theorem pointer_events_at_scaled_point:
  assumes att: "fst (ensureAttached e s) = Inr ()"
      and rel: "\<forall>k. sendCommand_error e k = None"
      and sf: "sf = execute_scale_factor e s"
      and start: "parseBoxToScreenCoords e (or_empty (start_box (inputs p)))
                    (screenWidth p) (screenHeight p) = (Some x, Some y)"
  shows "sf \<noteq> 0
       \<and> fst (execute e p s) = Inr (Some (x / sf), Some (y / sf))
       \<and> (\<forall>out. fst (screenshot e s) = Inr out \<longrightarrow> scaleFactor out = sf)
       \<and> (action_type p \<in> set [''click'', ''left_click'', ''left_single''] \<longrightarrow>
            mouse_events e p s =
              [Input_dispatchMouseEvent mouseMoved (x / sf) (y / sf) ''none'' 0,
               Input_dispatchMouseEvent mousePressed (x / sf) (y / sf) ''left'' 1,
               Input_dispatchMouseEvent mouseReleased (x / sf) (y / sf) ''left'' 1])
       \<and> (action_type p \<in> set [''double_click'', ''left_double''] \<longrightarrow>
            mouse_events e p s =
              [Input_dispatchMouseEvent mouseMoved (x / sf) (y / sf) ''none'' 0,
               Input_dispatchMouseEvent mousePressed (x / sf) (y / sf) ''left'' 2,
               Input_dispatchMouseEvent mouseReleased (x / sf) (y / sf) ''left'' 2])
       \<and> (action_type p \<in> set [''right_click'', ''right_single''] \<longrightarrow>
            mouse_events e p s =
              [Input_dispatchMouseEvent mouseMoved (x / sf) (y / sf) ''none'' 0,
               Input_dispatchMouseEvent mousePressed (x / sf) (y / sf) ''right'' 1,
               Input_dispatchMouseEvent mouseReleased (x / sf) (y / sf) ''right'' 1])
       \<and> (action_type p = ''drag'' \<and> truthy (start_box (inputs p)) \<and>
           end_box (inputs p) = Some b2 \<and> b2 \<noteq> [] \<and>
           parseBoxToScreenCoords e b2 (screenWidth p) (screenHeight p) = (Some x2, Some y2) \<longrightarrow>
            mouse_events e p s =
              [Input_dispatchMouseEvent mouseMoved (x / sf) (y / sf) ''none'' 0,
               Input_dispatchMouseEvent mousePressed (x / sf) (y / sf) ''left'' 1] @
              map (\<lambda>i. Input_dispatchMouseEvent mouseMoved
                          (x / sf + ((x2 / sf - x / sf) * of_nat i) / 10)
                          (y / sf + ((y2 / sf - y / sf) * of_nat i) / 10) ''none'' 0) [1 ..< 11] @
              [Input_dispatchMouseEvent mouseReleased (x2 / sf) (y2 / sf) ''left'' 1])"
proof -
  note me = mouse_events_full[OF att rel, of p]
  have sp: "start_point e p sf = (Some (x / sf), Some (y / sf))"
    using start_point_parsed[OF start, of sf] by simp
  have a: "sf \<noteq> 0" using execute_scale_factor_nonzero sf by simp
  have b: "fst (execute e p s) = Inr (Some (x / sf), Some (y / sf))"
    using me(2) sp sf by simp
  have c: "\<forall>out. fst (screenshot e s) = Inr out \<longrightarrow> scaleFactor out = sf"
    using screenshot_scale_factor sf by blast
  have steps: "execute_steps e p s = action_steps e p (Some (x / sf)) (Some (y / sf)) sf"
    using sp sf by (simp add: execute_steps_def)
  have d: "action_type p \<in> set [''click'', ''left_click'', ''left_single''] \<longrightarrow>
            mouse_events e p s =
              [Input_dispatchMouseEvent mouseMoved (x / sf) (y / sf) ''none'' 0,
               Input_dispatchMouseEvent mousePressed (x / sf) (y / sf) ''left'' 1,
               Input_dispatchMouseEvent mouseReleased (x / sf) (y / sf) ''left'' 1]"
    using action_steps_click[of p e "Some (x / sf)" "Some (y / sf)" sf]
    by (simp add: me(1) steps mouse_events_mouseClick)
  have e: "action_type p \<in> set [''double_click'', ''left_double''] \<longrightarrow>
            mouse_events e p s =
              [Input_dispatchMouseEvent mouseMoved (x / sf) (y / sf) ''none'' 0,
               Input_dispatchMouseEvent mousePressed (x / sf) (y / sf) ''left'' 2,
               Input_dispatchMouseEvent mouseReleased (x / sf) (y / sf) ''left'' 2]"
    using action_steps_double_click[of p e "Some (x / sf)" "Some (y / sf)" sf]
    by (simp add: me(1) steps mouse_events_mouseClick)
  have f: "action_type p \<in> set [''right_click'', ''right_single''] \<longrightarrow>
            mouse_events e p s =
              [Input_dispatchMouseEvent mouseMoved (x / sf) (y / sf) ''none'' 0,
               Input_dispatchMouseEvent mousePressed (x / sf) (y / sf) ''right'' 1,
               Input_dispatchMouseEvent mouseReleased (x / sf) (y / sf) ''right'' 1]"
    using action_steps_right_click[of p e "Some (x / sf)" "Some (y / sf)" sf]
    by (simp add: me(1) steps mouse_events_mouseClick)
  have g: "action_type p = ''drag'' \<and> truthy (start_box (inputs p)) \<and>
           end_box (inputs p) = Some b2 \<and> b2 \<noteq> [] \<and>
           parseBoxToScreenCoords e b2 (screenWidth p) (screenHeight p) = (Some x2, Some y2) \<longrightarrow>
            mouse_events e p s =
              [Input_dispatchMouseEvent mouseMoved (x / sf) (y / sf) ''none'' 0,
               Input_dispatchMouseEvent mousePressed (x / sf) (y / sf) ''left'' 1] @
              map (\<lambda>i. Input_dispatchMouseEvent mouseMoved
                          (x / sf + ((x2 / sf - x / sf) * of_nat i) / 10)
                          (y / sf + ((y2 / sf - y / sf) * of_nat i) / 10) ''none'' 0) [1 ..< 11] @
              [Input_dispatchMouseEvent mouseReleased (x2 / sf) (y2 / sf) ''left'' 1]"
  proof (intro impI, elim conjE)
    assume d: "action_type p = ''drag''" and t: "truthy (start_box (inputs p))"
       and e2: "end_box (inputs p) = Some b2" "b2 \<noteq> []"
       and p2: "parseBoxToScreenCoords e b2 (screenWidth p) (screenHeight p) = (Some x2, Some y2)"
    from t obtain b1 where b1: "start_box (inputs p) = Some b1" "b1 \<noteq> []"
      by (auto simp: truthy_def split: option.splits)
    with start have p1: "parseBoxToScreenCoords e b1 (screenWidth p) (screenHeight p) = (Some x, Some y)"
      by (simp add: or_empty_def)
    show "mouse_events e p s =
              [Input_dispatchMouseEvent mouseMoved (x / sf) (y / sf) ''none'' 0,
               Input_dispatchMouseEvent mousePressed (x / sf) (y / sf) ''left'' 1] @
              map (\<lambda>i. Input_dispatchMouseEvent mouseMoved
                          (x / sf + ((x2 / sf - x / sf) * of_nat i) / 10)
                          (y / sf + ((y2 / sf - y / sf) * of_nat i) / 10) ''none'' 0) [1 ..< 11] @
              [Input_dispatchMouseEvent mouseReleased (x2 / sf) (y2 / sf) ''left'' 1]"
      unfolding me(1) steps action_steps_others(6)[OF d]
      using handleDrag_parsed[OF b1 e2 p1 p2] .
  qed
  from a b c d e f g show ?thesis by (intro conjI)
qed

theorem pointer_events_at_scaled_point_witness:
  "fst (ensureAttached example_env unscaled_operator) = Inr ()
   \<and> (\<forall>k. sendCommand_error example_env k = None)
   \<and> execute_scale_factor example_env unscaled_operator = 2
   \<and> parseBoxToScreenCoords example_env ''[100,200,100,200]'' 1280 720 = (Some 100, Some 200)
   \<and> parseBoxToScreenCoords example_env ''[300,400,300,400]'' 1280 720 = (Some 300, Some 400)
   \<and> fst (execute example_env (action ''click'' (no_inputs\<lparr>start_box := Some ''[100,200,100,200]''\<rparr>))
             unscaled_operator) = Inr (Some 50, Some 100)
   \<and> mouse_events example_env (action ''click'' (no_inputs\<lparr>start_box := Some ''[100,200,100,200]''\<rparr>))
        unscaled_operator =
       [Input_dispatchMouseEvent mouseMoved 50 100 ''none'' 0,
        Input_dispatchMouseEvent mousePressed 50 100 ''left'' 1,
        Input_dispatchMouseEvent mouseReleased 50 100 ''left'' 1]
   \<and> mouse_events example_env
        (action ''drag'' (no_inputs\<lparr>start_box := Some ''[100,200,100,200]'',
                                     end_box := Some ''[300,400,300,400]''\<rparr>))
        unscaled_operator =
       [Input_dispatchMouseEvent mouseMoved 50 100 ''none'' 0,
        Input_dispatchMouseEvent mousePressed 50 100 ''left'' 1,
        Input_dispatchMouseEvent mouseMoved 60 110 ''none'' 0,
        Input_dispatchMouseEvent mouseMoved 70 120 ''none'' 0,
        Input_dispatchMouseEvent mouseMoved 80 130 ''none'' 0,
        Input_dispatchMouseEvent mouseMoved 90 140 ''none'' 0,
        Input_dispatchMouseEvent mouseMoved 100 150 ''none'' 0,
        Input_dispatchMouseEvent mouseMoved 110 160 ''none'' 0,
        Input_dispatchMouseEvent mouseMoved 120 170 ''none'' 0,
        Input_dispatchMouseEvent mouseMoved 130 180 ''none'' 0,
        Input_dispatchMouseEvent mouseMoved 140 190 ''none'' 0,
        Input_dispatchMouseEvent mouseMoved 150 200 ''none'' 0,
        Input_dispatchMouseEvent mouseReleased 150 200 ''left'' 1]"
proof -
  let ?click = "action ''click'' (no_inputs\<lparr>start_box := Some ''[100,200,100,200]''\<rparr>)"
  let ?drag = "action ''drag'' (no_inputs\<lparr>start_box := Some ''[100,200,100,200]'',
                                           end_box := Some ''[300,400,300,400]''\<rparr>)"
  have rel: "\<forall>k. sendCommand_error example_env k = None" by (simp add: example_env_def)
  have sf: "2 = execute_scale_factor example_env unscaled_operator" using unscaled_facts(2) by simp
  have p1: "parseBoxToScreenCoords example_env ''[100,200,100,200]'' 1280 720 = (Some 100, Some 200)"
    and p2: "parseBoxToScreenCoords example_env ''[300,400,300,400]'' 1280 720 = (Some 300, Some 400)"
    by (simp_all add: example_env_def)
  have s1: "parseBoxToScreenCoords example_env (or_empty (start_box (inputs ?click)))
              (screenWidth ?click) (screenHeight ?click) = (Some 100, Some 200)"
    and s2: "parseBoxToScreenCoords example_env (or_empty (start_box (inputs ?drag)))
              (screenWidth ?drag) (screenHeight ?drag) = (Some 100, Some 200)"
    by (simp_all add: example_env_def action_def no_inputs_def or_empty_def)
  have ups: "[1 ..< 11] = [1, 2, 3, 4, 5, 6, 7, 8, 9, 10 :: nat]" by code_simp
  from pointer_events_at_scaled_point[OF unscaled_facts(1) rel sf s1, of "[]" 0 0]
  have c: "fst (execute example_env ?click unscaled_operator) = Inr (Some 50, Some 100)"
    "mouse_events example_env ?click unscaled_operator =
       [Input_dispatchMouseEvent mouseMoved 50 100 ''none'' 0,
        Input_dispatchMouseEvent mousePressed 50 100 ''left'' 1,
        Input_dispatchMouseEvent mouseReleased 50 100 ''left'' 1]"
    by (simp_all add: action_def)
  from pointer_events_at_scaled_point[OF unscaled_facts(1) rel sf s2, of "''[300,400,300,400]''" 300 400]
  have d: "mouse_events example_env ?drag unscaled_operator =
       [Input_dispatchMouseEvent mouseMoved 50 100 ''none'' 0,
        Input_dispatchMouseEvent mousePressed 50 100 ''left'' 1,
        Input_dispatchMouseEvent mouseMoved 60 110 ''none'' 0,
        Input_dispatchMouseEvent mouseMoved 70 120 ''none'' 0,
        Input_dispatchMouseEvent mouseMoved 80 130 ''none'' 0,
        Input_dispatchMouseEvent mouseMoved 90 140 ''none'' 0,
        Input_dispatchMouseEvent mouseMoved 100 150 ''none'' 0,
        Input_dispatchMouseEvent mouseMoved 110 160 ''none'' 0,
        Input_dispatchMouseEvent mouseMoved 120 170 ''none'' 0,
        Input_dispatchMouseEvent mouseMoved 130 180 ''none'' 0,
        Input_dispatchMouseEvent mouseMoved 140 190 ''none'' 0,
        Input_dispatchMouseEvent mouseMoved 150 200 ''none'' 0,
        Input_dispatchMouseEvent mouseReleased 150 200 ''left'' 1]"
    unfolding ups
    by (simp add: action_def no_inputs_def truthy_def example_env_def)
  from unscaled_facts rel p1 p2 c d show ?thesis by simp
qed

text \<open>
  Claim C5 as stated covers every action that carries a start box. A scroll action carries
  one, and its wheel event is dispatched at the centre of the viewport the layout metrics
  report, not at the start point: with the start box at \<open>(100, 200)\<close>, scale factor 1 and
  a viewport of 1280 by 720, the wheel event goes to \<open>(640, 360)\<close>.
\<close>

theorem scroll_wheel_at_viewport_centre:
  "execute example_env
     (action ''scroll'' (no_inputs\<lparr>start_box := Some ''[100,200,100,200]'', direction := Some ''down''\<rparr>))
     connected_operator
   = (Inr (Some 100, Some 200),
      connected_operator\<lparr>commands := 3, trace :=
        [Log Info ''[EmbeddedBrowserOperator] Execute: scroll'',
         SendCommand Page_getLayoutMetrics,
         SendCommand (Input_dispatchMouseEvent_wheel 640 360 0 500),
         Delay 500,
         Log Info ''[EmbeddedBrowserOperator] Action scroll completed'']\<rparr>)"
  by (simp add: execute_def ensureAttached_def wc_alive_def connected_operator_def example_env_def
        getScaleFactor_def start_point_def action_def no_inputs_def or_empty_def action_steps_def
        handleScroll_def wheel_def or_default_def toLowerCase_def toLowerCase_char_def
        perform_def cdp_def emit_def log_execute_def log_completed_def Let_def)

section \<open>The attachment check, called twice\<close>

lemma ensureAttached_fast:
  "wc_alive e s \<Longrightarrow> debuggerAttached s \<Longrightarrow> ensureAttached e s = (Inr (), s)"
  by (simp add: ensureAttached_def)

lemma find_Some_P: "find P xs = Some x \<Longrightarrow> P x"
  by (induction xs) (auto split: if_splits)

lemma rebind_alive:
  assumes "rebind e s = (Inr u, s1)"
  shows "wc_alive e s1"
  using assms
  by (auto simp: rebind_def wc_alive_def getAllWebContents_def emit_def Let_def
        split: if_splits option.splits prod.splits dest: find_Some_P)

lemma rebind_attach:
  assumes "rebind e s = (r, s1)"
  shows "trace s1 = trace s @ performed s s1 \<and> attach_calls (performed s s1) = [] \<and>
         (r = Inr () \<longrightarrow> (debuggerAttached s1 \<longrightarrow> debuggerAttached s \<and> wc_alive e s))"
  using assms
  by (auto simp: rebind_def getAllWebContents_def emit_def Let_def performed_def attach_calls_def
        is_attach_def reconnect_warning_def
        split: if_splits option.splits prod.splits)

lemma reattach_attach:
  assumes "reattach e s = (r, s1)"
  shows "trace s1 = trace s @ performed s s1 \<and> wc s1 = wc s \<and>
         (attach_calls (performed s s1) = [] \<and> debuggerAttached s \<and> s1 = s \<and> r = Inr ()
          \<or> (\<exists>w. wc s = Some w \<and> attach_calls (performed s s1) = [DebuggerAttach (wc_id w)] \<and>
                  (attach_error e (wc_id w) = None \<longrightarrow> debuggerAttached s1)
                  \<and> (r = Inr () \<longrightarrow> debuggerAttached s1))
          \<or> (wc s = None \<and> attach_calls (performed s s1) = [] \<and> r \<noteq> Inr ()))"
  using assms
  by (auto simp: reattach_def debugger_attach_def detach_stale_def debugger_detach_def cdp_def
        emit_def Let_def performed_def attach_calls_def is_attach_def
        split: if_splits option.splits prod.splits sum.splits)


lemma ensureAttached_attach:
  assumes ea: "ensureAttached e s = (r, s1)"
  shows "trace s1 = trace s @ performed s s1 \<and>
         (attach_calls (performed s s1) = [] \<or>
          (\<exists>w. wc s1 = Some w \<and> \<not> isDestroyed e (wc_id w) \<and>
               attach_calls (performed s s1) = [DebuggerAttach (wc_id w)] \<and>
               (attach_error e (wc_id w) = None \<longrightarrow> debuggerAttached s1)))"
proof (cases "wc_alive e s \<and> debuggerAttached s")
  case True
  with ea have "s1 = s" by (simp add: ensureAttached_def)
  then show ?thesis by (simp add: performed_def attach_calls_def)
next
  case False
  obtain r0 s0 where rb: "rebind e s = (r0, s0)" by (cases "rebind e s")
  note t0 = rebind_attach[OF rb]
  show ?thesis
  proof (cases r0)
    case (Inl err)
    with ea rb False have "s1 = s0" by (simp add: ensureAttached_def)
    with t0 show ?thesis by simp
  next
    case (Inr u)
    with ea rb False have ra: "reattach e s0 = (r, s1)" by (simp add: ensureAttached_def)
    note t1 = reattach_attach[OF ra]
    have alive: "wc_alive e s0" using rebind_alive rb Inr by blast
    have p: "performed s s1 = performed s s0 @ performed s0 s1" "trace s1 = trace s @ performed s s1"
      using performed_trans[of s0 s s1] t0 t1 by simp_all
    have ac: "attach_calls (performed s s1) = attach_calls (performed s0 s1)"
      using t0 by (simp add: p(1) attach_calls_def)
    from alive obtain w where w: "wc s0 = Some w" "\<not> isDestroyed e (wc_id w)"
      by (auto simp: wc_alive_def split: option.splits)
    from t1 w show ?thesis unfolding ac using p(2) by auto
  qed
qed

lemma ensureAttached_Inr_alive:
  assumes ea: "ensureAttached e s = (Inr u, s1)"
  shows "wc_alive e s1 \<and> debuggerAttached s1"
proof (cases "wc_alive e s \<and> debuggerAttached s")
  case True
  with ea show ?thesis by (simp add: ensureAttached_def)
next
  case False
  obtain r0 s0 where rb: "rebind e s = (r0, s0)" by (cases "rebind e s")
  with ea False obtain u0 where r0: "r0 = Inr u0" and ra: "reattach e s0 = (Inr u, s1)"
    by (cases r0) (auto simp: ensureAttached_def)
  have "wc_alive e s0" using rebind_alive rb r0 by blast
  moreover have "wc s1 = wc s0" using reattach_attach[OF ra] by simp
  ultimately have "wc_alive e s1" by (simp add: wc_alive_def)
  moreover have "debuggerAttached s1"
    using ensureAttached_connected[OF ea] by (simp add: connected_def)
  ultimately show ?thesis by simp
qed

text \<open>
  Claim C6, as the code has it. Let \<^verbatim>\<open>ensureAttached\<close> be called twice in a row, the second
  call starting in the state the first one left (no detach and no destruction in
  between). When the surface is alive and the debugger flag is set, the call is the fast
  path: it returns at once and changes nothing. When the first call returns, the second
  is that fast path and performs nothing. The two calls together issue at most one
  debugger-attach call, unless the attach of the first call itself threw.
\<close>

theorem ensureAttached_twice:
  assumes c1: "ensureAttached e s = (r1, s1)" and c2: "ensureAttached e s1 = (r2, s2)"
  shows "(wc_alive e s \<and> debuggerAttached s \<longrightarrow> r1 = Inr () \<and> s1 = s)
       \<and> (r1 = Inr () \<longrightarrow> r2 = Inr () \<and> s2 = s1 \<and> performed s1 s2 = [])
       \<and> (length (attach_calls (performed s s2)) \<le> 1
          \<or> (\<exists>i m. attach_calls (performed s s1) = [DebuggerAttach i] \<and>
                    attach_error e i = Some m))"
proof -
  have a: "wc_alive e s \<and> debuggerAttached s \<longrightarrow> r1 = Inr () \<and> s1 = s"
    using c1 ensureAttached_fast[of e s] by auto
  have b: "r1 = Inr () \<longrightarrow> r2 = Inr () \<and> s2 = s1 \<and> performed s1 s2 = []"
  proof
    assume "r1 = Inr ()"
    with c1 have "wc_alive e s1 \<and> debuggerAttached s1" using ensureAttached_Inr_alive by blast
    with c2 ensureAttached_fast[of e s1] show "r2 = Inr () \<and> s2 = s1 \<and> performed s1 s2 = []"
      by (simp add: performed_def)
  qed
  note t1 = ensureAttached_attach[OF c1] and t2 = ensureAttached_attach[OF c2]
  have p: "performed s s2 = performed s s1 @ performed s1 s2"
    using performed_trans(1)[of s1 s s2] t1 t2 by simp
  have l2: "length (attach_calls (performed s1 s2)) \<le> 1" using t2 by auto
  from t1 consider (none) "attach_calls (performed s s1) = []"
    | (one) w where "wc s1 = Some w" "\<not> isDestroyed e (wc_id w)"
        "attach_calls (performed s s1) = [DebuggerAttach (wc_id w)]"
        "attach_error e (wc_id w) = None \<longrightarrow> debuggerAttached s1"
    by (elim conjE disjE exE) auto
  then have c: "length (attach_calls (performed s s2)) \<le> 1
          \<or> (\<exists>i m. attach_calls (performed s s1) = [DebuggerAttach i] \<and> attach_error e i = Some m)"
  proof cases
    case none
    with l2 show ?thesis by (simp add: p attach_calls_def)
  next
    case one
    show ?thesis
    proof (cases "attach_error e (wc_id w)")
      case None
      with one have "wc_alive e s1 \<and> debuggerAttached s1" by (simp add: wc_alive_def)
      with c2 ensureAttached_fast[of e s1] have "s2 = s1" by simp
      then have "performed s1 s2 = []" by (simp add: performed_def)
      with one(3) show ?thesis by (simp add: p attach_calls_def)
    next
      case (Some m)
      with one(3) show ?thesis by blast
    qed
  qed
  from a b c show ?thesis by blast
qed

theorem ensureAttached_twice_witness:
  "ensureAttached example_env detached_operator
     = (Inr (), connected_operator\<lparr>commands := 2, trace :=
          [DebuggerIsAttached 2, DebuggerAttach 2,
           Log Info ''[EmbeddedBrowserOperator] Re-attached debugger'',
           SendCommand set_viewport]\<rparr>)
   \<and> fst (ensureAttached example_env (snd (ensureAttached example_env detached_operator))) = Inr ()
   \<and> snd (ensureAttached example_env (snd (ensureAttached example_env detached_operator)))
       = snd (ensureAttached example_env detached_operator)
   \<and> attach_calls (performed detached_operator
        (snd (ensureAttached example_env (snd (ensureAttached example_env detached_operator)))))
       = [DebuggerAttach 2]
   \<and> wc_alive example_env connected_operator \<and> debuggerAttached connected_operator
   \<and> ensureAttached example_env connected_operator = (Inr (), connected_operator)"
proof -
  have f: "ensureAttached example_env detached_operator
     = (Inr (), connected_operator\<lparr>commands := 2, trace :=
          [DebuggerIsAttached 2, DebuggerAttach 2,
           Log Info ''[EmbeddedBrowserOperator] Re-attached debugger'',
           SendCommand set_viewport]\<rparr>)"
    by (simp add: ensureAttached_def rebind_def reattach_def wc_alive_def detached_operator_def
        connected_operator_def example_env_def detach_stale_def
        debugger_attach_def cdp_def emit_def Let_def)
  obtain r1 s1 where c1: "ensureAttached example_env detached_operator = (r1, s1)"
    by (cases "ensureAttached example_env detached_operator")
  obtain r2 s2 where c2: "ensureAttached example_env s1 = (r2, s2)"
    by (cases "ensureAttached example_env s1")
  from c1 f have r1: "r1 = Inr ()" by simp
  from ensureAttached_twice[OF c1 c2] r1 have "r2 = Inr () \<and> s2 = s1" by blast
  with c1 c2 have g: "fst (ensureAttached example_env (snd (ensureAttached example_env detached_operator))) = Inr ()"
    "snd (ensureAttached example_env (snd (ensureAttached example_env detached_operator)))
       = snd (ensureAttached example_env detached_operator)"
    by simp_all
  have h: "wc_alive example_env connected_operator \<and> debuggerAttached connected_operator"
    by (simp add: wc_alive_def connected_operator_def example_env_def)
  have k: "ensureAttached example_env connected_operator = (Inr (), connected_operator)"
    using h by (simp add: ensureAttached_def)
  have a: "attach_calls (performed detached_operator
        (snd (ensureAttached example_env (snd (ensureAttached example_env detached_operator)))))
       = [DebuggerAttach 2]"
    unfolding g(2) unfolding f
    by (simp add: performed_def attach_calls_def is_attach_def detached_operator_def
          connected_operator_def set_viewport_def)
  from f g h k a show ?thesis by simp
qed

text \<open>
  Claim C6 as stated bounds the attach calls of two calls in a row by one, whatever
  happens. When the attach of the first call throws, the debugger flag stays unset and
  the second call attaches again: two attach calls, with no detach and no destruction in
  between.
\<close>

theorem ensureAttached_retries_failed_attach:
  "ensureAttached failing_attach_env detached_operator
     = (Inl (Error ''[EmbeddedBrowserOperator] Cannot re-attach debugger''),
        detached_operator\<lparr>trace := [DebuggerIsAttached 2, DebuggerAttach 2]\<rparr>)
   \<and> ensureAttached failing_attach_env
        (detached_operator\<lparr>trace := [DebuggerIsAttached 2, DebuggerAttach 2]\<rparr>)
     = (Inl (Error ''[EmbeddedBrowserOperator] Cannot re-attach debugger''),
        detached_operator\<lparr>trace := [DebuggerIsAttached 2, DebuggerAttach 2,
                                       DebuggerIsAttached 2, DebuggerAttach 2]\<rparr>)
   \<and> attach_calls [DebuggerIsAttached 2, DebuggerAttach 2, DebuggerIsAttached 2, DebuggerAttach 2]
     = [DebuggerAttach 2, DebuggerAttach 2]"
  by (simp add: ensureAttached_def rebind_def reattach_def wc_alive_def detached_operator_def
        connected_operator_def failing_attach_env_def example_env_def detach_stale_def
        debugger_attach_def emit_def attach_calls_def is_attach_def Let_def)

section \<open>A failed connection at the start of a run\<close>




lemma find_webview_found:
  assumes "a + j \<le> maxRetries"
      and "\<forall>k < j. find is_webview (allWebContents e (queries s + k)) = None"
      and "find is_webview (allWebContents e (queries s + j)) = Some w"
  shows "find_webview e a s =
           (Some w, s\<lparr>queries := queries s + j + 1,
                       trace := trace s @ concat (map search_round [a ..< a + j]) @
                                [GetAllWebContents, Log Info ''[EmbeddedBrowserOperator] Attempt'']\<rparr>)"
  using assms
proof (induction j arbitrary: a s)
  case 0
  then show ?case
    by (subst find_webview.simps) (simp add: getAllWebContents_def emit_def)
next
  case (Suc j)
  from Suc.prems(1) have le: "a \<le> maxRetries" and lt: "a < maxRetries"
    and n: "a + 1 + j \<le> maxRetries" by simp_all
  from Suc.prems(2) have none: "find is_webview (allWebContents e (queries s)) = None"
    by (metis add.right_neutral zero_less_Suc)
  have upt: "[a ..< a + Suc j] = a # [a + 1 ..< a + 1 + j]"
    by (simp add: upt_conv_Cons)
  define s2 where "s2 = emit (Delay 500)
             (emit (Log Info ''[EmbeddedBrowserOperator] Webview not found yet, retrying...'')
               (emit (Log Info ''[EmbeddedBrowserOperator] Attempt'')
                  ((emit GetAllWebContents s)\<lparr>queries := queries s + 1\<rparr>)))"
  have q: "queries s2 = queries s + 1" by (simp add: s2_def emit_def)
  have shift: "\<forall>k < j. find is_webview (allWebContents e (queries s2 + k)) = None"
  proof (intro allI impI)
    fix k assume "k < j"
    then have "Suc k < Suc j" by simp
    with Suc.prems(2) have "find is_webview (allWebContents e (queries s + Suc k)) = None" by blast
    then show "find is_webview (allWebContents e (queries s2 + k)) = None" by (simp add: q)
  qed
  have found: "find is_webview (allWebContents e (queries s2 + j)) = Some w"
    using Suc.prems(3) by (simp add: q)
  have step: "find_webview e a s = find_webview e (a + 1) s2"
    using le lt none by (subst find_webview.simps) (simp add: s2_def getAllWebContents_def)
  have eq: "\<And>X. s2\<lparr>queries := queries s2 + j + 1, trace := trace s2 @ X\<rparr> =
                  s\<lparr>queries := queries s + Suc j + 1, trace := trace s @ search_round a @ X\<rparr>"
    using lt by (simp add: s2_def emit_def search_round_def)
  show ?case
    unfolding step Suc.IH[OF n shift found] upt eq by simp
qed




section \<open>The attachments after a run\<close>

lemma before_after_no_run:
  "AgentRun args \<notin> set (beforeAgentRun operator)" "AgentRun args \<notin> set (afterAgentRun operator)"
  by (simp_all add: beforeAgentRun_def afterAgentRun_def split: Operator.splits)

lemma run_with_operator_app:
  assumes "run_with_operator re st = (r, st')"
      and "AgentRun args \<in> set (drop (length (effects st)) (effects st'))"
  shows "(case agent_run re args (app st) of
            (None, a) \<Rightarrow> r = Inr () \<and> app st' = a\<lparr>attachments := Some []\<rparr>
          | (Some Nullish, a) \<Rightarrow> r = Inl type_error \<and> app st' = a
          | (Some (Reason m), a) \<Rightarrow>
              r = Inr ()
              \<and> app st' = a\<lparr>status := ERROR, errorMsg := m, attachments := Some []\<rparr>)"
  using assms
  by (auto simp: run_with_operator_def finish_run_def run_emit_def Let_def before_after_no_run
           split: prod.splits option.splits rejection.splits)

lemma select_operator_props:
  assumes "select_operator re st = (sr, st1)"
  shows "\<exists>xs. effects st1 = effects st @ xs \<and> (\<forall>a. AgentRun a \<notin> set xs) \<and>
              (\<forall>t. sr = Inr (Some t) \<longrightarrow> app st1 = app st)"
  using assms
  by (auto simp: select_operator_def run_emit_def
           split: Operator.splits prod.splits sum.splits option.splits)

lemma run_with_operator_effects:
  "\<exists>xs. effects (snd (run_with_operator re st)) = effects st @ xs"
  by (simp add: run_with_operator_def finish_run_def run_emit_def Let_def
           split: prod.splits option.splits rejection.splits)

text \<open>
  Whenever a call of \<^verbatim>\<open>runAgent\<close> starts the agent run: when the run resolves, \<^verbatim>\<open>runAgent\<close>
  returns and the final state is the one the agent left, with the attachments cleared; when
  it rejects with a value whose \<^verbatim>\<open>message\<close> can be read, \<^verbatim>\<open>runAgent\<close> returns and the final
  state has in addition the status \<^verbatim>\<open>ERROR\<close> and that message; and when it rejects with
  \<^verbatim>\<open>null\<close> or \<^verbatim>\<open>undefined\<close>, \<^verbatim>\<open>runAgent\<close> throws and the state is the one the agent left, its
  attachments included.
\<close>

lemma runAgent_after_agent_run:
  assumes run: "runAgent re st = (r, st')"
      and reached: "AgentRun args \<in> set (run_performed st st')"
  shows "(case agent_run re args (app st) of
            (None, a) \<Rightarrow> r = Inr () \<and> app st' = a\<lparr>attachments := Some []\<rparr>
          | (Some Nullish, a) \<Rightarrow> r = Inl type_error \<and> app st' = a
          | (Some (Reason m), a) \<Rightarrow>
              r = Inr ()
              \<and> app st' = a\<lparr>status := ERROR, errorMsg := m, attachments := Some []\<rparr>)"
proof -
  define st0 where "st0 = run_emit (Logger Info ''runAgent'') st"
  define st0' where "st0' = run_emit (Logger Info ''settings.operator'') st0"
  have e0: "effects st0' = effects st @ [Logger Info ''runAgent'', Logger Info ''settings.operator'']"
    and a0: "app st0' = app st" "app st0 = app st"
    by (simp_all add: st0_def st0'_def run_emit_def)
  have tr: "truthy (instructions (app st))"
  proof (rule ccontr)
    assume "\<not> truthy (instructions (app st))"
    with run have "st' = st0" by (simp add: runAgent_def Let_def st0_def run_emit_def)
    with reached show False by (simp add: st0_def run_emit_def run_performed_def)
  qed
  obtain sr st1 where sel: "select_operator re st0' = (sr, st1)"
    by (cases "select_operator re st0'")
  from select_operator_props[OF sel] obtain xs where
    e1: "effects st1 = effects st0' @ xs" and nx: "\<forall>a. AgentRun a \<notin> set xs"
    and a1: "\<forall>t. sr = Inr (Some t) \<longrightarrow> app st1 = app st0'" by blast
  have run': "runAgent re st =
     (case sr of Inl err \<Rightarrow> (Inl err, st1)
      | Inr None \<Rightarrow> (Inr (), st1)
      | Inr (Some t) \<Rightarrow>
          if is_remote (settings_operator re)
          then (case proxy_error re of
                  Some m \<Rightarrow> (Inl (Error m), run_emit QueryProxy st1)
                | None \<Rightarrow> run_with_operator re (run_emit QueryProxy st1))
          else run_with_operator re st1)"
    using tr sel
    by (simp add: runAgent_def Let_def st0_def[symmetric] st0'_def[symmetric] a0
             split: sum.splits option.splits)
  have p1: "run_performed st st1 = [Logger Info ''runAgent'', Logger Info ''settings.operator''] @ xs"
    by (simp add: run_performed_def e1 e0)
  have no1: "AgentRun args \<notin> set (run_performed st st1)" using nx by (simp add: p1)
  have no2: "AgentRun args \<notin> set (run_performed st (run_emit QueryProxy st1))"
    using nx by (simp add: run_performed_def run_emit_def e1 e0)
  from run run' reached no1 no2 obtain t st2 where
    sr: "sr = Inr (Some t)" and st2: "st2 = st1 \<or> st2 = run_emit QueryProxy st1"
    and rw: "run_with_operator re st2 = (r, st')"
    by (auto split: sum.splits option.splits if_splits)
  have a2: "app st2 = app st" using st2 a1 sr a0 by (auto simp: run_emit_def)
  from st2 obtain ys where e2: "effects st2 = effects st @ ys" and ny: "AgentRun args \<notin> set ys"
    using e1 e0 nx by (auto simp: run_emit_def)
  from run_with_operator_effects[of re st2] rw obtain zs where
    e3: "effects st' = effects st2 @ zs" by auto
  from reached have "AgentRun args \<in> set (ys @ zs)"
    by (simp add: run_performed_def e3 e2)
  with ny have "AgentRun args \<in> set zs" by simp
  then have "AgentRun args \<in> set (drop (length (effects st2)) (effects st'))"
    by (simp add: e3)
  from run_with_operator_app[OF rw this] a2
  show ?thesis by simp
qed

text \<open>A run whose agent resolves and a run whose agent rejects with a message, on a state
  with one attachment.\<close>

lemma attachments_cleared_examples:
  "app (snd (runAgent resolving_run_env example_run_state))
       = example_app\<lparr>status := END, attachments := Some []\<rparr>"
  "fst (runAgent resolving_run_env example_run_state) = Inr ()"
  "app (snd (runAgent rejecting_run_env example_run_state))
       = example_app\<lparr>status := ERROR, errorMsg := Some ''model unavailable'',
                       attachments := Some []\<rparr>"
  "fst (runAgent rejecting_run_env example_run_state) = Inr ()"
  by (simp_all add: runAgent_def run_with_operator_def finish_run_def select_operator_def
        run_emit_def resolving_run_env_def rejecting_run_env_def example_run_state_def
        example_app_def truthy_def or_empty_def is_remote_def augmentedInstructions_def
        MAX_FILE_CONTEXT_CHARS_def beforeAgentRun_def afterAgentRun_def Let_def)

text \<open>
  Claim C10. Once the agent run is started, the attachments should be empty when \<^verbatim>\<open>runAgent\<close>
  is over, whether the run resolves or rejects. On the local computer, with the instructions
  \<^verbatim>\<open>open the page\<close> and one text attachment, let the agent run reject with \<^verbatim>\<open>undefined\<close>. The
  \<^verbatim>\<open>catch\<close> handler logs the rejection and then reads \<^verbatim>\<open>e.message\<close>, which throws: \<^verbatim>\<open>runAgent\<close>
  throws, the application state is as it was, with its attachment, and the windows shown and
  hidden before the run are not put back.
\<close>

theorem nullish_rejection_keeps_attachments:
  "runAgent nullish_rejecting_run_env example_run_state =
     (Inl type_error,
      \<lparr>app = example_app,
       effects =
         [Logger Info ''runAgent'', Logger Info ''settings.operator'',
          NewGUIAgent, SetAgent, SendInstruction ''open the page'',
          Logger Info ''[runAgent] attachments count'',
          Logger Info ''[runAgent] augmentedInstructions length'',
          Logger Info ''[runAgent] image attachments'', ShowWidgetWindow,
          ShowScreenWaterFlow, HideMainWindow,
          AgentRun \<lparr>run_instructions =
                      ''open the page'' @ [newline, newline] @ ''## Attached Files'' @ [newline]
                        @ ''a,b'',
                    run_history = [], run_images = None\<rparr>,
          Logger Err ''[runAgentLoop error]''],
       browser = new_operator\<rparr>)
   \<and> attachments example_app
       = Some [\<lparr>file_type = TextFile, fileName = ''notes.csv'', file_content = ''a,b'',
                mimeType = ''text/csv''\<rparr>]"
  by (simp add: runAgent_def run_with_operator_def select_operator_def
        run_emit_def nullish_rejecting_run_env_def example_run_state_def
        example_app_def truthy_def or_empty_def is_remote_def augmentedInstructions_def
        MAX_FILE_CONTEXT_CHARS_def beforeAgentRun_def afterAgentRun_def Let_def)

section \<open>Properties of the local-desktop operator\<close>

lemma record_event_fields [simp]:
  "events (record_event x s) = events s @ [x]"
  "clipboard (record_event x s) = clipboard s"
  by (simp_all add: record_event_def)

lemma host_perform_events:
  "events (snd (host_perform e x s)) = events s @ [x]"
  by (simp add: host_perform_def split: option.splits desktop_effect.splits)

lemma host_run_events:
  "\<exists>k. events (snd (host_run e xs s)) = events s @ take k xs"
proof (induction xs arbitrary: s)
  case Nil
  show ?case by simp
next
  case (Cons x xs)
  obtain r s1 where p: "host_perform e x s = (r, s1)" by (cases "host_perform e x s")
  from host_perform_events[of e x s] p have ev: "events s1 = events s @ [x]" by simp
  show ?case
  proof (cases r)
    case (Inl err)
    with p ev have "events (snd (host_run e (x # xs) s)) = events s @ take 1 (x # xs)" by simp
    then show ?thesis by blast
  next
    case (Inr u)
    from Cons.IH[of s1] obtain k where "events (snd (host_run e xs s1)) = events s1 @ take k xs"
      by blast
    with p ev Inr have "events (snd (host_run e (x # xs) s)) = events s @ take (Suc k) (x # xs)"
      by simp
    then show ?thesis by blast
  qed
qed

lemma filter_take_none:
  assumes "filter P xs = []"
  shows "filter P (take k xs) = []"
  using assms by (metis filter_empty_conv in_set_takeD)

lemma host_run_filter_none:
  assumes "filter P xs = []"
  shows "\<exists>ys. events (snd (host_run e xs s)) = events s @ ys \<and> filter P ys = []"
proof -
  from host_run_events[of e xs s] obtain k where
    "events (snd (host_run e xs s)) = events s @ take k xs" by blast
  with filter_take_none[OF assms, of k] show ?thesis by blast
qed

lemma host_run_append:
  "host_run e (xs @ ys) s =
     (case host_run e xs s of
        (Inl err, s1) \<Rightarrow> (Inl err, s1)
      | (Inr u, s1) \<Rightarrow> host_run e ys s1)"
  by (induction xs arbitrary: s) (auto split: prod.splits sum.splits)

lemma capture_steps_no_overlay:
  "filter is_overlay_event (capture_steps e) = []"
  by (simp add: capture_steps_def is_overlay_event_def split: option.splits)

lemma paste_steps_no_overlay:
  "filter is_overlay_event (paste_steps c t) = []"
  "filter is_overlay_event (enter_steps c) = []"
  by (simp_all add: paste_steps_def enter_steps_def is_overlay_event_def)

lemma type_by_paste_no_overlay:
  assumes "\<And>c. filter is_overlay_event (f c) = []"
  shows "\<exists>ys. events (snd (type_by_paste e f p s)) = events s @ ys
              \<and> filter is_overlay_event ys = []"
proof -
  define c where "c = trim (or_empty (content (inputs p)))"
  define s1 where "s1 = record_event (LoggerCall Info ''[device] type'') s"
  obtain r s2 where rd: "host_perform e ClipboardReadText s1 = (r, s2)"
    by (cases "host_perform e ClipboardReadText s1")
  from host_perform_events[of e ClipboardReadText s1] rd
  have ev2: "events s2 = events s @ [LoggerCall Info ''[device] type'', ClipboardReadText]"
    by (simp add: s1_def)
  show ?thesis
  proof (cases r)
    case (Inl err)
    with rd have "type_by_paste e f p s = (Inl err, s2)"
      by (simp add: type_by_paste_def Let_def s1_def[symmetric])
    with ev2 show ?thesis by (simp add: is_overlay_event_def)
  next
    case (Inr u)
    have "filter is_overlay_event (paste_steps c (clipboard s2) @ f c) = []"
      using assms by (simp add: paste_steps_no_overlay)
    from host_run_filter_none[OF this, of e s2] obtain ys where
      ys: "events (snd (host_run e (paste_steps c (clipboard s2) @ f c) s2)) = events s2 @ ys"
      "filter is_overlay_event ys = []" by blast
    from rd Inr have
      "events (snd (type_by_paste e f p s)) =
         events (snd (host_run e (paste_steps c (clipboard s2) @ f c) s2))"
      by (simp add: type_by_paste_def Let_def s1_def[symmetric] c_def[symmetric]
               split: prod.splits sum.splits)
    with ys ev2 show ?thesis by (simp add: is_overlay_event_def)
  qed
qed

lemma call_super_execute_events:
  "events (snd (call_super_execute e p s)) = events s @ [SuperExecute p]"
  using host_perform_events[of e "SuperExecute p" s]
  by (auto simp: call_super_execute_def split: prod.splits sum.splits)

lemma action_body_no_overlay:
  assumes "\<And>c. filter is_overlay_event (f c) = []"
  shows "\<exists>ys. events (snd (if pastes e p then type_by_paste e f p s
                            else call_super_execute e p s)) = events s @ ys
              \<and> filter is_overlay_event ys = []"
proof (cases "pastes e p")
  case True
  with type_by_paste_no_overlay[of f e p s, OF assms] show ?thesis by simp
next
  case False
  with call_super_execute_events[of e p s] show ?thesis by (simp add: is_overlay_event_def)
qed

lemma screenshot_overlays:
  "overlay_events s (snd (screenshot_NutJS e s)) =
     [HideOverlaysForExecution, RestoreOverlaysAfterExecution]"
proof -
  define s3 where "s3 = record_event (Sleep (if isWindows e then 200 else 50))
                          (record_event HideOverlaysForExecution
                            (record_event (LoggerCall Info ''[screenshot] [primaryDisplay]'') s))"
  from host_run_filter_none[OF capture_steps_no_overlay, of e e s3] obtain ys where
    ys: "events (snd (host_run e (capture_steps e) s3)) = events s3 @ ys"
    "filter is_overlay_event ys = []" by blast
  have "events (snd (screenshot_NutJS e s)) =
          events (snd (host_run e (capture_steps e) s3)) @ [RestoreOverlaysAfterExecution]"
    by (simp add: screenshot_NutJS_def Let_def s3_def[symmetric] split: prod.splits sum.splits)
  with ys show ?thesis
    by (simp add: overlay_events_def desktop_performed_def s3_def is_overlay_event_def)
qed

lemma execute_overlays:
  "overlay_events s (snd (execute_NutJS e p s)) =
     (if needsOverlayHide (action_type p)
      then [HideOverlaysForExecution, RestoreOverlaysAfterExecution] else [])"
proof -
  define s1 where "s1 = (if needsOverlayHide (action_type p)
                then record_event (Sleep (if isWindows e then 200 else 50))
                       (record_event HideOverlaysForExecution s)
                else s)"
  define body where "body = (if pastes e p then type_by_paste e enter_steps p s1
                             else call_super_execute e p s1)"
  from action_body_no_overlay[of enter_steps e p s1, OF paste_steps_no_overlay(2)]
  obtain ys where ys: "events (snd body) = events s1 @ ys" "filter is_overlay_event ys = []"
    unfolding body_def by blast
  have "events (snd (execute_NutJS e p s)) =
          (if needsOverlayHide (action_type p)
           then events (snd body) @ [Sleep 100, RestoreOverlaysAfterExecution]
           else events (snd body))"
    by (simp add: execute_NutJS_def Let_def s1_def[symmetric] body_def[symmetric]
             split: prod.splits)
  with ys show ?thesis
    by (simp add: overlay_events_def desktop_performed_def s1_def is_overlay_event_def)
qed

lemma screenshot_last_event:
  "last (events (snd (screenshot_NutJS e s))) = RestoreOverlaysAfterExecution"
  by (simp add: screenshot_NutJS_def Let_def split: prod.splits sum.splits)

lemma execute_last_event:
  "needsOverlayHide (action_type p) \<Longrightarrow>
   last (events (snd (execute_NutJS e p s))) = RestoreOverlaysAfterExecution"
  by (simp add: execute_NutJS_def Let_def split: prod.splits)

section \<open>The overlays are restored on every exit path\<close>

lemma js_round_numeral:
  "js_round (numeral n) = numeral n"
  by (simp add: js_round_def floor_eq_iff)

lemma screenshot_runs:
  "screenshot_NutJS example_desktop desktop_start =
     (Inr \<lparr>base64 = ''frame'', scaleFactor = 5 / 4\<rparr>,
      \<lparr>clipboard = ''kept'',
       events = [LoggerCall Info ''[screenshot] [primaryDisplay]'', HideOverlaysForExecution,
                 Sleep 200, GetSources 1920 1080, LoggerCall Info ''[screenshot] captured size:'',
                 ToJPEG 75, RestoreOverlaysAfterExecution]\<rparr>)"
  "screenshot_NutJS no_source_desktop desktop_start =
     (Inr \<lparr>base64 = ''fallback'', scaleFactor = 1\<rparr>,
      \<lparr>clipboard = ''kept'',
       events = [LoggerCall Info ''[screenshot] [primaryDisplay]'', HideOverlaysForExecution,
                 Sleep 200, GetSources 1920 1080,
                 LoggerCall Err ''[screenshot] Primary display source not found'',
                 SuperScreenshot, RestoreOverlaysAfterExecution]\<rparr>)"
  "screenshot_NutJS failing_capture_desktop desktop_start =
     (Inl capture_error,
      \<lparr>clipboard = ''kept'',
       events = [LoggerCall Info ''[screenshot] [primaryDisplay]'', HideOverlaysForExecution,
                 Sleep 200, GetSources 1920 1080, RestoreOverlaysAfterExecution]\<rparr>)"
  by (simp_all add: screenshot_NutJS_def capture_steps_def capture_result_def primarySource_def
        needs_resize_def js_round_numeral host_perform_def can_throw_def record_event_def
        example_desktop_def no_source_desktop_def failing_capture_desktop_def
        example_image_def desktop_start_def Let_def)

lemma execute_runs:
  "execute_NutJS failing_action_desktop (action ''click'' no_inputs) desktop_start =
     (Inl action_error,
      \<lparr>clipboard = ''kept'',
       events = [HideOverlaysForExecution, Sleep 200, SuperExecute (action ''click'' no_inputs),
                 Sleep 100, RestoreOverlaysAfterExecution]\<rparr>)"
  "execute_NutJS example_desktop (action ''wait'' no_inputs) desktop_start =
     (Inr None,
      \<lparr>clipboard = ''kept'', events = [SuperExecute (action ''wait'' no_inputs)]\<rparr>)"
  by (simp_all add: execute_NutJS_def call_super_execute_def pastes_def needsOverlayHide_def
        host_perform_def can_throw_def record_event_def action_def
        example_desktop_def failing_action_desktop_def desktop_start_def Let_def)

text \<open>
  Claim C8. Whatever the host does (every call inside the \<^verbatim>\<open>try\<close> blocks may throw or
  complete), the overlay events of one call of \<^verbatim>\<open>screenshot\<close> are one hide followed by one
  restore, and the restore is the last thing the call does; the same holds for one call of
  \<^verbatim>\<open>execute\<close> when the action type needs the overlays hidden, and for the other action types
  \<^verbatim>\<open>execute\<close> neither hides nor restores them.
\<close>

theorem overlays_restored_exactly_once:
  "overlay_events s (snd (screenshot_NutJS e s)) =
     [HideOverlaysForExecution, RestoreOverlaysAfterExecution]
   \<and> last (events (snd (screenshot_NutJS e s))) = RestoreOverlaysAfterExecution
   \<and> (needsOverlayHide (action_type p) \<longrightarrow>
        overlay_events s (snd (execute_NutJS e p s)) =
          [HideOverlaysForExecution, RestoreOverlaysAfterExecution]
        \<and> last (events (snd (execute_NutJS e p s))) = RestoreOverlaysAfterExecution)
   \<and> (\<not> needsOverlayHide (action_type p) \<longrightarrow>
        overlay_events s (snd (execute_NutJS e p s)) = [])"
  using screenshot_overlays[of s e] screenshot_last_event[of e s]
        execute_overlays[of s e p] execute_last_event[of p e s]
  by simp

theorem overlays_restored_exactly_once_witness:
  "fst (screenshot_NutJS example_desktop desktop_start) =
     Inr \<lparr>base64 = ''frame'', scaleFactor = 5 / 4\<rparr>
   \<and> overlay_events desktop_start (snd (screenshot_NutJS example_desktop desktop_start)) =
       [HideOverlaysForExecution, RestoreOverlaysAfterExecution]
   \<and> fst (screenshot_NutJS no_source_desktop desktop_start) =
       Inr \<lparr>base64 = ''fallback'', scaleFactor = 1\<rparr>
   \<and> overlay_events desktop_start (snd (screenshot_NutJS no_source_desktop desktop_start)) =
       [HideOverlaysForExecution, RestoreOverlaysAfterExecution]
   \<and> fst (screenshot_NutJS failing_capture_desktop desktop_start) = Inl capture_error
   \<and> overlay_events desktop_start (snd (screenshot_NutJS failing_capture_desktop desktop_start)) =
       [HideOverlaysForExecution, RestoreOverlaysAfterExecution]
   \<and> needsOverlayHide (action_type (action ''click'' no_inputs))
   \<and> fst (execute_NutJS failing_action_desktop (action ''click'' no_inputs) desktop_start) =
       Inl action_error
   \<and> overlay_events desktop_start
        (snd (execute_NutJS failing_action_desktop (action ''click'' no_inputs) desktop_start)) =
       [HideOverlaysForExecution, RestoreOverlaysAfterExecution]
   \<and> last (events
        (snd (execute_NutJS failing_action_desktop (action ''click'' no_inputs) desktop_start))) =
       RestoreOverlaysAfterExecution
   \<and> overlay_events desktop_start
        (snd (execute_NutJS example_desktop (action ''wait'' no_inputs) desktop_start)) = []"
proof -
  have n1: "needsOverlayHide (action_type (action ''click'' no_inputs))"
    and n2: "\<not> needsOverlayHide (action_type (action ''wait'' no_inputs))"
    by (simp_all add: needsOverlayHide_def action_def)
  note t1 = overlays_restored_exactly_once
              [of desktop_start example_desktop "action ''wait'' no_inputs"]
  note t2 = overlays_restored_exactly_once
              [of desktop_start no_source_desktop "action ''click'' no_inputs"]
  note t3 = overlays_restored_exactly_once
              [of desktop_start failing_capture_desktop "action ''click'' no_inputs"]
  note t4 = overlays_restored_exactly_once
              [of desktop_start failing_action_desktop "action ''click'' no_inputs"]
  from t1 n2 have a:
    "overlay_events desktop_start (snd (screenshot_NutJS example_desktop desktop_start)) =
       [HideOverlaysForExecution, RestoreOverlaysAfterExecution]"
    "overlay_events desktop_start
        (snd (execute_NutJS example_desktop (action ''wait'' no_inputs) desktop_start)) = []"
    by blast+
  from t2 have b:
    "overlay_events desktop_start (snd (screenshot_NutJS no_source_desktop desktop_start)) =
       [HideOverlaysForExecution, RestoreOverlaysAfterExecution]" by blast
  from t3 have c:
    "overlay_events desktop_start (snd (screenshot_NutJS failing_capture_desktop desktop_start)) =
       [HideOverlaysForExecution, RestoreOverlaysAfterExecution]" by blast
  from t4 n1 have d:
    "overlay_events desktop_start
        (snd (execute_NutJS failing_action_desktop (action ''click'' no_inputs) desktop_start)) =
       [HideOverlaysForExecution, RestoreOverlaysAfterExecution]"
    "last (events
        (snd (execute_NutJS failing_action_desktop (action ''click'' no_inputs) desktop_start))) =
       RestoreOverlaysAfterExecution"
    by blast+
  from a b c d n1 show ?thesis
    by (simp add: screenshot_runs execute_runs)
qed

section \<open>The clipboard after a pasted type action\<close>

lemma host_perform_keeps_clipboard:
  assumes "\<forall>t. x \<noteq> ClipboardWriteText t"
  shows "clipboard (snd (host_perform e x s)) = clipboard s"
  using assms by (cases x) (auto simp: host_perform_def split: option.splits)

lemma host_run_keeps_clipboard:
  assumes "\<And>t. ClipboardWriteText t \<notin> set xs"
  shows "clipboard (snd (host_run e xs s)) = clipboard s"
  using assms
proof (induction xs arbitrary: s)
  case Nil
  show ?case by simp
next
  case (Cons x xs)
  obtain r s1 where p: "host_perform e x s = (r, s1)" by (cases "host_perform e x s")
  from Cons.prems have "\<forall>t. x \<noteq> ClipboardWriteText t" by auto
  from host_perform_keeps_clipboard[of x e s, OF this] p
  have c1: "clipboard s1 = clipboard s" by simp
  from Cons.prems have "\<And>t. ClipboardWriteText t \<notin> set xs" by auto
  from Cons.IH[of s1, OF this] have "clipboard (snd (host_run e xs s1)) = clipboard s1" .
  with p c1 show ?case by (cases r) simp_all
qed

lemma host_run_paste_steps:
  assumes "paste_goes_through e"
  shows "host_run e (paste_steps c t) s =
           (Inr (), \<lparr>clipboard = t, events = events s @ paste_steps c t\<rparr>)"
  using assms
  by (simp add: paste_goes_through_def paste_steps_def host_perform_def can_throw_def
        record_event_def is_clipboard_call_def is_paste_key_def)

lemma enter_steps_filtered:
  "filter (\<lambda>x. is_clipboard_call x \<or> is_paste_key x) (enter_steps c) = []"
  "ClipboardWriteText t \<notin> set (enter_steps c)"
  by (simp_all add: enter_steps_def is_clipboard_call_def is_paste_key_def)

lemma paste_steps_filtered:
  "filter (\<lambda>x. is_clipboard_call x \<or> is_paste_key x) (paste_steps c t) =
     [ClipboardWriteText (stripContent c), PressKey [Key_LeftControl, Key_V],
      ReleaseKey [Key_LeftControl, Key_V], ClipboardWriteText t]"
  by (simp add: paste_steps_def is_clipboard_call_def is_paste_key_def)

lemma is_clipboard_call_simps:
  "\<not> is_clipboard_call HideOverlaysForExecution"
  "\<not> is_clipboard_call RestoreOverlaysAfterExecution"
  "\<not> is_clipboard_call (Sleep ms)"
  "\<not> is_clipboard_call (LoggerCall l m)"
  "is_clipboard_call ClipboardReadText"
  by (simp_all add: is_clipboard_call_def)

lemma is_paste_key_simps:
  "\<not> is_paste_key HideOverlaysForExecution"
  "\<not> is_paste_key RestoreOverlaysAfterExecution"
  "\<not> is_paste_key (Sleep ms)"
  "\<not> is_paste_key (LoggerCall l m)"
  "\<not> is_paste_key ClipboardReadText"
  by (simp_all add: is_paste_key_def)

lemma type_by_paste_restores:
  assumes go: "paste_goes_through e"
      and f1: "\<And>c. filter (\<lambda>x. is_clipboard_call x \<or> is_paste_key x) (f c) = []"
      and f2: "\<And>c t. ClipboardWriteText t \<notin> set (f c)"
  shows "clipboard (snd (type_by_paste e f p s)) = clipboard s
       \<and> (\<exists>ys. events (snd (type_by_paste e f p s)) =
                 events s @ [LoggerCall Info ''[device] type'', ClipboardReadText]
                   @ paste_steps (trim (or_empty (content (inputs p)))) (clipboard s) @ ys
               \<and> filter (\<lambda>x. is_clipboard_call x \<or> is_paste_key x) ys = [])"
proof -
  define c where "c = trim (or_empty (content (inputs p)))"
  define s2 where "s2 = record_event ClipboardReadText
                          (record_event (LoggerCall Info ''[device] type'') s)"
  define s3 where "s3 = \<lparr>clipboard = clipboard s, events = events s2 @ paste_steps c (clipboard s)\<rparr>"
  have rd: "host_perform e ClipboardReadText (record_event (LoggerCall Info ''[device] type'') s)
              = (Inr (), s2)"
    using go
    by (simp add: paste_goes_through_def host_perform_def can_throw_def s2_def
          is_clipboard_call_def)
  have c2: "clipboard s2 = clipboard s" by (simp add: s2_def)
  have run: "host_run e (paste_steps c (clipboard s) @ f c) s2 = host_run e (f c) s3"
    by (simp add: host_run_append host_run_paste_steps[OF go] s3_def)
  obtain r s4 where tail: "host_run e (f c) s3 = (r, s4)" by (cases "host_run e (f c) s3")
  from host_run_filter_none[OF f1, of e c s3] tail obtain ys where
    ys: "events s4 = events s3 @ ys"
        "filter (\<lambda>x. is_clipboard_call x \<or> is_paste_key x) ys = []"
    by auto
  from host_run_keeps_clipboard[of "f c" e s3, OF f2] tail
  have c4: "clipboard s4 = clipboard s" by (simp add: s3_def)
  have "snd (type_by_paste e f p s) = s4"
    using rd run tail c2
    by (simp add: type_by_paste_def Let_def c_def[symmetric] split: sum.splits)
  with c4 ys show ?thesis
    by (simp add: s3_def s2_def c_def)
qed

lemma execute_paste_shape:
  assumes "pastes e p"
  shows "needsOverlayHide (action_type p)"
  using assms by (simp add: pastes_def needsOverlayHide_def)

text \<open>
  Claim C9, as the code has it. On Windows, for a \<^verbatim>\<open>type\<close> action with content, on a host
  where the clipboard calls and the two paste keystrokes do not throw, \<^verbatim>\<open>execute\<close> (the current one and the one
  of \<^verbatim>\<open>part_008\<close>) reads the clipboard, writes the stripped content, presses and releases
  the paste keys, and writes the text it read back, in this order and with no other clipboard
  call; the text of the clipboard after the call is the text before it, whether or not the
  Enter key that may follow throws.
\<close>

theorem clipboard_restored_after_paste:
  assumes "pastes e p" and "paste_goes_through e"
  shows "clipboard (snd (execute_NutJS e p s)) = clipboard s
       \<and> clipboard_and_paste s (snd (execute_NutJS e p s)) =
           [ClipboardReadText,
            ClipboardWriteText (stripContent (trim (or_empty (content (inputs p))))),
            PressKey [Key_LeftControl, Key_V],
            ReleaseKey [Key_LeftControl, Key_V],
            ClipboardWriteText (clipboard s)]
       \<and> clipboard (snd (execute_NutJS_part_008 e p s)) = clipboard s
       \<and> clipboard_and_paste s (snd (execute_NutJS_part_008 e p s)) =
           [ClipboardReadText,
            ClipboardWriteText (stripContent (trim (or_empty (content (inputs p))))),
            PressKey [Key_LeftControl, Key_V],
            ReleaseKey [Key_LeftControl, Key_V],
            ClipboardWriteText (clipboard s)]"
proof -
  let ?c = "trim (or_empty (content (inputs p)))"
  let ?F = "\<lambda>x. is_clipboard_call x \<or> is_paste_key x"
  note needs = execute_paste_shape[OF assms(1)]
  have current:
    "clipboard (snd (execute_NutJS e p s)) = clipboard s
     \<and> clipboard_and_paste s (snd (execute_NutJS e p s)) =
         [ClipboardReadText, ClipboardWriteText (stripContent ?c),
          PressKey [Key_LeftControl, Key_V], ReleaseKey [Key_LeftControl, Key_V],
          ClipboardWriteText (clipboard s)]"
  proof -
    define s1 where "s1 = record_event (Sleep (if isWindows e then 200 else 50))
                            (record_event HideOverlaysForExecution s)"
    from type_by_paste_restores[of e enter_steps p s1, OF assms(2) enter_steps_filtered]
    obtain ys where
      b: "clipboard (snd (type_by_paste e enter_steps p s1)) = clipboard s1"
         "events (snd (type_by_paste e enter_steps p s1)) =
            events s1 @ [LoggerCall Info ''[device] type'', ClipboardReadText]
              @ paste_steps ?c (clipboard s1) @ ys"
         "filter ?F ys = []"
      by blast
    have ex: "snd (execute_NutJS e p s) =
            record_event RestoreOverlaysAfterExecution
              (record_event (Sleep 100) (snd (type_by_paste e enter_steps p s1)))"
      using assms(1) needs
      by (simp add: execute_NutJS_def Let_def s1_def[symmetric] split: prod.splits)
    show ?thesis
      unfolding ex clipboard_and_paste_def desktop_performed_def
      using b
      by (simp add: s1_def paste_steps_filtered is_clipboard_call_simps is_paste_key_simps)
  qed
  have earlier:
    "clipboard (snd (execute_NutJS_part_008 e p s)) = clipboard s
     \<and> clipboard_and_paste s (snd (execute_NutJS_part_008 e p s)) =
         [ClipboardReadText, ClipboardWriteText (stripContent ?c),
          PressKey [Key_LeftControl, Key_V], ReleaseKey [Key_LeftControl, Key_V],
          ClipboardWriteText (clipboard s)]"
  proof -
    define s1 where "s1 = record_event (Sleep 50) (record_event HideOverlaysForExecution s)"
    have n1: "\<And>c. filter ?F ((\<lambda>c. []) c) = []"
      and n2: "\<And>c t. ClipboardWriteText t \<notin> set ((\<lambda>c. []) c)" by simp_all
    from type_by_paste_restores[of e "\<lambda>c. []" p s1, OF assms(2) n1 n2]
    obtain ys where
      b: "clipboard (snd (type_by_paste e (\<lambda>c. []) p s1)) = clipboard s1"
         "events (snd (type_by_paste e (\<lambda>c. []) p s1)) =
            events s1 @ [LoggerCall Info ''[device] type'', ClipboardReadText]
              @ paste_steps ?c (clipboard s1) @ ys"
         "filter ?F ys = []"
      by blast
    have ex: "snd (execute_NutJS_part_008 e p s) =
            record_event RestoreOverlaysAfterExecution
              (record_event (Sleep 100) (snd (type_by_paste e (\<lambda>c. []) p s1)))"
      using assms(1) needs
      by (simp add: execute_NutJS_part_008_def Let_def s1_def[symmetric] split: prod.splits)
    show ?thesis
      unfolding ex clipboard_and_paste_def desktop_performed_def
      using b
      by (simp add: s1_def paste_steps_filtered is_clipboard_call_simps is_paste_key_simps)
  qed
  from current earlier show ?thesis by simp
qed

theorem clipboard_restored_after_paste_witness:
  "pastes failing_enter_desktop
     (action ''type'' (no_inputs\<lparr>content := Some (''hello'' @ [backslash, CHR ''n''])\<rparr>))
   \<and> (\<forall>h t. throws failing_enter_desktop h ClipboardReadText = None
           \<and> throws failing_enter_desktop h (ClipboardWriteText t) = None
           \<and> throws failing_enter_desktop h (PressKey [Key_LeftControl, Key_V]) = None
           \<and> throws failing_enter_desktop h (ReleaseKey [Key_LeftControl, Key_V]) = None)
   \<and> clipboard desktop_start = ''kept''
   \<and> execute_NutJS failing_enter_desktop
        (action ''type'' (no_inputs\<lparr>content := Some (''hello'' @ [backslash, CHR ''n''])\<rparr>))
        desktop_start =
       (Inl action_error,
        \<lparr>clipboard = ''kept'',
         events = [HideOverlaysForExecution, Sleep 200, LoggerCall Info ''[device] type'',
                   ClipboardReadText, ClipboardWriteText ''hello'',
                   PressKey [Key_LeftControl, Key_V], Sleep 50,
                   ReleaseKey [Key_LeftControl, Key_V], Sleep 50,
                   ClipboardWriteText ''kept'', PressKey [Key_Enter], Sleep 100,
                   RestoreOverlaysAfterExecution]\<rparr>)
   \<and> execute_NutJS_part_008 failing_enter_desktop
        (action ''type'' (no_inputs\<lparr>content := Some (''hello'' @ [backslash, CHR ''n''])\<rparr>))
        desktop_start =
       (Inr None,
        \<lparr>clipboard = ''kept'',
         events = [HideOverlaysForExecution, Sleep 50, LoggerCall Info ''[device] type'',
                   ClipboardReadText, ClipboardWriteText ''hello'',
                   PressKey [Key_LeftControl, Key_V], Sleep 50,
                   ReleaseKey [Key_LeftControl, Key_V], Sleep 50,
                   ClipboardWriteText ''kept'', Sleep 100,
                   RestoreOverlaysAfterExecution]\<rparr>)
   \<and> clipboard (snd (execute_NutJS failing_enter_desktop
        (action ''type'' (no_inputs\<lparr>content := Some (''hello'' @ [backslash, CHR ''n''])\<rparr>))
        desktop_start)) = clipboard desktop_start
   \<and> clipboard_and_paste desktop_start (snd (execute_NutJS failing_enter_desktop
        (action ''type'' (no_inputs\<lparr>content := Some (''hello'' @ [backslash, CHR ''n''])\<rparr>))
        desktop_start)) =
       [ClipboardReadText, ClipboardWriteText ''hello'', PressKey [Key_LeftControl, Key_V],
        ReleaseKey [Key_LeftControl, Key_V], ClipboardWriteText ''kept'']"
proof -
  let ?p = "action ''type'' (no_inputs\<lparr>content := Some (''hello'' @ [backslash, CHR ''n''])\<rparr>)"
  have h1: "pastes failing_enter_desktop ?p"
    by (simp add: pastes_def action_def no_inputs_def truthy_def failing_enter_desktop_def
          example_desktop_def)
  have h2': "\<forall>h t. throws failing_enter_desktop h ClipboardReadText = None
           \<and> throws failing_enter_desktop h (ClipboardWriteText t) = None
           \<and> throws failing_enter_desktop h (PressKey [Key_LeftControl, Key_V]) = None
           \<and> throws failing_enter_desktop h (ReleaseKey [Key_LeftControl, Key_V]) = None"
    by (simp add: failing_enter_desktop_def example_desktop_def)
  have h2: "paste_goes_through failing_enter_desktop"
    by (auto simp: paste_goes_through_def failing_enter_desktop_def example_desktop_def
          is_clipboard_call_def is_paste_key_def)
  have sc: "stripContent (trim (or_empty (content (inputs ?p)))) = ''hello''"
    by (simp add: stripContent_def replace_at_end_def endsWith_def trim_def is_js_space_def
          or_empty_def action_def no_inputs_def backslash_def newline_def)
  have k: "clipboard desktop_start = ''kept''" by (simp add: desktop_start_def)
  have r1: "execute_NutJS failing_enter_desktop ?p desktop_start =
       (Inl action_error,
        \<lparr>clipboard = ''kept'',
         events = [HideOverlaysForExecution, Sleep 200, LoggerCall Info ''[device] type'',
                   ClipboardReadText, ClipboardWriteText ''hello'',
                   PressKey [Key_LeftControl, Key_V], Sleep 50,
                   ReleaseKey [Key_LeftControl, Key_V], Sleep 50,
                   ClipboardWriteText ''kept'', PressKey [Key_Enter], Sleep 100,
                   RestoreOverlaysAfterExecution]\<rparr>)"
    by (simp add: execute_NutJS_def type_by_paste_def paste_steps_def enter_steps_def
        stripContent_def replace_at_end_def endsWith_def trim_def is_js_space_def
        pastes_def truthy_def or_empty_def needsOverlayHide_def backslash_def newline_def
        host_perform_def can_throw_def record_event_def action_def no_inputs_def
        example_desktop_def failing_enter_desktop_def desktop_start_def Let_def)
  have r2: "execute_NutJS_part_008 failing_enter_desktop ?p desktop_start =
       (Inr None,
        \<lparr>clipboard = ''kept'',
         events = [HideOverlaysForExecution, Sleep 50, LoggerCall Info ''[device] type'',
                   ClipboardReadText, ClipboardWriteText ''hello'',
                   PressKey [Key_LeftControl, Key_V], Sleep 50,
                   ReleaseKey [Key_LeftControl, Key_V], Sleep 50,
                   ClipboardWriteText ''kept'', Sleep 100,
                   RestoreOverlaysAfterExecution]\<rparr>)"
    by (simp add: execute_NutJS_part_008_def type_by_paste_def paste_steps_def
        stripContent_def replace_at_end_def endsWith_def trim_def is_js_space_def
        pastes_def truthy_def or_empty_def needsOverlayHide_def backslash_def newline_def
        host_perform_def can_throw_def record_event_def action_def no_inputs_def
        example_desktop_def failing_enter_desktop_def desktop_start_def Let_def)
  from clipboard_restored_after_paste[OF h1 h2, of desktop_start]
  have t: "clipboard (snd (execute_NutJS failing_enter_desktop ?p desktop_start)) =
             clipboard desktop_start"
    "clipboard_and_paste desktop_start (snd (execute_NutJS failing_enter_desktop ?p desktop_start)) =
       [ClipboardReadText, ClipboardWriteText ''hello'', PressKey [Key_LeftControl, Key_V],
        ReleaseKey [Key_LeftControl, Key_V], ClipboardWriteText ''kept'']"
    unfolding sc k by simp_all
  from h1 h2' k r1 r2 t show ?thesis by (intro conjI)
qed

text \<open>
  Claim C9 as stated says that the text of the clipboard after the action is the text before
  it. The original text is written back only after the paste keystrokes, and outside the
  \<^verbatim>\<open>finally\<close> block: when pressing the paste keys throws, \<^verbatim>\<open>execute\<close> throws with the typed
  content left in the clipboard, in the current \<^verbatim>\<open>execute\<close> and in the one of \<^verbatim>\<open>part_008\<close>.
\<close>

theorem paste_failure_keeps_typed_content:
  "pastes failing_paste_desktop (action ''type'' (no_inputs\<lparr>content := Some ''hello''\<rparr>))
   \<and> clipboard desktop_start = ''kept''
   \<and> execute_NutJS failing_paste_desktop
        (action ''type'' (no_inputs\<lparr>content := Some ''hello''\<rparr>)) desktop_start =
       (Inl action_error,
        \<lparr>clipboard = ''hello'',
         events = [HideOverlaysForExecution, Sleep 200, LoggerCall Info ''[device] type'',
                   ClipboardReadText, ClipboardWriteText ''hello'',
                   PressKey [Key_LeftControl, Key_V], Sleep 100,
                   RestoreOverlaysAfterExecution]\<rparr>)
   \<and> execute_NutJS_part_008 failing_paste_desktop
        (action ''type'' (no_inputs\<lparr>content := Some ''hello''\<rparr>)) desktop_start =
       (Inl action_error,
        \<lparr>clipboard = ''hello'',
         events = [HideOverlaysForExecution, Sleep 50, LoggerCall Info ''[device] type'',
                   ClipboardReadText, ClipboardWriteText ''hello'',
                   PressKey [Key_LeftControl, Key_V], Sleep 100,
                   RestoreOverlaysAfterExecution]\<rparr>)"
  by (simp add: execute_NutJS_def execute_NutJS_part_008_def type_by_paste_def paste_steps_def
        enter_steps_def stripContent_def replace_at_end_def endsWith_def trim_def is_js_space_def
        pastes_def truthy_def or_empty_def needsOverlayHide_def backslash_def newline_def
        host_perform_def can_throw_def record_event_def action_def no_inputs_def
        example_desktop_def failing_paste_desktop_def desktop_start_def Let_def)

end
